(* ===== verification/Prelude.thy ===== *)
theory Prelude
  imports Main "HOL-Library.Word"
begin

text \<open>
  Shared vocabulary of the development: the machine types of the client
  (HTTP status codes are Rust \<open>u16\<close>), the error-propagating bind that models
  Rust's \<open>?\<close> operator on \<open>Result\<close>, a left fold that stops at the first
  error (the \<open>for\<close> loops of the index-configuration macro that return early),
  and the simp collections the component theories share.
\<close>

named_theorems result_simps "rewrite rules for results built with bind_result"

type_synonym u16 = "16 word"

text \<open>A \<open>serde_json::Error\<close> or \<open>yaup::Error\<close> is kept as its message.\<close>

type_synonym json_error = string

subsection \<open>Rust's \<open>?\<close> on \<open>Result\<close>\<close>

definition bind_result :: "'e + 'a \<Rightarrow> ('a \<Rightarrow> 'e + 'b) \<Rightarrow> 'e + 'b" where
  "bind_result r f = (case r of Inl e \<Rightarrow> Inl e | Inr a \<Rightarrow> f a)"

lemma bind_result_Inl [simp, result_simps]: "bind_result (Inl e) f = Inl e"
  by (simp add: bind_result_def)

lemma bind_result_Inr [simp, result_simps]: "bind_result (Inr a) f = f a"
  by (simp add: bind_result_def)

lemma bind_result_eq_Inr_iff [result_simps]:
  "bind_result r f = Inr b \<longleftrightarrow> (\<exists>a. r = Inr a \<and> f a = Inr b)"
  by (cases r) simp_all

lemma bind_result_eq_Inl_iff [result_simps]:
  "bind_result r f = Inl e \<longleftrightarrow> r = Inl e \<or> (\<exists>a. r = Inr a \<and> f a = Inl e)"
  by (cases r) simp_all

subsection \<open>Loops that return at the first error\<close>

text \<open>
  \<open>fold_result f s xs\<close> runs the body \<open>f\<close> over \<open>xs\<close> from state \<open>s\<close>,
  returning the first error a step raises, as a Rust \<open>for\<close> loop whose body
  uses \<open>?\<close> or \<open>return Err(..)\<close>.
\<close>

fun fold_result :: "('s \<Rightarrow> 'a \<Rightarrow> 'e + 's) \<Rightarrow> 's \<Rightarrow> 'a list \<Rightarrow> 'e + 's" where
  "fold_result f s [] = Inr s"
| "fold_result f s (x # xs) = bind_result (f s x) (\<lambda>s'. fold_result f s' xs)"

lemma fold_result_append [result_simps]:
  "fold_result f s (xs @ ys) = bind_result (fold_result f s xs) (\<lambda>s'. fold_result f s' ys)"
  by (induction xs arbitrary: s) (auto simp: bind_result_def split: sum.splits)

lemma fold_result_invariant:
  assumes "P s"
    and "\<And>s x s'. P s \<Longrightarrow> x \<in> set xs \<Longrightarrow> f s x = Inr s' \<Longrightarrow> P s'"
    and "fold_result f s xs = Inr s'"
  shows "P s'"
  using assms
proof (induction xs arbitrary: s)
  case Nil
  then show ?case by simp
next
  case (Cons x xs)
  from Cons.prems(3) obtain s1 where s1: "f s x = Inr s1" and rest: "fold_result f s1 xs = Inr s'"
    by (auto simp: bind_result_eq_Inr_iff)
  have "P s1" using Cons.prems(2) [OF Cons.prems(1) _ s1] by simp
  moreover have "\<And>s x s'. P s \<Longrightarrow> x \<in> set xs \<Longrightarrow> f s x = Inr s' \<Longrightarrow> P s'"
    using Cons.prems(2) by (metis list.set_intros(2))
  ultimately show ?case using Cons.IH rest by blast
qed

lemma fold_result_all_ok:
  assumes "\<And>s x. x \<in> set xs \<Longrightarrow> \<exists>s'. f s x = Inr s'"
  shows "\<exists>s'. fold_result f s xs = Inr s'"
  using assms
proof (induction xs arbitrary: s)
  case Nil
  then show ?case by simp
next
  case (Cons x xs)
  obtain s1 where s1: "f s x = Inr s1" using Cons.prems by auto
  have "\<exists>s'. fold_result f s1 xs = Inr s'" using Cons.IH Cons.prems by simp
  with s1 show ?case by simp
qed

end
