(* ===== verification/Errors.thy ===== *)
theory Errors
  imports Prelude
begin

text \<open>
  The error taxonomy of the client (\<open>errors.rs\<close> of the crate, which is not
  among the staged sources: modelled from the specification, section 3 and 7).
  A service error carries the structured payload the server sent; a
  communication error the status and the URL of a response whose body was not
  a service error; a parse error the deserializer's message.
\<close>

record meilisearch_error =
  error_message :: string
  error_code :: string
  error_type :: string
  error_link :: string

record meilisearch_communication_error =
  status_code :: u16
  message :: "string option"
  url :: string

datatype error =
    Meilisearch meilisearch_error
  | MeilisearchCommunication meilisearch_communication_error
  | ParseError json_error
  | Timeout
  | InvalidRequest
  | HttpError string
  | Yaup json_error

text \<open>
  The errors that classify a response the transport did deliver, against those
  that arise before a response exists (a transport failure, a query that does
  not serialize) or outside the dispatcher (the poller's timeout).
\<close>

fun is_response_error :: "error \<Rightarrow> bool" where
  "is_response_error (Meilisearch _) = True"
| "is_response_error (MeilisearchCommunication _) = True"
| "is_response_error (ParseError _) = True"
| "is_response_error _ = False"

end
