(* ===== verification/Request.thy ===== *)
theory Request
  imports Errors
begin

text \<open>
  The request dispatcher of \<open>src/src/request.rs\<close>: the wire method
  (\<open>mod method\<close>), the user-agent string (\<open>qualified_version\<close>), the query
  string (\<open>add_query_parameters\<close>), the transport capability (trait
  \<open>RequestClient\<close>) with its provided methods \<open>request\<close> and
  \<open>parse_response\<close>, and the entry point \<open>request\<close> that selects the native or
  the browser transport.

  The transport is an interface: a record of the trait's eight operations over
  the client's builder type \<open>'c\<close>, its prepared request \<open>'req\<close>, its response
  \<open>'resp\<close> and the state of the outside world \<open>'w\<close>. The two suspending
  operations (\<open>send_request\<close>, \<open>response_to_text\<close>) take and return the world,
  so the network is explicit state: a fake server, a log of what was sent.
  The serde and yaup libraries the code calls are parameters of the crate
  environment \<open>crate_env\<close>: \<open>from_str\<close> is \<open>serde_json::from_str::<Output>\<close>,
  \<open>from_str_error\<close> is \<open>serde_json::from_str::<MeilisearchError>\<close>,
  \<open>yaup_to_string\<close> is \<open>yaup::to_string\<close>, and \<open>cargo_pkg_version\<close> is
  \<open>option_env!("CARGO_PKG_VERSION")\<close>.
\<close>

section \<open>The wire method\<close>

datatype ('q, 'b) Method =
    Get 'q
  | Post 'q 'b
  | Patch 'q 'b
  | Put 'q 'b
  | Delete 'q

text \<open>The verbs of the \<open>http\<close> crate the code uses.\<close>

datatype HttpMethod = GET | POST | PATCH | PUT | DELETE

fun query :: "('q, 'b) Method \<Rightarrow> 'q" where
  "query (Get q) = q"
| "query (Post q _) = q"
| "query (Patch q _) = q"
| "query (Put q _) = q"
| "query (Delete q) = q"

fun http_method :: "('q, 'b) Method \<Rightarrow> HttpMethod" where
  "http_method (Get _) = GET"
| "http_method (Post _ _) = POST"
| "http_method (Patch _ _) = PATCH"
| "http_method (Put _ _) = PUT"
| "http_method (Delete _) = DELETE"

section \<open>Crate environment, user agent and query string\<close>

record ('q, 'o) crate_env =
  cargo_pkg_version :: "string option"
  yaup_to_string :: "'q \<Rightarrow> json_error + string"
  from_str :: "string \<Rightarrow> json_error + 'o"
  from_str_error :: "string \<Rightarrow> json_error + meilisearch_error"

definition qualified_version :: "string option \<Rightarrow> string" where
  "qualified_version version =
     ''Meilisearch Rust (v'' @ (case version of None \<Rightarrow> ''unknown'' | Some v \<Rightarrow> v) @ '')''"

text \<open>
  \<open>yaup::to_string(query)?\<close> converts a yaup error into \<open>Error::Yaup\<close>; an empty
  query string leaves the URL as it is, any other is appended after \<open>?\<close>.
\<close>

definition add_query_parameters ::
  "('q \<Rightarrow> json_error + string) \<Rightarrow> string \<Rightarrow> 'q \<Rightarrow> error + string" where
  "add_query_parameters to_string base_url q =
     (case to_string q of
        Inl e \<Rightarrow> Inl (Yaup e)
      | Inr qs \<Rightarrow> Inr (if qs = [] then base_url else base_url @ ''?'' @ qs))"

definition CONTENT_TYPE :: string where
  "CONTENT_TYPE = ''application/json''"

section \<open>The transport capability\<close>

record ('c, 'q, 'b, 'req, 'resp, 'w) request_client =
  new :: "string \<Rightarrow> 'c"
  with_authorization_header :: "'c \<Rightarrow> string \<Rightarrow> 'c"
  with_user_agent_header :: "'c \<Rightarrow> string \<Rightarrow> 'c"
  with_method :: "'c \<Rightarrow> HttpMethod \<Rightarrow> 'c"
  add_body :: "'c \<Rightarrow> ('q, 'b) Method \<Rightarrow> string \<Rightarrow> 'req"
  send_request :: "'req \<Rightarrow> 'w \<Rightarrow> (error + 'resp) \<times> 'w"
  extract_status_code :: "'resp \<Rightarrow> u16"
  response_to_text :: "'resp \<Rightarrow> 'w \<Rightarrow> (error + string) \<times> 'w"

section \<open>Response parsing\<close>

text \<open>An empty body is read as the JSON literal \<open>null\<close>.\<close>

definition empty_as_null :: "string \<Rightarrow> string" where
  "empty_as_null body = (if body = [] then ''null'' else body)"

definition parse_response ::
  "(string \<Rightarrow> json_error + 'o) \<Rightarrow> (string \<Rightarrow> json_error + meilisearch_error) \<Rightarrow>
   u16 \<Rightarrow> u16 \<Rightarrow> string \<Rightarrow> string \<Rightarrow> error + 'o" where
  "parse_response dec dec_error status expected_status_code body0 base_url =
     (let body = empty_as_null body0 in
      if status = expected_status_code then
        (case dec body of
           Inr output \<Rightarrow> Inr output
         | Inl e \<Rightarrow> Inl (ParseError e))
      else
        (case dec_error body of
           Inr e \<Rightarrow> Inl (Meilisearch e)
         | Inl e \<Rightarrow>
             (if 400 \<le> status then
                Inl (MeilisearchCommunication
                       \<lparr>status_code = status, message = None, url = base_url\<rparr>)
              else Inl (ParseError e))))"

section \<open>The provided method \<open>RequestClient::request\<close>\<close>

text \<open>
  Building the request, up to \<open>add_body\<close>: the URL with its query string, the
  verb, the user agent, and the bearer token when an API key is given.
\<close>

definition prepare_request ::
  "('c, 'q, 'b, 'req, 'resp, 'w) request_client \<Rightarrow> ('q, 'o) crate_env \<Rightarrow>
   string \<Rightarrow> string option \<Rightarrow> ('q, 'b) Method \<Rightarrow> string \<Rightarrow> error + 'req" where
  "prepare_request rc env base_url apikey m content_type =
     bind_result (add_query_parameters (yaup_to_string env) base_url (query m)) (\<lambda>u.
       let c = with_user_agent_header rc (with_method rc (new rc u) (http_method m))
                 (qualified_version (cargo_pkg_version env));
           c' = (case apikey of
                   None \<Rightarrow> c
                 | Some k \<Rightarrow> with_authorization_header rc c (''Bearer '' @ k))
       in Inr (add_body rc c' m content_type))"

definition rc_request ::
  "('c, 'q, 'b, 'req, 'resp, 'w) request_client \<Rightarrow> ('q, 'o) crate_env \<Rightarrow>
   string \<Rightarrow> string option \<Rightarrow> ('q, 'b) Method \<Rightarrow> string \<Rightarrow> u16 \<Rightarrow> 'w \<Rightarrow>
   (error + 'o) \<times> 'w" where
  "rc_request rc env base_url apikey m content_type expected_status_code w =
     (case prepare_request rc env base_url apikey m content_type of
        Inl e \<Rightarrow> (Inl e, w)
      | Inr req \<Rightarrow>
          (case send_request rc req w of
             (Inl e, w1) \<Rightarrow> (Inl e, w1)
           | (Inr response, w1) \<Rightarrow>
               (let status = extract_status_code rc response in
                case response_to_text rc response w1 of
                  (Inl e, w2) \<Rightarrow> (Inl e, w2)
                | (Inr text, w2) \<Rightarrow>
                    (parse_response (from_str env) (from_str_error env)
                       status expected_status_code text base_url, w2))))"

section \<open>The entry point: one transport per target\<close>

datatype target_arch = Native | Wasm32

definition request ::
  "target_arch \<Rightarrow> ('c1, 'q, 'b, 'req1, 'resp1, 'w) request_client \<Rightarrow>
   ('c2, 'q, 'b, 'req2, 'resp2, 'w) request_client \<Rightarrow> ('q, 'o) crate_env \<Rightarrow>
   string \<Rightarrow> string option \<Rightarrow> ('q, 'b) Method \<Rightarrow> u16 \<Rightarrow> 'w \<Rightarrow> (error + 'o) \<times> 'w" where
  "request arch native browser env base_url apikey m expected_status_code w =
     (case arch of
        Native \<Rightarrow> rc_request native env base_url apikey m CONTENT_TYPE expected_status_code w
      | Wasm32 \<Rightarrow> rc_request browser env base_url apikey m CONTENT_TYPE expected_status_code w)"

section \<open>Properties of response parsing\<close>

text \<open>The two branches of \<open>parse_response\<close>, on the expected status and off it.\<close>

lemma parse_response_expected [result_simps]:
  "s = x \<Longrightarrow> parse_response dec de s x body u =
     (case dec (empty_as_null body) of Inr v \<Rightarrow> Inr v | Inl e \<Rightarrow> Inl (ParseError e))"
  by (simp add: parse_response_def)

lemma parse_response_unexpected [result_simps]:
  "s \<noteq> x \<Longrightarrow> parse_response dec de s x body u =
     (case de (empty_as_null body) of
        Inr e \<Rightarrow> Inl (Meilisearch e)
      | Inl e \<Rightarrow> (if 400 \<le> s then
                   Inl (MeilisearchCommunication \<lparr>status_code = s, message = None, url = u\<rparr>)
                 else Inl (ParseError e)))"
  by (simp add: parse_response_def)

lemma empty_as_null_nonempty [simp]: "empty_as_null body \<noteq> []"
  by (simp add: empty_as_null_def)

text \<open>C1: a value is returned exactly when the status is the expected one and
  the (null-substituted) body decodes to that value.\<close>

theorem parse_response_ok_iff:
  "parse_response dec de s x body u = Inr v \<longleftrightarrow> s = x \<and> dec (empty_as_null body) = Inr v"
  by (auto simp: parse_response_def Let_def split: sum.splits)

text \<open>C2: expected status, body of the wrong shape: a parse error.\<close>

theorem parse_response_expected_parse_error:
  assumes "s = x" and "dec (empty_as_null body) = Inl j"
  shows "parse_response dec de s x body u = Inl (ParseError j)"
  using assms by (simp add: parse_response_expected)

text \<open>C3: another status and a structured error body: a service error
  carrying that payload, its error code included.\<close>

theorem parse_response_service_error:
  assumes "s \<noteq> x" and "de (empty_as_null body) = Inr e"
  shows "parse_response dec de s x body u = Inl (Meilisearch e)"
  using assms by (simp add: parse_response_unexpected)

text \<open>C4: another status of at least 400 and a body that is no error payload:
  a communication error with that status and the request's base URL.\<close>

theorem parse_response_communication_error:
  assumes "s \<noteq> x" and "de (empty_as_null body) = Inl j" and "400 \<le> s"
  shows "parse_response dec de s x body u =
           Inl (MeilisearchCommunication \<lparr>status_code = s, message = None, url = u\<rparr>)"
  using assms by (simp add: parse_response_def)

text \<open>C5: another status below 400 and a body that is no error payload: the
  error decoder's failure is raised as a parse error, not swallowed.\<close>

theorem parse_response_low_status_parse_error:
  assumes "s \<noteq> x" and "de (empty_as_null body) = Inl j" and "s < 400"
  shows "parse_response dec de s x body u = Inl (ParseError j)"
  using assms by (simp add: parse_response_unexpected not_le [symmetric])

text \<open>C6: an empty body is parsed as the JSON literal \<open>null\<close>.\<close>

theorem parse_response_empty_body:
  "parse_response dec de s x [] u = parse_response dec de s x ''null'' u"
  by (simp add: parse_response_def empty_as_null_def)

section \<open>Properties of the dispatcher\<close>

text \<open>C7: when the URL cannot be built (the query does not serialize), the
  request fails with that error before anything is sent: the world is
  unchanged.\<close>

theorem rc_request_prepare_error:
  assumes "prepare_request rc env u k m ct = Inl e"
  shows "rc_request rc env u k m ct x w = (Inl e, w)"
  using assms by (simp add: rc_request_def)

text \<open>A transport failure is returned as it is, after the one send.\<close>

lemma rc_request_send_error:
  assumes "prepare_request rc env u k m ct = Inr req"
    and "send_request rc req w = (Inl e, w1)"
  shows "rc_request rc env u k m ct x w = (Inl e, w1)"
  using assms by (simp add: rc_request_def)

text \<open>C8: when the transport delivers a response, the result is the parse of
  its status and text against the expected status, with the base URL (the
  one without the query string) as the error's URL.\<close>

theorem rc_request_delivered:
  assumes "prepare_request rc env u k m ct = Inr req"
    and "send_request rc req w = (Inr resp, w1)"
    and "response_to_text rc resp w1 = (Inr t, w2)"
  shows "rc_request rc env u k m ct x w =
           (parse_response (from_str env) (from_str_error env) (extract_status_code rc resp) x t u, w2)"
  using assms by (simp add: rc_request_def)

text \<open>C9: the URL with its query string splits back, at its first \<open>?\<close>, into
  the base URL and the serialized query; it has a \<open>?\<close> exactly when the
  query string is not empty.\<close>

theorem add_query_parameters_split:
  assumes "CHR ''?'' \<notin> set u" and "to_string q = Inr qs"
  shows "\<exists>r. add_query_parameters to_string u q = Inr r \<and>
             takeWhile (\<lambda>c. c \<noteq> CHR ''?'') r = u \<and>
             drop (Suc (length u)) r = qs \<and>
             (CHR ''?'' \<in> set r \<longleftrightarrow> qs \<noteq> [])"
proof -
  have tw: "takeWhile (\<lambda>c. c \<noteq> CHR ''?'') (u @ CHR ''?'' # qs) = u"
    using assms(1) by (induction u) auto
  show ?thesis
  proof (cases "qs = []")
    case True
    with assms show ?thesis
      by (auto simp: add_query_parameters_def takeWhile_eq_all_conv)
  next
    case False
    with assms tw show ?thesis by (simp add: add_query_parameters_def)
  qed
qed

section \<open>Witnesses\<close>

text \<open>Concrete decoders (one that reads the literal \<open>7\<close>, one that reads a
  service-error body) instantiate the lemmas above.\<close>

theorem parse_response_expected_parse_error_witness:
  "parse_response (\<lambda>b. if b = ''7'' then Inr (7::nat) else Inl ''invalid type'')
     (\<lambda>b. Inl ''not an error'') 200 200 [] ''http://h/indexes'' = Inl (ParseError ''invalid type'')"
  by (rule parse_response_expected_parse_error) (simp_all add: empty_as_null_def)

theorem parse_response_service_error_witness:
  "parse_response (\<lambda>b. Inr (0::nat))
     (\<lambda>b. Inr \<lparr>error_message = ''Index not found'', error_code = ''index_not_found'',
                error_type = ''invalid_request'', error_link = ''''\<rparr>) 404 200 ''{}'' ''u'' =
   Inl (Meilisearch \<lparr>error_message = ''Index not found'', error_code = ''index_not_found'',
                      error_type = ''invalid_request'', error_link = ''''\<rparr>)"
  by (rule parse_response_service_error) (simp_all add: empty_as_null_def)

theorem parse_response_communication_error_witness:
  "parse_response (\<lambda>b. Inr (0::nat)) (\<lambda>b. Inl ''expected value'') 502 202 ''Bad Gateway'' ''http://h'' =
   Inl (MeilisearchCommunication \<lparr>status_code = 502, message = None, url = ''http://h''\<rparr>)"
  by (rule parse_response_communication_error [where j = "''expected value''"]) simp_all

theorem parse_response_low_status_parse_error_witness:
  "parse_response (\<lambda>b. Inr (0::nat)) (\<lambda>b. Inl ''expected value'') 302 200 ''<html>'' ''http://h'' =
   Inl (ParseError ''expected value'')"
  by (rule parse_response_low_status_parse_error) simp_all

theorem add_query_parameters_split_witness:
  "add_query_parameters (\<lambda>q::nat. Inr ''limit=3'') ''http://h/indexes'' 3 =
     Inr ''http://h/indexes?limit=3''"
proof -
  obtain r where "add_query_parameters (\<lambda>q::nat. Inr ''limit=3'') ''http://h/indexes'' 3 = Inr r"
      and "takeWhile (\<lambda>c. c \<noteq> CHR ''?'') r = ''http://h/indexes''"
      and "drop (Suc (length ''http://h/indexes'')) r = ''limit=3''"
    using add_query_parameters_split [of "''http://h/indexes''" "\<lambda>q::nat. Inr ''limit=3''" 3 "''limit=3''"]
    by auto
  then show ?thesis by (simp add: add_query_parameters_def)
qed

end
