(* ===== verification/Tasks.thy ===== *)
theory Tasks
  imports Request
begin

text \<open>
  Tasks and the task poller (\<open>tasks.rs\<close>, \<open>task_info.rs\<close> and
  \<open>Client::wait_for_task\<close> of the crate, not among the staged sources: modelled
  from the specification, section 4.3). A task is fetched through the
  dispatcher with \<open>GET /tasks/{uid}\<close> and expected status 200; the poller
  fetches, returns a terminal task as it is, returns \<open>Timeout\<close> once the
  elapsed time exceeds the timeout, and otherwise sleeps one interval and
  polls again. Time is the poller's own clock in milliseconds: it advances by
  the interval at each sleep. With a zero interval and a task that never ends
  the loop does not return, so it is a \<open>partial_function (option)\<close> whose
  \<open>None\<close> is non-termination.
\<close>

section \<open>Task lifecycle\<close>

datatype task_status = Enqueued | Processing | Succeeded | Failed | Canceled

fun is_terminal :: "task_status \<Rightarrow> bool" where
  "is_terminal Enqueued = False"
| "is_terminal Processing = False"
| "is_terminal Succeeded = True"
| "is_terminal Failed = True"
| "is_terminal Canceled = True"

text \<open>The service's transitions: a task is processed, then succeeds, fails or
  is canceled; an enqueued task may be canceled before it runs.\<close>

inductive task_step :: "task_status \<Rightarrow> task_status \<Rightarrow> bool" where
  start: "task_step Enqueued Processing"
| succeed: "task_step Processing Succeeded"
| fail: "task_step Processing Failed"
| cancel_processing: "task_step Processing Canceled"
| cancel_enqueued: "task_step Enqueued Canceled"

inductive_cases task_step_from_terminalE: "task_step s s'"

record task =
  task_uid :: nat
  task_status :: task_status
  task_index_uid :: "string option"
  task_error :: "meilisearch_error option"

section \<open>Client, index handle and task fetch\<close>

record client =
  host :: string
  api_key :: "string option"

record index =
  index_client :: client
  uid :: string

definition client_index :: "client \<Rightarrow> string \<Rightarrow> index" where
  "client_index cl u = \<lparr>index_client = cl, uid = u\<rparr>"

fun digit_char :: "nat \<Rightarrow> char" where
  "digit_char d = ''0123456789'' ! d"

fun nat_to_string :: "nat \<Rightarrow> string" where
  "nat_to_string n = (if n < 10 then [digit_char n] else nat_to_string (n div 10) @ [digit_char (n mod 10)])"

definition get_task ::
  "('c, unit, unit, 'req, 'resp, 'w) request_client \<Rightarrow> (unit, task) crate_env \<Rightarrow> client \<Rightarrow> nat \<Rightarrow>
   'w \<Rightarrow> (error + task) \<times> 'w" where
  "get_task rc env cl task_id w =
     rc_request rc env (host cl @ ''/tasks/'' @ nat_to_string task_id) (api_key cl) (Get ())
       CONTENT_TYPE 200 w"

section \<open>The poller\<close>

definition DEFAULT_INTERVAL :: nat where "DEFAULT_INTERVAL = 50"

definition DEFAULT_TIMEOUT :: nat where "DEFAULT_TIMEOUT = 5000"

partial_function (option) wait_loop ::
  "('w \<Rightarrow> (error + task) \<times> 'w) \<Rightarrow> nat \<Rightarrow> nat \<Rightarrow> nat \<Rightarrow> 'w \<Rightarrow> ((error + task) \<times> nat \<times> 'w) option"
where
  "wait_loop fetch interval timeout elapsed w =
     (case fetch w of
        (Inl e, w') \<Rightarrow> Some (Inl e, elapsed, w')
      | (Inr t, w') \<Rightarrow>
          (if is_terminal (task_status t) then Some (Inr t, elapsed, w')
           else if timeout < elapsed then Some (Inl Timeout, elapsed, w')
           else wait_loop fetch interval timeout (elapsed + interval) w'))"

definition wait_for_task ::
  "('w \<Rightarrow> (error + task) \<times> 'w) \<Rightarrow> nat option \<Rightarrow> nat option \<Rightarrow> 'w \<Rightarrow>
   ((error + task) \<times> nat \<times> 'w) option" where
  "wait_for_task fetch interval timeout w =
     wait_loop fetch (case interval of None \<Rightarrow> DEFAULT_INTERVAL | Some i \<Rightarrow> i)
       (case timeout of None \<Rightarrow> DEFAULT_TIMEOUT | Some t \<Rightarrow> t) 0 w"

definition wait_for_completion ::
  "('c, unit, unit, 'req, 'resp, 'w) request_client \<Rightarrow> (unit, task) crate_env \<Rightarrow> client \<Rightarrow> nat \<Rightarrow>
   nat option \<Rightarrow> nat option \<Rightarrow> 'w \<Rightarrow> ((error + task) \<times> nat \<times> 'w) option" where
  "wait_for_completion rc env cl task_id interval timeout w =
     wait_for_task (get_task rc env cl task_id) interval timeout w"

text \<open>Turning a succeeded index-creation task into a live index handle; any
  other task is handed back to the caller.\<close>

definition try_make_index :: "client \<Rightarrow> task \<Rightarrow> task + index" where
  "try_make_index cl t =
     (case (task_status t, task_index_uid t) of
        (Succeeded, Some u) \<Rightarrow> Inr (client_index cl u)
      | _ \<Rightarrow> Inl t)"

section \<open>Specification-level predicates of the poller\<close>

text \<open>What a returned poll promises: the clock only advances, by at most one
  interval past the timeout; a returned task is terminal and is one the source
  produced; an error is the timeout, past the deadline, or one the source
  produced.\<close>

definition loop_post ::
  "('w \<Rightarrow> (error + task) \<times> 'w) \<Rightarrow> nat \<Rightarrow> nat \<Rightarrow> nat \<Rightarrow> (error + task) \<times> nat \<times> 'w \<Rightarrow> bool" where
  "loop_post fetch i T e res \<longleftrightarrow>
     (case res of (r, e', w') \<Rightarrow>
        e \<le> e' \<and> e' \<le> max e (T + i) \<and>
        (\<forall>t. r = Inr t \<longrightarrow> is_terminal (task_status t) \<and> (\<exists>w0. fst (fetch w0) = Inr t)) \<and>
        (\<forall>err. r = Inl err \<longrightarrow> (err = Timeout \<and> T < e') \<or> (\<exists>w0. fst (fetch w0) = Inl err)))"

text \<open>A scripted job source (the fake source of the specification's tests): the
  world is the number of polls made so far, and poll \<open>n\<close> answers \<open>src n\<close>.\<close>

definition scripted :: "(nat \<Rightarrow> error + task) \<Rightarrow> nat \<Rightarrow> (error + task) \<times> nat" where
  "scripted src n = (src n, Suc n)"

section \<open>Properties of the poller\<close>

text \<open>with a positive interval the poller always returns.\<close>

theorem wait_loop_terminates:
  assumes "0 < interval"
  shows "\<exists>r. wait_loop fetch interval timeout elapsed w = Some r"
proof (induction "Suc timeout - elapsed" arbitrary: elapsed w rule: less_induct)
  case less
  obtain r w' where fw: "fetch w = (r, w')" by fastforce
  show ?case
  proof (cases r)
    case (Inl e)
    with fw show ?thesis by (subst wait_loop.simps) simp
  next
    case (Inr t)
    show ?thesis
    proof (cases "is_terminal (task_status t) \<or> timeout < elapsed")
      case True
      with fw Inr show ?thesis by (subst wait_loop.simps) auto
    next
      case False
      then have "Suc timeout - (elapsed + interval) < Suc timeout - elapsed"
        using assms by auto
      then obtain r' where "wait_loop fetch interval timeout (elapsed + interval) w' = Some r'"
        using less by blast
      with False fw Inr have "wait_loop fetch interval timeout elapsed w = Some r'"
        by (subst wait_loop.simps) simp
      then show ?thesis by blast
    qed
  qed
qed

lemma wait_loop_post:
  assumes "wait_loop fetch i T e w = Some res"
  shows "loop_post fetch i T e res"
proof (rule wait_loop.raw_induct [where P = "\<lambda>fetch i T e w res. loop_post fetch i T e res", OF _ assms])
  fix f fetch i T e w res
  assume IH: "\<And>fetch i T e w res. f fetch i T e w = Some res \<Longrightarrow> loop_post fetch i T e res"
    and eq: "(case fetch w of
        (Inl e', w') \<Rightarrow> Some (Inl e', e, w')
      | (Inr t, w') \<Rightarrow>
          (if is_terminal (task_status t) then Some (Inr t, e, w')
           else if T < e then Some (Inl Timeout, e, w')
           else f fetch i T (e + i) w')) = Some res"
  obtain r w' where fw: "fetch w = (r, w')" by fastforce
  show "loop_post fetch i T e res"
  proof (cases r)
    case (Inl err)
    with fw eq show ?thesis by (auto simp: loop_post_def intro: exI [of _ w])
  next
    case (Inr t)
    show ?thesis
    proof (cases "is_terminal (task_status t) \<or> T < e")
      case True
      with fw eq Inr show ?thesis
        by (auto simp: loop_post_def split: if_splits intro: exI [of _ w])
    next
      case False
      with fw eq Inr have rec: "f fetch i T (e + i) w' = Some res" by simp
      from IH [OF rec] False show ?thesis
        by (auto simp: loop_post_def split: prod.splits)
    qed
  qed
qed

text \<open>what a returned poll promises (see \<open>loop_post\<close>): the clock is
  monotone and overshoots the timeout by at most one interval; a task is
  returned only when terminal and only as the source gave it (the client never
  changes a status itself); a timeout only past the deadline; any other error
  is one the fetch returned.\<close>

theorem wait_loop_sound:
  assumes "wait_loop fetch i T e w = Some (r, e', w')"
  shows "e \<le> e' \<and> e' \<le> max e (T + i) \<and>
         (\<forall>t. r = Inr t \<longrightarrow> is_terminal (task_status t) \<and> (\<exists>w0. fst (fetch w0) = Inr t)) \<and>
         (\<forall>err. r = Inl err \<longrightarrow> (err = Timeout \<and> T < e') \<or> (\<exists>w0. fst (fetch w0) = Inl err))"
  using wait_loop_post [OF assms] by (simp add: loop_post_def)

lemma wait_loop_scripted_from:
  assumes "\<forall>j<k. \<exists>t. src (m + j) = Inr t \<and> \<not> is_terminal (task_status t)"
    and "src (m + k) = Inr t" and "is_terminal (task_status t)"
    and "\<forall>j<k. (m + j) * i \<le> T"
  shows "wait_loop (scripted src) i T (m * i) m = Some (Inr t, (m + k) * i, Suc (m + k))"
  using assms
proof (induction k arbitrary: m)
  case 0
  then show ?case by (subst wait_loop.simps) (simp add: scripted_def)
next
  case (Suc k)
  from Suc.prems(1) obtain t0 where t0: "src m = Inr t0" "\<not> is_terminal (task_status t0)"
    by (metis add_0_right zero_less_Suc)
  from Suc.prems(4) have le: "m * i \<le> T" by (metis add_0_right zero_less_Suc)
  have "wait_loop (scripted src) i T (Suc m * i) (Suc m) = Some (Inr t, (Suc m + k) * i, Suc (Suc m + k))"
  proof (rule Suc.IH)
    show "\<forall>j<k. \<exists>t. src (Suc m + j) = Inr t \<and> \<not> is_terminal (task_status t)"
      using Suc.prems(1) by (metis Suc_less_eq add_Suc_shift add_Suc_right)
    show "src (Suc m + k) = Inr t" using Suc.prems(2) by simp
    show "is_terminal (task_status t)" by (rule Suc.prems(3))
    show "\<forall>j<k. (Suc m + j) * i \<le> T"
      using Suc.prems(4) by (metis Suc_less_eq add_Suc_shift add_Suc_right)
  qed
  with t0 le show ?case
    by (subst wait_loop.simps) (simp add: scripted_def add.commute)
qed

text \<open>a source that answers non-terminal for \<open>k\<close> polls and then a
  terminal task is answered with that task, unchanged, after exactly \<open>k + 1\<close>
  polls and \<open>k\<close> sleeps, provided the deadline was not passed before.\<close>

theorem wait_loop_scripted:
  assumes "\<forall>j<k. \<exists>t. src j = Inr t \<and> \<not> is_terminal (task_status t)"
    and "src k = Inr t" and "is_terminal (task_status t)"
    and "\<forall>j<k. j * i \<le> T"
  shows "wait_loop (scripted src) i T 0 0 = Some (Inr t, k * i, Suc k)"
  using wait_loop_scripted_from [where m = 0] assms by simp

lemma div_overshoot:
  assumes "0 < (i::nat)"
  shows "T < (T div i + 1) * i"
proof -
  have "T mod i < i" using assms by simp
  moreover have "T div i * i + T mod i = T" by (rule div_mult_mod_eq)
  moreover have "(T div i + 1) * i = T div i * i + i" by simp
  ultimately show ?thesis by linarith
qed

lemma wait_loop_never_done_from:
  assumes "\<forall>n. \<exists>t. src n = Inr t \<and> \<not> is_terminal (task_status t)"
    and "0 < i" and "m \<le> T div i + 1"
  shows "wait_loop (scripted src) i T (m * i) m = Some (Inl Timeout, (T div i + 1) * i, T div i + 2)"
  using assms(3)
proof (induction "T div i + 1 - m" arbitrary: m rule: less_induct)
  case less
  obtain t where t: "src m = Inr t" "\<not> is_terminal (task_status t)" using assms(1) by blast
  have over: "T < (T div i + 1) * i" using assms(2) by (rule div_overshoot)
  show ?case
  proof (cases "m = T div i + 1")
    case True
    with t over show ?thesis by (subst wait_loop.simps) (simp add: scripted_def)
  next
    case False
    with less.prems have "m \<le> T div i" by simp
    then have le: "m * i \<le> T"
      by (meson div_times_less_eq_dividend le_trans mult_le_mono1)
    have "wait_loop (scripted src) i T (Suc m * i) (Suc m) =
            Some (Inl Timeout, (T div i + 1) * i, T div i + 2)"
      using less.hyps [of "Suc m"] False less.prems by simp
    with t le show ?thesis
      by (subst wait_loop.simps) (simp add: scripted_def add.commute)
  qed
qed

text \<open>a job that never reaches a terminal state ends in \<open>Timeout\<close> at the
  first multiple of the interval past the timeout, never earlier and at most
  one interval later, after exactly \<open>T div i + 2\<close> polls.\<close>

theorem wait_loop_timeout_exact:
  assumes "\<forall>n. \<exists>t. src n = Inr t \<and> \<not> is_terminal (task_status t)"
    and "0 < i"
  shows "wait_loop (scripted src) i T 0 0 = Some (Inl Timeout, (T div i + 1) * i, T div i + 2) \<and>
         T < (T div i + 1) * i \<and> (T div i + 1) * i \<le> T + i"
proof -
  have "T < (T div i + 1) * i" using assms(2) by (rule div_overshoot)
  moreover have "(T div i + 1) * i \<le> T + i"
    using div_times_less_eq_dividend [of T i] by simp
  ultimately show ?thesis
    using wait_loop_never_done_from [OF assms, of 0] by simp
qed

text \<open>with a zero interval the clock never advances, so a job that never
  ends is polled forever: the poller does not return.\<close>

theorem wait_loop_zero_interval_diverges:
  assumes "\<forall>w. \<exists>t w'. fetch w = (Inr t, w') \<and> \<not> is_terminal (task_status t)"
    and "e \<le> T"
  shows "wait_loop fetch 0 T e w = None"
proof (rule ccontr)
  assume "wait_loop fetch 0 T e w \<noteq> None"
  then obtain res where ret: "wait_loop fetch 0 T e w = Some res" by blast
  have "\<not> (i = 0 \<and> e \<le> T \<and> (\<forall>w. \<exists>t w'. f w = (Inr t, w') \<and> \<not> is_terminal (task_status t)))"
    if "wait_loop f i T e w = Some res" for f i T e w res
  proof (rule wait_loop.raw_induct
      [where P = "\<lambda>f i T e w res. \<not> (i = 0 \<and> e \<le> T \<and>
                    (\<forall>w. \<exists>t w'. f w = (Inr t, w') \<and> \<not> is_terminal (task_status t)))", OF _ that])
    fix g f and i T e :: nat and w res
    assume IH: "\<And>f i T e w res. g f i T e w = Some res \<Longrightarrow>
                  \<not> (i = 0 \<and> e \<le> T \<and> (\<forall>w. \<exists>t w'. f w = (Inr t, w') \<and> \<not> is_terminal (task_status t)))"
      and eq: "(case f w of
        (Inl e', w') \<Rightarrow> Some (Inl e', e, w')
      | (Inr t, w') \<Rightarrow>
          (if is_terminal (task_status t) then Some (Inr t, e, w')
           else if T < e then Some (Inl Timeout, e, w')
           else g f i T (e + i) w')) = Some res"
    show "\<not> (i = 0 \<and> e \<le> T \<and> (\<forall>w. \<exists>t w'. f w = (Inr t, w') \<and> \<not> is_terminal (task_status t)))"
    proof
      assume h: "i = 0 \<and> e \<le> T \<and> (\<forall>w. \<exists>t w'. f w = (Inr t, w') \<and> \<not> is_terminal (task_status t))"
      then obtain t w' where fw: "f w = (Inr t, w')" and nt: "\<not> is_terminal (task_status t)" by blast
      from h have i0: "i = 0" by simp
      from h have nlt: "\<not> T < e" by (simp add: not_less)
      with eq fw nt have "g f i T (e + i) w' = Some res" by simp
      from IH [OF this] h i0 show False by force
    qed
  qed
  from this [OF ret] assms show False by force
qed

text \<open>a task becomes a live index handle exactly when it succeeded and
  names the index it created; any other task is handed back unchanged.\<close>

theorem try_make_index_iff:
  "try_make_index cl t = Inr idx \<longleftrightarrow>
     task_status t = Succeeded \<and> (\<exists>u. task_index_uid t = Some u \<and> idx = client_index cl u)"
  by (auto simp: try_make_index_def split: task_status.splits option.splits)

lemma try_make_index_Inl: "try_make_index cl t = Inl t' \<Longrightarrow> t' = t"
  by (auto simp: try_make_index_def split: task_status.splits option.splits)

text \<open>a terminal status has no successor, so along any run of the
  service's transitions a status once terminal is never contradicted later.\<close>

theorem task_step_terminal_stable:
  assumes "task_step\<^sup>*\<^sup>* s s'" and "is_terminal s"
  shows "s' = s"
  using assms
proof (induction rule: rtranclp_induct)
  case base
  then show ?case by simp
next
  case (step y z)
  then have "is_terminal y" by simp
  with step.hyps(2) show ?case by (auto elim: task_step.cases)
qed

text \<open>The same two runs for any fetch whose world evolves: a run of non-terminal
  answers that ends in a terminal task, and a job that never ends.\<close>

lemma wait_loop_run_from:
  assumes "\<forall>j<k. fetch (ws (m + j)) = (Inr (ts (m + j)), ws (Suc (m + j))) \<and>
                 \<not> is_terminal (task_status (ts (m + j))) \<and> (m + j) * i \<le> T"
    and "fetch (ws (m + k)) = (Inr t, ws (Suc (m + k)))" and "is_terminal (task_status t)"
  shows "wait_loop fetch i T (m * i) (ws m) = Some (Inr t, (m + k) * i, ws (Suc (m + k)))"
  using assms
proof (induction k arbitrary: m)
  case 0
  then show ?case by (subst wait_loop.simps) simp
next
  case (Suc k)
  from Suc.prems(1) have step: "fetch (ws m) = (Inr (ts m), ws (Suc m))"
      and nt: "\<not> is_terminal (task_status (ts m))" and le: "m * i \<le> T"
    by (metis add_0_right zero_less_Suc)+
  have "wait_loop fetch i T (Suc m * i) (ws (Suc m)) = Some (Inr t, (Suc m + k) * i, ws (Suc (Suc m + k)))"
  proof (rule Suc.IH)
    show "\<forall>j<k. fetch (ws (Suc m + j)) = (Inr (ts (Suc m + j)), ws (Suc (Suc m + j))) \<and>
                \<not> is_terminal (task_status (ts (Suc m + j))) \<and> (Suc m + j) * i \<le> T"
      using Suc.prems(1) by (metis Suc_less_eq add_Suc_shift add_Suc_right)
    show "fetch (ws (Suc m + k)) = (Inr t, ws (Suc (Suc m + k)))" using Suc.prems(2) by simp
    show "is_terminal (task_status t)" by (rule Suc.prems(3))
  qed
  with step nt le show ?case
    by (subst wait_loop.simps) (simp add: add.commute)
qed

lemma wait_loop_run:
  assumes "\<forall>j<k. fetch (ws j) = (Inr (ts j), ws (Suc j)) \<and>
                 \<not> is_terminal (task_status (ts j)) \<and> j * i \<le> T"
    and "fetch (ws k) = (Inr t, ws (Suc k))" and "is_terminal (task_status t)"
  shows "wait_loop fetch i T 0 (ws 0) = Some (Inr t, k * i, ws (Suc k))"
  using wait_loop_run_from [where m = 0] assms by simp

lemma wait_loop_never_done:
  assumes "\<forall>w. \<exists>t w'. fetch w = (Inr t, w') \<and> \<not> is_terminal (task_status t)"
    and "0 < i" and "m \<le> T div i + 1"
  shows "\<exists>w'. wait_loop fetch i T (m * i) w = Some (Inl Timeout, (T div i + 1) * i, w')"
  using assms(3)
proof (induction "T div i + 1 - m" arbitrary: m w rule: less_induct)
  case less
  obtain t w' where fw: "fetch w = (Inr t, w')" and nt: "\<not> is_terminal (task_status t)"
    using assms(1) by blast
  have over: "T < (T div i + 1) * i" using assms(2) by (rule div_overshoot)
  show ?case
  proof (cases "m = T div i + 1")
    case True
    with fw nt over show ?thesis by (subst wait_loop.simps) simp
  next
    case False
    with less.prems have mle: "m \<le> T div i" by simp
    then have le: "m * i \<le> T"
      by (meson div_times_less_eq_dividend le_trans mult_le_mono1)
    from mle have lt: "T div i + 1 - Suc m < T div i + 1 - m" and le1: "Suc m \<le> T div i + 1" by auto
    obtain w'' where "wait_loop fetch i T (Suc m * i) w' = Some (Inl Timeout, (T div i + 1) * i, w'')"
      using less.hyps [OF lt le1] by blast
    with fw nt le have "wait_loop fetch i T (m * i) w = Some (Inl Timeout, (T div i + 1) * i, w'')"
      by (subst wait_loop.simps) (simp add: add.commute)
    then show ?thesis by blast
  qed
qed

section \<open>Witnesses\<close>

text \<open>The specification's scenario: task 7 is enqueued, then processing, then
  succeeded; and a task that stays enqueued forever.\<close>

theorem wait_loop_scripted_witness:
  "wait_loop (scripted (\<lambda>n. Inr \<lparr>task_uid = 7,
        task_status = (if n = 0 then Enqueued else if n = 1 then Processing else Succeeded),
        task_index_uid = Some ''movies'', task_error = None\<rparr>)) 10 50 0 0 =
   Some (Inr \<lparr>task_uid = 7, task_status = Succeeded, task_index_uid = Some ''movies'', task_error = None\<rparr>,
         20, 3)"
  using wait_loop_scripted
    [where k = 2 and i = 10 and T = 50
       and t = "\<lparr>task_uid = 7, task_status = Succeeded, task_index_uid = Some ''movies'', task_error = None\<rparr>"
       and src = "\<lambda>n. Inr \<lparr>task_uid = 7,
        task_status = (if n = 0 then Enqueued else if n = 1 then Processing else Succeeded),
        task_index_uid = Some ''movies'', task_error = None\<rparr>"]
  by (simp add: less_Suc_eq numeral_2_eq_2)

theorem wait_loop_sound_witness:
  "is_terminal (task_status \<lparr>task_uid = 7, task_status = Succeeded, task_index_uid = Some ''movies'',
     task_error = None\<rparr>) \<and> (20::nat) \<le> max 0 (50 + 10)"
proof -
  have "wait_loop (scripted (\<lambda>n. Inr \<lparr>task_uid = 7,
          task_status = (if n = 0 then Enqueued else if n = 1 then Processing else Succeeded),
          task_index_uid = Some ''movies'', task_error = None\<rparr>)) 10 50 0 0 =
        Some (Inr \<lparr>task_uid = 7, task_status = Succeeded, task_index_uid = Some ''movies'',
          task_error = None\<rparr>, 20, 3)"
    by (simp add: wait_loop.simps scripted_def)
  from wait_loop_sound [OF this] show ?thesis by simp
qed

theorem wait_loop_terminates_witness:
  "\<exists>r. wait_loop (scripted (\<lambda>n. Inr \<lparr>task_uid = 3, task_status = Enqueued, task_index_uid = None,
          task_error = None\<rparr>)) 10 50 0 0 = Some r"
  by (rule wait_loop_terminates) simp

theorem wait_loop_timeout_exact_witness:
  "wait_loop (scripted (\<lambda>n. Inr \<lparr>task_uid = 3, task_status = Enqueued, task_index_uid = None,
          task_error = None\<rparr>)) 10 50 0 0 = Some (Inl Timeout, 60, 7)"
  using wait_loop_timeout_exact
    [where i = 10 and T = 50
       and src = "\<lambda>n. Inr \<lparr>task_uid = 3, task_status = Enqueued, task_index_uid = None, task_error = None\<rparr>"]
  by simp

theorem wait_loop_zero_interval_diverges_witness:
  "wait_loop (\<lambda>n::nat. (Inr \<lparr>task_uid = 3, task_status = Processing, task_index_uid = None,
          task_error = None\<rparr>, Suc n)) 0 50 0 0 = None"
  by (rule wait_loop_zero_interval_diverges) simp_all

theorem task_step_terminal_stable_witness:
  "\<not> task_step\<^sup>*\<^sup>* Succeeded Failed"
proof
  assume "task_step\<^sup>*\<^sup>* Succeeded Failed"
  from task_step_terminal_stable [OF this] show False by simp
qed

end
