(* ===== verification/Transport.thy ===== *)
theory Transport
  imports Request
begin

text \<open>
  A reference implementation of the \<open>RequestClient\<close> capability, after the
  native client of the crate (\<open>request/native_client.rs\<close>, not among the
  staged sources: modelled from the specification, section 4.2). The builder is
  the HTTP request under construction: its URL, verb, headers in the order they
  were added, and body. \<open>add_body\<close> serializes the body of a \<open>Post\<close>,
  \<open>Patch\<close> or \<open>Put\<close> with the given JSON encoder and sets the content type;
  \<open>Get\<close> and \<open>Delete\<close> carry none. The world is the log of requests the
  server has received; the server itself is a function from request to status
  and text, or a transport error, given the log of the requests it received
  before (so a scripted server can answer successive polls differently).
\<close>

record http_request =
  req_url :: string
  req_method :: HttpMethod
  req_headers :: "(string \<times> string) list"
  req_body :: "string option"

fun method_body :: "('q, 'b) Method \<Rightarrow> 'b option" where
  "method_body (Get _) = None"
| "method_body (Post _ b) = Some b"
| "method_body (Patch _ b) = Some b"
| "method_body (Put _ b) = Some b"
| "method_body (Delete _) = None"

type_synonym server = "http_request \<Rightarrow> http_request list \<Rightarrow> error + (u16 \<times> string)"

definition add_header :: "http_request \<Rightarrow> string \<Rightarrow> string \<Rightarrow> http_request" where
  "add_header r name v = r\<lparr>req_headers := req_headers r @ [(name, v)]\<rparr>"

definition native_client ::
  "('b \<Rightarrow> string) \<Rightarrow> server \<Rightarrow>
   (http_request, 'q, 'b, http_request, u16 \<times> string, http_request list) request_client" where
  "native_client to_json srv =
     \<lparr>new = (\<lambda>u. \<lparr>req_url = u, req_method = GET, req_headers = [], req_body = None\<rparr>),
      with_authorization_header = (\<lambda>c v. add_header c ''Authorization'' v),
      with_user_agent_header = (\<lambda>c v. add_header c ''User-Agent'' v),
      with_method = (\<lambda>c v. c\<lparr>req_method := v\<rparr>),
      add_body = (\<lambda>c m ct. case method_body m of
                             None \<Rightarrow> c
                           | Some b \<Rightarrow> (add_header c ''Content-Type'' ct)\<lparr>req_body := Some (to_json b)\<rparr>),
      send_request = (\<lambda>r log. (srv r log, log @ [r])),
      extract_status_code = fst,
      response_to_text = (\<lambda>resp log. (Inr (snd resp), log))\<rparr>"

text \<open>The request the native client builds for a URL that already carries its
  query string.\<close>

definition built_request ::
  "('b \<Rightarrow> string) \<Rightarrow> string option \<Rightarrow> string \<Rightarrow> string option \<Rightarrow> ('q, 'b) Method \<Rightarrow> string \<Rightarrow>
   http_request" where
  "built_request to_json version full_url apikey m ct =
     \<lparr>req_url = full_url, req_method = http_method m,
      req_headers = [(''User-Agent'', qualified_version version)]
                    @ (case apikey of None \<Rightarrow> [] | Some k \<Rightarrow> [(''Authorization'', ''Bearer '' @ k)])
                    @ (case method_body m of None \<Rightarrow> [] | Some _ \<Rightarrow> [(''Content-Type'', ct)]),
      req_body = map_option to_json (method_body m)\<rparr>"

section \<open>The native client in closed form\<close>

lemma prepare_request_native:
  assumes "yaup_to_string env (query m) = Inr qs"
  shows "prepare_request (native_client enc srv) env u k m ct =
           Inr (built_request enc (cargo_pkg_version env) (if qs = [] then u else u @ ''?'' @ qs) k m ct)"
  using assms
  by (cases m; cases k)
     (simp_all add: prepare_request_def add_query_parameters_def native_client_def
        built_request_def add_header_def)

lemma rc_request_native:
  assumes "yaup_to_string env (query m) = Inr qs"
  shows "rc_request (native_client enc srv) env u k m ct x log =
           (let r = built_request enc (cargo_pkg_version env) (if qs = [] then u else u @ ''?'' @ qs) k m ct
            in ((case srv r log of
                   Inl e \<Rightarrow> Inl e
                 | Inr (s, t) \<Rightarrow> parse_response (from_str env) (from_str_error env) s x t u),
                log @ [r]))"
  using prepare_request_native [OF assms(1), where enc = enc and srv = srv and u = u and k = k and ct = ct]
  by (simp add: rc_request_def native_client_def Let_def split: sum.splits prod.splits)

lemma built_request_headers:
  "map_of (req_headers (built_request enc v full k m ct)) ''Authorization'' =
     map_option (\<lambda>key. ''Bearer '' @ key) k"
  "map_of (req_headers (built_request enc v full k m ct)) ''User-Agent'' = Some (qualified_version v)"
  by (cases k; cases "method_body m"; simp add: built_request_def)+

section \<open>Properties of what the transport sends\<close>

text \<open>C10: a request whose query serializes is sent exactly once (no retry at
  this layer), to the URL with its query string, with the verb of the method's
  tag (\<open>Get\<close> GET, \<open>Post\<close> POST, \<open>Patch\<close> PATCH, \<open>Put\<close> PUT, \<open>Delete\<close> DELETE), and
  with the encoded body exactly for \<open>Post\<close>, \<open>Patch\<close> and \<open>Put\<close>.\<close>

theorem native_request_sent_once:
  assumes "yaup_to_string env (query m) = Inr qs"
  shows "\<exists>r. snd (rc_request (native_client enc srv) env u k m ct x log) = log @ [r] \<and>
             req_url r = (if qs = [] then u else u @ ''?'' @ qs) \<and>
             req_method r = (case m of Get _ \<Rightarrow> GET | Post _ _ \<Rightarrow> POST | Patch _ _ \<Rightarrow> PATCH
                                     | Put _ _ \<Rightarrow> PUT | Delete _ \<Rightarrow> DELETE) \<and>
             req_body r = (case m of Post _ b \<Rightarrow> Some (enc b) | Patch _ b \<Rightarrow> Some (enc b)
                                   | Put _ b \<Rightarrow> Some (enc b) | _ \<Rightarrow> None)"
  using rc_request_native [OF assms, where enc = enc and srv = srv and u = u and k = k and ct = ct
                            and x = x and log = log]
  by (cases m) (auto simp: built_request_def Let_def)

text \<open>C11: the request sent carries \<open>Authorization: Bearer key\<close> exactly when an
  API key was given, and always the crate's user agent.\<close>

theorem native_request_headers:
  assumes "yaup_to_string env (query m) = Inr qs"
    and "snd (rc_request (native_client enc srv) env u k m ct x log) = log @ [r]"
  shows "map_of (req_headers r) ''Authorization'' = map_option (\<lambda>key. ''Bearer '' @ key) k \<and>
         map_of (req_headers r) ''User-Agent'' = Some (qualified_version (cargo_pkg_version env))"
proof -
  have "r = built_request enc (cargo_pkg_version env) (if qs = [] then u else u @ ''?'' @ qs) k m ct"
    using rc_request_native [OF assms(1), where enc = enc and srv = srv and u = u and k = k and ct = ct
                              and x = x and log = log] assms(2)
    by (simp add: Let_def)
  then show ?thesis by (simp only: built_request_headers simp_thms)
qed

section \<open>Witnesses\<close>

theorem rc_request_prepare_error_witness:
  "rc_request (native_client (\<lambda>b::unit. ''{}'') (\<lambda>r log. Inr (200, ''7'')))
     \<lparr>cargo_pkg_version = None, yaup_to_string = (\<lambda>q::unit. Inl ''unsupported''),
      from_str = (\<lambda>b. Inr (7::nat)), from_str_error = (\<lambda>b. Inl ''no'')\<rparr>
     ''http://h'' None (Get ()) CONTENT_TYPE 200 [] = (Inl (Yaup ''unsupported''), [])"
  by (rule rc_request_prepare_error) (simp add: prepare_request_def add_query_parameters_def)

theorem rc_request_delivered_witness:
  "rc_request (native_client (\<lambda>b::unit. ''{}'') (\<lambda>r log. Inr (200, ''7'')))
     \<lparr>cargo_pkg_version = Some ''0.20.0'', yaup_to_string = (\<lambda>q::unit. Inr ''''),
      from_str = (\<lambda>b. if b = ''7'' then Inr (7::nat) else Inl ''bad''), from_str_error = (\<lambda>b. Inl ''no'')\<rparr>
     ''http://h/stats'' None (Get ()) CONTENT_TYPE 200 [] =
   (Inr 7, [built_request (\<lambda>b::unit. ''{}'') (Some ''0.20.0'') ''http://h/stats'' None (Get ()) CONTENT_TYPE])"
proof -
  let ?env = "\<lparr>cargo_pkg_version = Some ''0.20.0'', yaup_to_string = (\<lambda>q::unit. Inr ''''),
      from_str = (\<lambda>b. if b = ''7'' then Inr (7::nat) else Inl ''bad''), from_str_error = (\<lambda>b. Inl ''no'')\<rparr>"
  let ?rc = "native_client (\<lambda>b::unit. ''{}'') (\<lambda>r log. Inr ((200::u16), ''7''))"
  let ?r = "built_request (\<lambda>b::unit. ''{}'') (Some ''0.20.0'') ''http://h/stats'' None (Get ()) CONTENT_TYPE"
  have p: "prepare_request ?rc ?env ''http://h/stats'' None (Get ()) CONTENT_TYPE = Inr ?r"
    by (simp add: prepare_request_native)
  have s: "send_request ?rc ?r [] = (Inr (200, ''7''), [?r])"
    by (simp add: native_client_def)
  have t: "response_to_text ?rc (200, ''7'') [?r] = (Inr ''7'', [?r])"
    by (simp add: native_client_def)
  show ?thesis
    using rc_request_delivered [OF p s t, where x = 200]
    by (simp add: native_client_def parse_response_def empty_as_null_def)
qed

theorem native_request_sent_once_witness:
  "\<exists>r. snd (rc_request (native_client (\<lambda>b::string. b) (\<lambda>r log. Inr (202, ''{}'')))
          \<lparr>cargo_pkg_version = None, yaup_to_string = (\<lambda>q::unit. Inr ''''),
           from_str = (\<lambda>b. Inr (0::nat)), from_str_error = (\<lambda>b. Inl ''no'')\<rparr>
          ''http://h/indexes/movies/settings/faceting'' (Some ''masterKey'') (Patch () ''{5}'')
          CONTENT_TYPE 202 []) = [r] \<and>
       req_url r = ''http://h/indexes/movies/settings/faceting'' \<and>
       req_method r = PATCH \<and> req_body r = Some ''{5}''"
  using native_request_sent_once
    [where env = "\<lparr>cargo_pkg_version = None, yaup_to_string = (\<lambda>q::unit. Inr ''''),
          from_str = (\<lambda>b. Inr (0::nat)), from_str_error = (\<lambda>b. Inl ''no'')\<rparr>"
       and m = "Patch () ''{5}''" and qs = "''''" and enc = "\<lambda>b::string. b"
       and srv = "\<lambda>r log. Inr (202, ''{}'')"
       and u = "''http://h/indexes/movies/settings/faceting''" and k = "Some ''masterKey''"
       and ct = CONTENT_TYPE and x = 202 and log = "[]"]
  by simp

theorem native_request_headers_witness:
  "map_of (req_headers (last (snd (rc_request (native_client (\<lambda>b::unit. ''{}'') (\<lambda>r log. Inr (200, ''[]'')))
       \<lparr>cargo_pkg_version = None, yaup_to_string = (\<lambda>q::unit. Inr ''''),
        from_str = (\<lambda>b. Inr (0::nat)), from_str_error = (\<lambda>b. Inl ''no'')\<rparr>
       ''http://h/keys'' (Some ''k1'') (Get ()) CONTENT_TYPE 200 []))))
     ''Authorization'' = Some ''Bearer k1'' \<and>
   map_of (req_headers (last (snd (rc_request (native_client (\<lambda>b::unit. ''{}'') (\<lambda>r log. Inr (200, ''[]'')))
       \<lparr>cargo_pkg_version = None, yaup_to_string = (\<lambda>q::unit. Inr ''''),
        from_str = (\<lambda>b. Inr (0::nat)), from_str_error = (\<lambda>b. Inl ''no'')\<rparr>
       ''http://h/keys'' (Some ''k1'') (Get ()) CONTENT_TYPE 200 []))))
     ''User-Agent'' = Some (qualified_version None)"
proof -
  let ?env = "\<lparr>cargo_pkg_version = None, yaup_to_string = (\<lambda>q::unit. Inr ''''),
               from_str = (\<lambda>b. Inr (0::nat)), from_str_error = (\<lambda>b. Inl ''no'')\<rparr>"
  let ?run = "rc_request (native_client (\<lambda>b::unit. ''{}'') (\<lambda>r log. Inr (200, ''[]''))) ?env
                ''http://h/keys'' (Some ''k1'') (Get ()) CONTENT_TYPE 200 []"
  have q: "yaup_to_string ?env (query (Get ())) = Inr ''''" by simp
  have "snd ?run = [] @ [last (snd ?run)]"
    using rc_request_native [OF q, where enc = "\<lambda>b::unit. ''{}''" and u = "''http://h/keys''"
        and k = "Some ''k1''" and ct = CONTENT_TYPE and srv = "\<lambda>r log. Inr (200, ''[]'')" and x = 200 and log = "[]"]
    by (simp add: Let_def)
  from native_request_headers [OF q this] show ?thesis by simp
qed

end
