(* ===== verification/Settings.thy ===== *)
theory Settings
  imports Tasks Transport
begin

text \<open>
  The settings of an index (\<open>src/src/settings.rs\<close>): the \<open>Settings\<close> struct with
  its builder methods, the keys its derived \<open>Serialize\<close> writes
  (\<open>rename_all = "camelCase"\<close>, \<open>skip_serializing_if = "Option::is_none"\<close>),
  and the 33 facade methods of \<open>Index\<close> that get, set and reset them. A facade
  is a dispatcher call: a URL, the client's API key, a wire method and the
  expected status; \<open>perform\<close> hands it to \<open>Request.request\<close>. The source
  sends it through \<open>self.client.http_client.request\<close>, a trait \<open>HttpClient\<close>
  that the staged \<open>request.rs\<close> does not define; the staged dispatcher with
  the same arguments is the trait \<open>RequestClient\<close>, which is what the model
  uses. A \<open>HashMap\<close>
  is a map; \<open>usize\<close> counts are \<open>nat\<close>; \<open>impl AsRef<str>\<close> arguments are
  strings already.
\<close>

section \<open>The Settings struct and its builder\<close>

record pagination_setting =
  max_total_hits :: nat

record faceting_settings =
  max_values_per_facet :: nat

record settings =
  synonyms :: "(string \<rightharpoonup> string list) option"
  stop_words :: "string list option"
  ranking_rules :: "string list option"
  filterable_attributes :: "string list option"
  sortable_attributes :: "string list option"
  distinct_attribute :: "string option"
  searchable_attributes :: "string list option"
  displayed_attributes :: "string list option"
  pagination :: "pagination_setting option"
  faceting :: "faceting_settings option"

definition settings_new :: settings where
  "settings_new =
     \<lparr>synonyms = None, stop_words = None, ranking_rules = None, filterable_attributes = None,
      sortable_attributes = None, distinct_attribute = None, searchable_attributes = None,
      displayed_attributes = None, pagination = None, faceting = None\<rparr>"

definition with_synonyms :: "settings \<Rightarrow> (string \<rightharpoonup> string list) \<Rightarrow> settings" where
  "with_synonyms s m = s\<lparr>synonyms := Some m\<rparr>"

definition with_stop_words :: "settings \<Rightarrow> string list \<Rightarrow> settings" where
  "with_stop_words s ws = s\<lparr>stop_words := Some ws\<rparr>"

definition with_pagination :: "settings \<Rightarrow> pagination_setting \<Rightarrow> settings" where
  "with_pagination s p = s\<lparr>pagination := Some p\<rparr>"

definition with_ranking_rules :: "settings \<Rightarrow> string list \<Rightarrow> settings" where
  "with_ranking_rules s rs = s\<lparr>ranking_rules := Some rs\<rparr>"

definition with_filterable_attributes :: "settings \<Rightarrow> string list \<Rightarrow> settings" where
  "with_filterable_attributes s xs = s\<lparr>filterable_attributes := Some xs\<rparr>"

definition with_sortable_attributes :: "settings \<Rightarrow> string list \<Rightarrow> settings" where
  "with_sortable_attributes s xs = s\<lparr>sortable_attributes := Some xs\<rparr>"

definition with_distinct_attribute :: "settings \<Rightarrow> string \<Rightarrow> settings" where
  "with_distinct_attribute s d = s\<lparr>distinct_attribute := Some d\<rparr>"

definition with_searchable_attributes :: "settings \<Rightarrow> string list \<Rightarrow> settings" where
  "with_searchable_attributes s xs = s\<lparr>searchable_attributes := Some xs\<rparr>"

definition with_displayed_attributes :: "settings \<Rightarrow> string list \<Rightarrow> settings" where
  "with_displayed_attributes s xs = s\<lparr>displayed_attributes := Some xs\<rparr>"

definition with_faceting :: "settings \<Rightarrow> faceting_settings \<Rightarrow> settings" where
  "with_faceting s f = s\<lparr>faceting := Some f\<rparr>"

text \<open>The JSON keys \<open>serde\<close> writes for a \<open>Settings\<close> value, in field order.\<close>

definition settings_keys :: "settings \<Rightarrow> string list" where
  "settings_keys s =
     (if synonyms s = None then [] else [''synonyms'']) @
     (if stop_words s = None then [] else [''stopWords'']) @
     (if ranking_rules s = None then [] else [''rankingRules'']) @
     (if filterable_attributes s = None then [] else [''filterableAttributes'']) @
     (if sortable_attributes s = None then [] else [''sortableAttributes'']) @
     (if distinct_attribute s = None then [] else [''distinctAttribute'']) @
     (if searchable_attributes s = None then [] else [''searchableAttributes'']) @
     (if displayed_attributes s = None then [] else [''displayedAttributes'']) @
     (if pagination s = None then [] else [''pagination'']) @
     (if faceting s = None then [] else [''faceting''])"

section \<open>Facade calls\<close>

datatype settings_body =
    Settings_body settings
  | Synonyms_body "string \<rightharpoonup> string list"
  | Pagination_body pagination_setting
  | Strings_body "string list"
  | String_body string
  | Faceting_body faceting_settings

record settings_call =
  call_url :: string
  call_api_key :: "string option"
  call_method :: "(unit, settings_body) Method"
  call_status :: u16

definition settings_url :: "index \<Rightarrow> string \<Rightarrow> string" where
  "settings_url idx path = host (index_client idx) @ ''/indexes/'' @ uid idx @ ''/settings'' @ path"

definition settings_call_of :: "index \<Rightarrow> string \<Rightarrow> (unit, settings_body) Method \<Rightarrow> u16 \<Rightarrow> settings_call" where
  "settings_call_of idx path m st =
     \<lparr>call_url = settings_url idx path, call_api_key = api_key (index_client idx),
      call_method = m, call_status = st\<rparr>"

definition perform ::
  "target_arch \<Rightarrow> ('c1, unit, settings_body, 'req1, 'resp1, 'w) request_client \<Rightarrow>
   ('c2, unit, settings_body, 'req2, 'resp2, 'w) request_client \<Rightarrow> (unit, 'o) crate_env \<Rightarrow>
   settings_call \<Rightarrow> 'w \<Rightarrow> (error + 'o) \<times> 'w" where
  "perform arch native browser env c w =
     request arch native browser env (call_url c) (call_api_key c) (call_method c) (call_status c) w"

definition get_settings :: "index \<Rightarrow> settings_call" where
  "get_settings idx = settings_call_of idx '''' (Get ()) 200"
definition get_synonyms :: "index \<Rightarrow> settings_call" where
  "get_synonyms idx = settings_call_of idx ''/synonyms'' (Get ()) 200"
definition get_pagination :: "index \<Rightarrow> settings_call" where
  "get_pagination idx = settings_call_of idx ''/pagination'' (Get ()) 200"
definition get_stop_words :: "index \<Rightarrow> settings_call" where
  "get_stop_words idx = settings_call_of idx ''/stop-words'' (Get ()) 200"
definition get_ranking_rules :: "index \<Rightarrow> settings_call" where
  "get_ranking_rules idx = settings_call_of idx ''/ranking-rules'' (Get ()) 200"
definition get_filterable_attributes :: "index \<Rightarrow> settings_call" where
  "get_filterable_attributes idx = settings_call_of idx ''/filterable-attributes'' (Get ()) 200"
definition get_sortable_attributes :: "index \<Rightarrow> settings_call" where
  "get_sortable_attributes idx = settings_call_of idx ''/sortable-attributes'' (Get ()) 200"
definition get_distinct_attribute :: "index \<Rightarrow> settings_call" where
  "get_distinct_attribute idx = settings_call_of idx ''/distinct-attribute'' (Get ()) 200"
definition get_searchable_attributes :: "index \<Rightarrow> settings_call" where
  "get_searchable_attributes idx = settings_call_of idx ''/searchable-attributes'' (Get ()) 200"
definition get_displayed_attributes :: "index \<Rightarrow> settings_call" where
  "get_displayed_attributes idx = settings_call_of idx ''/displayed-attributes'' (Get ()) 200"
definition get_faceting :: "index \<Rightarrow> settings_call" where
  "get_faceting idx = settings_call_of idx ''/faceting'' (Get ()) 200"

definition set_settings :: "index \<Rightarrow> settings \<Rightarrow> settings_call" where
  "set_settings idx s = settings_call_of idx '''' (Patch () (Settings_body s)) 202"
definition set_synonyms :: "index \<Rightarrow> (string \<rightharpoonup> string list) \<Rightarrow> settings_call" where
  "set_synonyms idx m = settings_call_of idx ''/synonyms'' (Put () (Synonyms_body m)) 202"
definition set_pagination :: "index \<Rightarrow> pagination_setting \<Rightarrow> settings_call" where
  "set_pagination idx p = settings_call_of idx ''/pagination'' (Patch () (Pagination_body p)) 202"
definition set_stop_words :: "index \<Rightarrow> string list \<Rightarrow> settings_call" where
  "set_stop_words idx ws = settings_call_of idx ''/stop-words'' (Put () (Strings_body ws)) 202"
definition set_ranking_rules :: "index \<Rightarrow> string list \<Rightarrow> settings_call" where
  "set_ranking_rules idx rs = settings_call_of idx ''/ranking-rules'' (Put () (Strings_body rs)) 202"
definition set_filterable_attributes :: "index \<Rightarrow> string list \<Rightarrow> settings_call" where
  "set_filterable_attributes idx xs =
     settings_call_of idx ''/filterable-attributes'' (Put () (Strings_body xs)) 202"
definition set_sortable_attributes :: "index \<Rightarrow> string list \<Rightarrow> settings_call" where
  "set_sortable_attributes idx xs =
     settings_call_of idx ''/sortable-attributes'' (Put () (Strings_body xs)) 202"
definition set_distinct_attribute :: "index \<Rightarrow> string \<Rightarrow> settings_call" where
  "set_distinct_attribute idx d = settings_call_of idx ''/distinct-attribute'' (Put () (String_body d)) 202"
definition set_searchable_attributes :: "index \<Rightarrow> string list \<Rightarrow> settings_call" where
  "set_searchable_attributes idx xs =
     settings_call_of idx ''/searchable-attributes'' (Put () (Strings_body xs)) 202"
definition set_displayed_attributes :: "index \<Rightarrow> string list \<Rightarrow> settings_call" where
  "set_displayed_attributes idx xs =
     settings_call_of idx ''/displayed-attributes'' (Put () (Strings_body xs)) 202"
definition set_faceting :: "index \<Rightarrow> faceting_settings \<Rightarrow> settings_call" where
  "set_faceting idx f = settings_call_of idx ''/faceting'' (Patch () (Faceting_body f)) 202"

definition reset_settings :: "index \<Rightarrow> settings_call" where
  "reset_settings idx = settings_call_of idx '''' (Delete ()) 202"
definition reset_synonyms :: "index \<Rightarrow> settings_call" where
  "reset_synonyms idx = settings_call_of idx ''/synonyms'' (Delete ()) 202"
definition reset_pagination :: "index \<Rightarrow> settings_call" where
  "reset_pagination idx = settings_call_of idx ''/pagination'' (Delete ()) 202"
definition reset_stop_words :: "index \<Rightarrow> settings_call" where
  "reset_stop_words idx = settings_call_of idx ''/stop-words'' (Delete ()) 202"
definition reset_ranking_rules :: "index \<Rightarrow> settings_call" where
  "reset_ranking_rules idx = settings_call_of idx ''/ranking-rules'' (Delete ()) 202"
definition reset_filterable_attributes :: "index \<Rightarrow> settings_call" where
  "reset_filterable_attributes idx = settings_call_of idx ''/filterable-attributes'' (Delete ()) 202"
definition reset_sortable_attributes :: "index \<Rightarrow> settings_call" where
  "reset_sortable_attributes idx = settings_call_of idx ''/sortable-attributes'' (Delete ()) 202"
definition reset_distinct_attribute :: "index \<Rightarrow> settings_call" where
  "reset_distinct_attribute idx = settings_call_of idx ''/distinct-attribute'' (Delete ()) 202"
definition reset_searchable_attributes :: "index \<Rightarrow> settings_call" where
  "reset_searchable_attributes idx = settings_call_of idx ''/searchable-attributes'' (Delete ()) 202"
definition reset_displayed_attributes :: "index \<Rightarrow> settings_call" where
  "reset_displayed_attributes idx = settings_call_of idx ''/displayed-attributes'' (Delete ()) 202"
definition reset_faceting :: "index \<Rightarrow> settings_call" where
  "reset_faceting idx = settings_call_of idx ''/faceting'' (Delete ()) 202"

text \<open>The contract a get/set/reset triple of facades should meet: one route and
  one key; the getter a \<open>GET\<close> expecting 200; the setter a call with a body
  expecting 202 (an enqueued task); the reset a \<open>DELETE\<close> expecting 202.\<close>

definition route_family :: "settings_call \<Rightarrow> settings_call \<Rightarrow> settings_call \<Rightarrow> bool" where
  "route_family g s r \<longleftrightarrow>
     call_url g = call_url s \<and> call_url s = call_url r \<and>
     call_api_key g = call_api_key s \<and> call_api_key s = call_api_key r \<and>
     call_method g = Get () \<and> call_status g = 200 \<and>
     method_body (call_method s) \<noteq> None \<and> http_method (call_method s) \<in> {PUT, PATCH} \<and>
     call_status s = 202 \<and>
     call_method r = Delete () \<and> call_status r = 202"

section \<open>Properties\<close>

lemma settings_call_of_simps [simp]:
  "call_url (settings_call_of idx p m st) = settings_url idx p"
  "call_api_key (settings_call_of idx p m st) = api_key (index_client idx)"
  "call_method (settings_call_of idx p m st) = m"
  "call_status (settings_call_of idx p m st) = st"
  by (simp_all add: settings_call_of_def)

lemmas settings_facade_defs =
  get_settings_def get_synonyms_def get_pagination_def get_stop_words_def get_ranking_rules_def
  get_filterable_attributes_def get_sortable_attributes_def get_distinct_attribute_def
  get_searchable_attributes_def get_displayed_attributes_def get_faceting_def
  set_settings_def set_synonyms_def set_pagination_def set_stop_words_def set_ranking_rules_def
  set_filterable_attributes_def set_sortable_attributes_def set_distinct_attribute_def
  set_searchable_attributes_def set_displayed_attributes_def set_faceting_def
  reset_settings_def reset_synonyms_def reset_pagination_def reset_stop_words_def
  reset_ranking_rules_def reset_filterable_attributes_def reset_sortable_attributes_def
  reset_distinct_attribute_def reset_searchable_attributes_def reset_displayed_attributes_def
  reset_faceting_def

text \<open>C17: for each of the eleven settings, the getter, the setter and the
  reset address the same route with the same key, with the verbs and expected
  statuses of the contract \<open>route_family\<close>.\<close>

theorem settings_routes_agree:
  "route_family (get_settings idx) (set_settings idx s) (reset_settings idx) \<and>
   route_family (get_synonyms idx) (set_synonyms idx syn) (reset_synonyms idx) \<and>
   route_family (get_pagination idx) (set_pagination idx p) (reset_pagination idx) \<and>
   route_family (get_stop_words idx) (set_stop_words idx ws) (reset_stop_words idx) \<and>
   route_family (get_ranking_rules idx) (set_ranking_rules idx rs) (reset_ranking_rules idx) \<and>
   route_family (get_filterable_attributes idx) (set_filterable_attributes idx fa)
     (reset_filterable_attributes idx) \<and>
   route_family (get_sortable_attributes idx) (set_sortable_attributes idx sa)
     (reset_sortable_attributes idx) \<and>
   route_family (get_distinct_attribute idx) (set_distinct_attribute idx d)
     (reset_distinct_attribute idx) \<and>
   route_family (get_searchable_attributes idx) (set_searchable_attributes idx sea)
     (reset_searchable_attributes idx) \<and>
   route_family (get_displayed_attributes idx) (set_displayed_attributes idx da)
     (reset_displayed_attributes idx) \<and>
   route_family (get_faceting idx) (set_faceting idx f) (reset_faceting idx)"
  by (simp add: route_family_def settings_facade_defs)

text \<open>C18: the eleven settings routes of an index are pairwise distinct, so no
  facade reads or writes another setting's resource.\<close>

theorem settings_routes_distinct:
  "distinct (map (\<lambda>g. call_url (g idx))
     [get_settings, get_synonyms, get_pagination, get_stop_words, get_ranking_rules,
      get_filterable_attributes, get_sortable_attributes, get_distinct_attribute,
      get_searchable_attributes, get_displayed_attributes, get_faceting])"
  by (simp add: settings_facade_defs settings_url_def)

text \<open>C19: the serialized settings name each present field once, and the body
  is the empty object exactly for \<open>Settings::new()\<close>.\<close>

theorem settings_keys_empty_iff:
  "distinct (settings_keys s) \<and> (settings_keys s = [] \<longleftrightarrow> s = settings_new)"
proof -
  have "distinct (settings_keys s)" by (simp add: settings_keys_def)
  moreover have "settings_keys s = [] \<longleftrightarrow> s = settings_new"
    by (cases s) (auto simp: settings_keys_def settings_new_def)
  ultimately show ?thesis by blast
qed

end
