(* ===== verification/IndexConfig.thy ===== *)
theory IndexConfig
  imports Settings
begin

text \<open>
  The derive macro \<open>IndexConfig\<close> (\<open>src/meilisearch-index-setting-macro/src/lib.rs\<close>).
  Its input is the syntax of a struct as \<open>syn\<close> parses it: each field's name
  (absent for a tuple struct) and attributes; an attribute is the result of
  \<open>parse_meta\<close> (a list with its path, a bare path, a name-value pair, or a
  parse error with its message) and its token stream, whose groups hold
  identifiers, punctuation and literals. The macro either emits a compile error
  (the message of \<open>syn::Error\<close>; spans are dropped), panics (an \<open>unwrap\<close> on a
  field without a name), or emits an \<open>IndexConfig\<close> implementation. The
  implementation is modelled by what it denotes: the index name, the primary
  key passed to \<open>create_index\<close>, and the \<open>Settings\<close> value that
  \<open>generate_settings\<close> builds with the builders of \<open>Settings\<close>.
  The loops of \<open>extract_all_attr_values\<close> and
  \<open>get_index_config_implementation\<close> are \<open>fold_result\<close>: each returns at its
  first error, as the \<open>?\<close> and \<open>return Err(..)\<close> of the code do.
\<close>

section \<open>Syntax the macro reads\<close>

datatype spacing = Alone | Joint

datatype token_tree =
    Group "token_tree list"
  | Ident string
  | Punct char spacing
  | Literal string

datatype parsed_meta =
    Meta_list string
  | Meta_path
  | Meta_name_value
  | Meta_error string

record attribute =
  attr_meta :: parsed_meta
  attr_tokens :: "token_tree list"

record field =
  field_ident :: "string option"
  field_attrs :: "attribute list"

datatype derive_data = Data_struct "field list" | Data_enum | Data_union

datatype macro_error = Compile_error string | Panic string

section \<open>Attribute extraction\<close>

definition valid_attribute_names :: "string set" where
  "valid_attribute_names =
     {''displayed'', ''searchable'', ''filterable'', ''sortable'', ''primary_key'', ''distinct''}"

definition validate_punct :: "char \<Rightarrow> spacing \<Rightarrow> macro_error + unit" where
  "validate_punct c sp =
     (if c = CHR '','' \<and> sp = Alone then Inr () else Inl (Compile_error ''`,` expected''))"

record extract_state =
  attribute_names :: "string list"
  attribute_set :: "string set"
  local_attribute_set :: "string set"

text \<open>One token of an \<open>index_config(..)\<close> group.\<close>

fun extract_token :: "extract_state \<Rightarrow> token_tree \<Rightarrow> macro_error + extract_state" where
  "extract_token st (Punct c sp) = bind_result (validate_punct c sp) (\<lambda>_. Inr st)"
| "extract_token st (Ident i) =
     (if i = ''primary_key'' \<and> ''primary_key'' \<in> attribute_set st then
        Inl (Compile_error ''`primary_key` already exists'')
      else if i = ''distinct'' \<and> ''distinct'' \<in> attribute_set st then
        Inl (Compile_error ''`distinct` already exists'')
      else if i \<in> local_attribute_set st then
        Inl (Compile_error (''`'' @ i @ ''` already exists for this field''))
      else if i \<notin> valid_attribute_names then
        Inl (Compile_error (''Property `'' @ i @ ''` does not exist for type `index_config`''))
      else Inr \<lparr>attribute_names = attribute_names st @ [i],
                attribute_set = insert i (attribute_set st),
                local_attribute_set = insert i (local_attribute_set st)\<rparr>)"
| "extract_token st (Group _) = Inl (Compile_error ''Invalid parsing'')"
| "extract_token st (Literal _) = Inl (Compile_error ''Invalid parsing'')"

text \<open>One tree of an attribute's token stream: only groups are read.\<close>

fun extract_stream :: "extract_state \<Rightarrow> token_tree \<Rightarrow> macro_error + extract_state" where
  "extract_stream st (Group ts) = fold_result extract_token st ts"
| "extract_stream st _ = Inr st"

text \<open>On a \<open>parse_meta\<close> error, the punctuation of the groups is validated first.\<close>

fun punct_only :: "unit \<Rightarrow> token_tree \<Rightarrow> macro_error + unit" where
  "punct_only u (Punct c sp) = validate_punct c sp"
| "punct_only u _ = Inr u"

fun punct_stream :: "unit \<Rightarrow> token_tree \<Rightarrow> macro_error + unit" where
  "punct_stream u (Group ts) = fold_result punct_only u ts"
| "punct_stream u _ = Inr u"

fun extract_attr :: "extract_state \<Rightarrow> attribute \<Rightarrow> macro_error + extract_state" where
  "extract_attr st a =
     (case attr_meta a of
        Meta_list path \<Rightarrow>
          (if path \<noteq> ''index_config'' then Inr st else fold_result extract_stream st (attr_tokens a))
      | Meta_error msg \<Rightarrow>
          bind_result (fold_result punct_stream () (attr_tokens a)) (\<lambda>_. Inl (Compile_error msg))
      | _ \<Rightarrow> Inr st)"

definition extract_all_attr_values ::
  "attribute list \<Rightarrow> string set \<Rightarrow> macro_error + (string list \<times> string set)" where
  "extract_all_attr_values attrs aset =
     bind_result
       (fold_result extract_attr
          \<lparr>attribute_names = [], attribute_set = aset, local_attribute_set = {}\<rparr> attrs)
       (\<lambda>st. Inr (attribute_names st, attribute_set st))"

section \<open>The implementation the macro emits\<close>

record config_acc =
  cfg_attribute_set :: "string set"
  primary_key_attribute :: string
  distinct_key_attribute :: string
  cfg_displayed :: "string list"
  cfg_searchable :: "string list"
  cfg_filterable :: "string list"
  cfg_sortable :: "string list"

definition unwrap_ident :: "string option \<Rightarrow> macro_error + string" where
  "unwrap_ident x =
     (case x of None \<Rightarrow> Inl (Panic ''called `Option::unwrap()` on a `None` value'') | Some s \<Rightarrow> Inr s)"

fun apply_attribute :: "string option \<Rightarrow> config_acc \<Rightarrow> string \<Rightarrow> macro_error + config_acc" where
  "apply_attribute fid acc a =
     (if a = ''displayed'' then
        bind_result (unwrap_ident fid) (\<lambda>n. Inr (acc\<lparr>cfg_displayed := cfg_displayed acc @ [n]\<rparr>))
      else if a = ''searchable'' then
        bind_result (unwrap_ident fid) (\<lambda>n. Inr (acc\<lparr>cfg_searchable := cfg_searchable acc @ [n]\<rparr>))
      else if a = ''filterable'' then
        bind_result (unwrap_ident fid) (\<lambda>n. Inr (acc\<lparr>cfg_filterable := cfg_filterable acc @ [n]\<rparr>))
      else if a = ''sortable'' then
        bind_result (unwrap_ident fid) (\<lambda>n. Inr (acc\<lparr>cfg_sortable := cfg_sortable acc @ [n]\<rparr>))
      else if a = ''primary_key'' then
        bind_result (unwrap_ident fid) (\<lambda>n. Inr (acc\<lparr>primary_key_attribute := n\<rparr>))
      else if a = ''distinct'' then
        bind_result (unwrap_ident fid) (\<lambda>n. Inr (acc\<lparr>distinct_key_attribute := n\<rparr>))
      else Inr acc)"

definition process_field :: "config_acc \<Rightarrow> field \<Rightarrow> macro_error + config_acc" where
  "process_field acc f =
     bind_result (extract_all_attr_values (field_attrs f) (cfg_attribute_set acc))
       (\<lambda>(names, aset). fold_result (apply_attribute (field_ident f)) (acc\<lparr>cfg_attribute_set := aset\<rparr>) names)"

definition config_acc_init :: config_acc where
  "config_acc_init =
     \<lparr>cfg_attribute_set = {}, primary_key_attribute = [], distinct_key_attribute = [],
      cfg_displayed = [], cfg_searchable = [], cfg_filterable = [], cfg_sortable = []\<rparr>"

text \<open>What the emitted builder calls denote: a list call is emitted with the
  array of names, or with \<open>iter::empty()\<close> when there are none; the distinct
  call only when a distinct field was named.\<close>

definition settings_token_for_list ::
  "(settings \<Rightarrow> string list \<Rightarrow> settings) \<Rightarrow> string list \<Rightarrow> settings \<Rightarrow> settings" where
  "settings_token_for_list method_ident xs s =
     (if xs \<noteq> [] then method_ident s xs else method_ident s [])"

definition settings_token_for_string ::
  "(settings \<Rightarrow> string \<Rightarrow> settings) \<Rightarrow> string \<Rightarrow> settings \<Rightarrow> settings" where
  "settings_token_for_string method_ident x s = (if x \<noteq> [] then method_ident s x else s)"

definition generate_settings :: "config_acc \<Rightarrow> settings" where
  "generate_settings acc =
     settings_token_for_string with_distinct_attribute (distinct_key_attribute acc)
       (settings_token_for_list with_searchable_attributes (cfg_searchable acc)
         (settings_token_for_list with_filterable_attributes (cfg_filterable acc)
           (settings_token_for_list with_sortable_attributes (cfg_sortable acc)
             (settings_token_for_list with_displayed_attributes (cfg_displayed acc) settings_new))))"

section \<open>Index name: UpperCamel to snake case\<close>

definition ascii_upper :: string where "ascii_upper = ''ABCDEFGHIJKLMNOPQRSTUVWXYZ''"
definition ascii_lower :: string where "ascii_lower = ''abcdefghijklmnopqrstuvwxyz''"

definition is_upper :: "char \<Rightarrow> bool" where "is_upper c \<longleftrightarrow> c \<in> set ascii_upper"
definition is_lower :: "char \<Rightarrow> bool" where "is_lower c \<longleftrightarrow> c \<in> set ascii_lower"

definition to_lower :: "char \<Rightarrow> char" where
  "to_lower c = (case map_of (zip ascii_upper ascii_lower) c of None \<Rightarrow> c | Some l \<Rightarrow> l)"

definition is_digit :: "char \<Rightarrow> bool" where "is_digit c \<longleftrightarrow> c \<in> set ''0123456789''"

text \<open>The word boundaries \<open>convert_case\<close> uses when reading \<open>Case::UpperCamel\<close>: an
  upper-case letter after a lower-case one (\<open>aA\<close>), the last letter of an acronym
  before a lower-case one (\<open>AAa\<close>: at the second upper-case letter), and every
  change between a letter and a digit (\<open>a1\<close>, \<open>A1\<close>, \<open>1A\<close>, \<open>1a\<close>).\<close>

fun word_boundary :: "char option \<Rightarrow> char \<Rightarrow> char option \<Rightarrow> bool" where
  "word_boundary (Some p) c nxt =
     ((is_lower p \<and> is_upper c) \<or>
      (is_upper p \<and> is_upper c \<and> (case nxt of Some n \<Rightarrow> is_lower n | None \<Rightarrow> False)) \<or>
      (is_lower p \<and> is_digit c) \<or> (is_upper p \<and> is_digit c) \<or>
      (is_digit p \<and> is_upper c) \<or> (is_digit p \<and> is_lower c))"
| "word_boundary None c nxt = False"

fun snake_aux :: "char option \<Rightarrow> string \<Rightarrow> string" where
  "snake_aux p [] = []"
| "snake_aux p (c # cs) =
     (if word_boundary p c (case cs of [] \<Rightarrow> None | n # _ \<Rightarrow> Some n) then [CHR ''_'', to_lower c]
      else [to_lower c]) @ snake_aux (Some c) cs"

definition to_snake_case :: "string \<Rightarrow> string" where
  "to_snake_case s = snake_aux None s"

section \<open>The macro\<close>

record index_config_impl =
  index_str :: string
  primary_key_token :: "string option"
  generated_settings :: settings

definition get_index_config_implementation ::
  "string \<Rightarrow> field list \<Rightarrow> macro_error + index_config_impl" where
  "get_index_config_implementation struct_ident fs =
     bind_result (fold_result process_field config_acc_init fs) (\<lambda>acc.
       Inr \<lparr>index_str = to_snake_case struct_ident,
            primary_key_token =
              (if primary_key_attribute acc = [] then None else Some (primary_key_attribute acc)),
            generated_settings = generate_settings acc\<rparr>)"

definition generate_index_settings :: "string \<Rightarrow> derive_data \<Rightarrow> macro_error + index_config_impl" where
  "generate_index_settings ident d =
     (case d of
        Data_struct fs \<Rightarrow> get_index_config_implementation ident fs
      | _ \<Rightarrow> Inl (Compile_error ''Applicable only to struct''))"

section \<open>Abstract view: the annotations of a field\<close>

text \<open>What a field declares: the identifiers inside the groups of its
  \<open>#[index_config(..)]\<close> attributes, in order. The extraction loops refine this view.\<close>

definition idents :: "token_tree list \<Rightarrow> string list" where
  "idents ts = concat (map (\<lambda>t. case t of Ident i \<Rightarrow> [i] | _ \<Rightarrow> []) ts)"

definition group_tokens :: "token_tree list \<Rightarrow> token_tree list" where
  "group_tokens trees = concat (map (\<lambda>t. case t of Group ts \<Rightarrow> ts | _ \<Rightarrow> []) trees)"

definition attr_annotations :: "attribute \<Rightarrow> string list" where
  "attr_annotations a =
     (case attr_meta a of
        Meta_list p \<Rightarrow> if p = ''index_config'' then idents (group_tokens (attr_tokens a)) else []
      | _ \<Rightarrow> [])"

definition annotations :: "field \<Rightarrow> string list" where
  "annotations f = concat (map attr_annotations (field_attrs f))"

text \<open>The names a loop may add on top of the names seen before (global set
  \<open>g\<close>) and on the current field (local set \<open>l\<close>).\<close>

definition fresh_names :: "string set \<Rightarrow> string set \<Rightarrow> string list \<Rightarrow> bool" where
  "fresh_names g l ns \<longleftrightarrow>
     distinct ns \<and> set ns \<inter> l = {} \<and> set ns \<subseteq> valid_attribute_names \<and>
     (''primary_key'' \<in> set ns \<longrightarrow> ''primary_key'' \<notin> g) \<and>
     (''distinct'' \<in> set ns \<longrightarrow> ''distinct'' \<notin> g)"

definition add_names :: "extract_state \<Rightarrow> string list \<Rightarrow> extract_state" where
  "add_names st ns =
     \<lparr>attribute_names = attribute_names st @ ns,
      attribute_set = attribute_set st \<union> set ns,
      local_attribute_set = local_attribute_set st \<union> set ns\<rparr>"

definition attr_well_formed :: "attribute \<Rightarrow> bool" where
  "attr_well_formed a =
     (case attr_meta a of
        Meta_error _ \<Rightarrow> False
      | Meta_list p \<Rightarrow>
          (p = ''index_config'' \<longrightarrow> set (group_tokens (attr_tokens a)) \<subseteq> {Punct CHR '','' Alone} \<union> range Ident)
      | _ \<Rightarrow> True)"

text \<open>The input the macro accepts: every attribute parses, no field repeats a
  property or names an unknown one, a field with properties has a name, and at
  most one field is the primary key and at most one the distinct attribute.\<close>

definition field_local_ok :: "field \<Rightarrow> bool" where
  "field_local_ok f \<longleftrightarrow>
     list_all attr_well_formed (field_attrs f) \<and> distinct (annotations f) \<and>
     set (annotations f) \<subseteq> valid_attribute_names \<and> (annotations f \<noteq> [] \<longrightarrow> field_ident f \<noteq> None)"

definition field_ok :: "string set \<Rightarrow> field \<Rightarrow> bool" where
  "field_ok g f \<longleftrightarrow>
     field_local_ok f \<and> (''primary_key'' \<in> set (annotations f) \<longrightarrow> ''primary_key'' \<notin> g) \<and>
     (''distinct'' \<in> set (annotations f) \<longrightarrow> ''distinct'' \<notin> g)"

fun fields_ok :: "string set \<Rightarrow> field list \<Rightarrow> bool" where
  "fields_ok g [] = True"
| "fields_ok g (f # fs) = (field_ok g f \<and> fields_ok (g \<union> set (annotations f)) fs)"

definition uses :: "string \<Rightarrow> field list \<Rightarrow> nat" where
  "uses a fs = length (filter (\<lambda>f. a \<in> set (annotations f)) fs)"

definition macro_input_ok :: "field list \<Rightarrow> bool" where
  "macro_input_ok fs \<longleftrightarrow>
     list_all field_local_ok fs \<and> uses ''primary_key'' fs \<le> 1 \<and> uses ''distinct'' fs \<le> 1"

definition marked :: "string \<Rightarrow> field \<Rightarrow> string list" where
  "marked a f = (if a \<in> set (annotations f) then [the (field_ident f)] else [])"

definition add_field :: "field \<Rightarrow> config_acc \<Rightarrow> config_acc" where
  "add_field f acc =
     acc\<lparr>cfg_attribute_set := cfg_attribute_set acc \<union> set (annotations f),
         primary_key_attribute := last (primary_key_attribute acc # marked ''primary_key'' f),
         distinct_key_attribute := last (distinct_key_attribute acc # marked ''distinct'' f),
         cfg_displayed := cfg_displayed acc @ marked ''displayed'' f,
         cfg_searchable := cfg_searchable acc @ marked ''searchable'' f,
         cfg_filterable := cfg_filterable acc @ marked ''filterable'' f,
         cfg_sortable := cfg_sortable acc @ marked ''sortable'' f\<rparr>"

definition spec_list :: "string \<Rightarrow> field list \<Rightarrow> string list" where
  "spec_list a fs = concat (map (marked a) fs)"

text \<open>What the emitted implementation denotes, read off the annotations.\<close>

definition spec_key :: "string \<Rightarrow> field list \<Rightarrow> string" where
  "spec_key a fs = last ([] # spec_list a fs)"

definition index_config_spec :: "string \<Rightarrow> field list \<Rightarrow> index_config_impl" where
  "index_config_spec struct_ident fs =
     \<lparr>index_str = to_snake_case struct_ident,
      primary_key_token =
        (if spec_key ''primary_key'' fs = [] then None else Some (spec_key ''primary_key'' fs)),
      generated_settings =
        settings_new\<lparr>displayed_attributes := Some (spec_list ''displayed'' fs),
                     sortable_attributes := Some (spec_list ''sortable'' fs),
                     filterable_attributes := Some (spec_list ''filterable'' fs),
                     searchable_attributes := Some (spec_list ''searchable'' fs),
                     distinct_attribute :=
                       (if spec_key ''distinct'' fs = [] then None else Some (spec_key ''distinct'' fs))\<rparr>\<rparr>"

section \<open>Fixtures: the structs of the \<open>documents.rs\<close> tests\<close>

text \<open>\<open>capitalized w\<close>: an UpperCamel word, one upper-case letter and at least one
  lower-case one. \<open>index_config_attr ns\<close> is the attribute \<open>#[index_config(n1, n2, ..)]\<close>.\<close>

definition capitalized :: "string \<Rightarrow> bool" where
  "capitalized w = (case w of [] \<Rightarrow> False | c # cs \<Rightarrow> is_upper c \<and> cs \<noteq> [] \<and> list_all is_lower cs)"

definition index_config_attr :: "string list \<Rightarrow> attribute" where
  "index_config_attr names =
     \<lparr>attr_meta = Meta_list ''index_config'',
      attr_tokens = [Group (tl (concat (map (\<lambda>n. [Punct CHR '','' Alone, Ident n]) names)))]\<rparr>"

definition annotated_field :: "string option \<Rightarrow> string list \<Rightarrow> field" where
  "annotated_field fid names = \<lparr>field_ident = fid, field_attrs = [index_config_attr names]\<rparr>"

definition movie_clips :: "field list" where
  "movie_clips = [
     annotated_field (Some ''movie_id'') [''primary_key''],
     annotated_field (Some ''owner'') [''distinct''],
     annotated_field (Some ''title'') [''displayed'', ''searchable''],
     annotated_field (Some ''description'') [''displayed''],
     annotated_field (Some ''release_date'') [''filterable'', ''sortable'', ''displayed''],
     annotated_field (Some ''genres'') [''filterable'', ''displayed'']]"

definition video_clips :: "field list" where
  "video_clips = [\<lparr>field_ident = Some ''video_id'', field_attrs = []\<rparr>]"

text \<open>The characters of a Rust identifier in ASCII, and those Meilisearch accepts
  in an index uid (here: lower-case letters, digits and \<open>_\<close>).\<close>

definition ident_chars :: "char set" where
  "ident_chars = set (ascii_upper @ ascii_lower @ ''0123456789_'')"

definition uid_chars :: "char set" where
  "uid_chars = set (ascii_lower @ ''0123456789_'')"

section \<open>Extraction refines the annotation view\<close>

lemma idents_simps [simp]:
  "idents [] = []" "idents (Ident i # ts) = i # idents ts"
  "idents (Punct c sp # ts) = idents ts" "idents (xs @ ys) = idents xs @ idents ys"
  by (simp_all add: idents_def)

lemma fresh_names_Nil [simp]: "fresh_names g l []"
  by (simp add: fresh_names_def)

lemma fresh_names_Cons:
  "fresh_names g l (n # ns) \<longleftrightarrow>
     n \<notin> l \<and> n \<in> valid_attribute_names \<and> (n = ''primary_key'' \<longrightarrow> n \<notin> g) \<and>
     (n = ''distinct'' \<longrightarrow> n \<notin> g) \<and> fresh_names (insert n g) (insert n l) ns"
  by (auto simp: fresh_names_def)

lemma add_names_Nil [simp]: "add_names st [] = st"
  by (simp add: add_names_def)

lemma add_names_Cons:
  "add_names st (n # ns) =
     add_names \<lparr>attribute_names = attribute_names st @ [n], attribute_set = insert n (attribute_set st),
                local_attribute_set = insert n (local_attribute_set st)\<rparr> ns"
  by (simp add: add_names_def)

lemma extract_token_Inr:
  "extract_token st t = Inr st' \<longleftrightarrow>
     (\<exists>c. t = Punct c Alone \<and> c = CHR '','' \<and> st' = st) \<or>
     (\<exists>i. t = Ident i \<and> fresh_names (attribute_set st) (local_attribute_set st) [i] \<and>
          st' = add_names st [i])"
  by (cases t) (auto simp: validate_punct_def fresh_names_def add_names_def)

lemma fold_extract_token:
  "fold_result extract_token st ts = Inr st' \<longleftrightarrow>
     set ts \<subseteq> {Punct CHR '','' Alone} \<union> range Ident \<and>
     fresh_names (attribute_set st) (local_attribute_set st) (idents ts) \<and>
     st' = add_names st (idents ts)"
proof (induction ts arbitrary: st)
  case Nil
  then show ?case by auto
next
  case (Cons t ts)
  show ?case
    by (cases t) (auto simp: Cons.IH extract_token_Inr validate_punct_def fresh_names_Cons add_names_Cons
        bind_result_eq_Inr_iff)
qed

lemma add_names_append [simp]: "add_names (add_names st a) b = add_names st (a @ b)"
  by (simp add: add_names_def Un_assoc)

lemma add_names_sets [simp]:
  "attribute_names (add_names st ns) = attribute_names st @ ns"
  "attribute_set (add_names st ns) = attribute_set st \<union> set ns"
  "local_attribute_set (add_names st ns) = local_attribute_set st \<union> set ns"
  by (simp_all add: add_names_def)

lemma fresh_names_append:
  "fresh_names g l (a @ b) \<longleftrightarrow> fresh_names g l a \<and> fresh_names (g \<union> set a) (l \<union> set a) b"
  by (auto simp: fresh_names_def)

lemma group_tokens_simps [simp]:
  "group_tokens [] = []" "group_tokens (Group ts # trees) = ts @ group_tokens trees"
  "(\<And>ts. t \<noteq> Group ts) \<Longrightarrow> group_tokens (t # trees) = group_tokens trees"
  by (auto simp: group_tokens_def split: token_tree.split)

lemma fold_extract_stream:
  "fold_result extract_stream st trees = Inr st' \<longleftrightarrow>
     set (group_tokens trees) \<subseteq> {Punct CHR '','' Alone} \<union> range Ident \<and>
     fresh_names (attribute_set st) (local_attribute_set st) (idents (group_tokens trees)) \<and>
     st' = add_names st (idents (group_tokens trees))"
proof (induction trees arbitrary: st)
  case Nil
  then show ?case by auto
next
  case (Cons t trees)
  show ?case
  proof (cases t)
    case (Group ts)
    then show ?thesis
      by (auto simp: Cons.IH fold_extract_token bind_result_eq_Inr_iff fresh_names_append)
  qed (auto simp: Cons.IH)
qed

lemma extract_attr_Inr:
  "extract_attr st a = Inr st' \<longleftrightarrow>
     attr_well_formed a \<and> fresh_names (attribute_set st) (local_attribute_set st) (attr_annotations a) \<and>
     st' = add_names st (attr_annotations a)"
  by (auto simp: attr_well_formed_def attr_annotations_def fold_extract_stream bind_result_eq_Inr_iff
      split: parsed_meta.splits)

lemma fold_extract_attr:
  "fold_result extract_attr st attrs = Inr st' \<longleftrightarrow>
     (\<forall>a\<in>set attrs. attr_well_formed a) \<and>
     fresh_names (attribute_set st) (local_attribute_set st) (concat (map attr_annotations attrs)) \<and>
     st' = add_names st (concat (map attr_annotations attrs))"
proof (induction attrs arbitrary: st)
  case Nil
  then show ?case by auto
next
  case (Cons a attrs)
  show ?case
    by (simp del: extract_attr.simps add: Cons.IH extract_attr_Inr bind_result_eq_Inr_iff
        fresh_names_append) blast
qed

lemma extract_all_attr_values_Inr:
  "extract_all_attr_values attrs g = Inr (ns, g') \<longleftrightarrow>
     (\<forall>a\<in>set attrs. attr_well_formed a) \<and> fresh_names g {} (concat (map attr_annotations attrs)) \<and>
     ns = concat (map attr_annotations attrs) \<and> g' = g \<union> set ns"
  by (auto simp: extract_all_attr_values_def fold_extract_attr bind_result_eq_Inr_iff)

lemma filter_eq_distinct:
  "distinct ns \<Longrightarrow> filter ((=) x) ns = (if x \<in> set ns then [x] else [])"
  by (induction ns) auto

lemma fold_apply_attribute_Some:
  "set ns \<subseteq> valid_attribute_names \<Longrightarrow>
   fold_result (apply_attribute (Some n)) acc ns =
     Inr (acc\<lparr>primary_key_attribute := (if ''primary_key'' \<in> set ns then n else primary_key_attribute acc),
             distinct_key_attribute := (if ''distinct'' \<in> set ns then n else distinct_key_attribute acc),
             cfg_displayed := cfg_displayed acc @ map (\<lambda>_. n) (filter ((=) ''displayed'') ns),
             cfg_searchable := cfg_searchable acc @ map (\<lambda>_. n) (filter ((=) ''searchable'') ns),
             cfg_filterable := cfg_filterable acc @ map (\<lambda>_. n) (filter ((=) ''filterable'') ns),
             cfg_sortable := cfg_sortable acc @ map (\<lambda>_. n) (filter ((=) ''sortable'') ns)\<rparr>)"
proof (induction ns arbitrary: acc)
  case Nil
  then show ?case by simp
next
  case (Cons x ns)
  then show ?case
    by (auto simp: valid_attribute_names_def unwrap_ident_def)
qed

lemma fold_apply_attribute_None:
  "x \<in> valid_attribute_names \<Longrightarrow>
   fold_result (apply_attribute None) acc (x # ns) = Inl (Panic ''called `Option::unwrap()` on a `None` value'')"
  by (auto simp: valid_attribute_names_def unwrap_ident_def)

lemma extract_field_attrs_Inr:
  "extract_all_attr_values (field_attrs f) g = Inr (ns, g') \<longleftrightarrow>
     list_all attr_well_formed (field_attrs f) \<and> fresh_names g {} (annotations f) \<and>
     ns = annotations f \<and> g' = g \<union> set ns"
  by (simp add: extract_all_attr_values_Inr annotations_def list_all_iff)

lemma process_field_Inr:
  "process_field acc f = Inr acc' \<longleftrightarrow> field_ok (cfg_attribute_set acc) f \<and> acc' = add_field f acc"
proof (cases "field_ident f")
  case None
  show ?thesis
  proof (cases "annotations f")
    case Nil
    then show ?thesis using None
      by (auto simp: process_field_def extract_field_attrs_Inr bind_result_eq_Inr_iff field_ok_def
          field_local_ok_def fresh_names_def add_field_def marked_def )
  next
    case (Cons x ns)
    then show ?thesis using None
      by (auto simp: process_field_def extract_field_attrs_Inr bind_result_eq_Inr_iff field_ok_def
          field_local_ok_def fresh_names_def  fold_apply_attribute_None
          simp del: fold_result.simps apply_attribute.simps)
  qed
next
  case (Some n)
  then show ?thesis
    by (auto simp: process_field_def extract_field_attrs_Inr bind_result_eq_Inr_iff field_ok_def
        field_local_ok_def fresh_names_def add_field_def marked_def 
        fold_apply_attribute_Some filter_eq_distinct
        simp del: fold_result.simps apply_attribute.simps)
qed

lemma fold_process_field:
  "fold_result process_field acc fs = Inr acc' \<longleftrightarrow>
     fields_ok (cfg_attribute_set acc) fs \<and> acc' = fold add_field fs acc"
proof (induction fs arbitrary: acc)
  case Nil
  then show ?case by auto
next
  case (Cons f fs)
  have "cfg_attribute_set (add_field f acc) = cfg_attribute_set acc \<union> set (annotations f)"
    by (simp add: add_field_def)
  then show ?case
    by (auto simp: Cons.IH process_field_Inr bind_result_eq_Inr_iff simp del: process_field_def)
qed

lemma last_Cons_append: "last (last (x # a) # b) = last (x # a @ b)"
  by (cases b) auto

lemma fold_add_field:
  "cfg_displayed (fold add_field fs acc) = cfg_displayed acc @ spec_list ''displayed'' fs"
  "cfg_searchable (fold add_field fs acc) = cfg_searchable acc @ spec_list ''searchable'' fs"
  "cfg_filterable (fold add_field fs acc) = cfg_filterable acc @ spec_list ''filterable'' fs"
  "cfg_sortable (fold add_field fs acc) = cfg_sortable acc @ spec_list ''sortable'' fs"
  "primary_key_attribute (fold add_field fs acc) =
     last (primary_key_attribute acc # spec_list ''primary_key'' fs)"
  "distinct_key_attribute (fold add_field fs acc) =
     last (distinct_key_attribute acc # spec_list ''distinct'' fs)"
  by (induction fs arbitrary: acc) (simp_all add: add_field_def spec_list_def last_Cons_append)

lemma fields_ok_iff:
  "fields_ok g fs \<longleftrightarrow>
     list_all field_local_ok fs \<and>
     uses ''primary_key'' fs \<le> (if ''primary_key'' \<in> g then 0 else 1) \<and>
     uses ''distinct'' fs \<le> (if ''distinct'' \<in> g then 0 else 1)"
  by (induction fs arbitrary: g) (auto simp: field_ok_def uses_def)

text \<open>Both branches of \<open>get_settings_token_for_list\<close> denote the same call.\<close>

lemma settings_token_for_list_eq: "settings_token_for_list m xs s = m s xs"
  by (simp add: settings_token_for_list_def)

lemma get_index_config_implementation_Inr:
  "get_index_config_implementation struct_ident fs = Inr impl \<longleftrightarrow>
     macro_input_ok fs \<and> impl = index_config_spec struct_ident fs"
proof -
  have ok: "fields_ok (cfg_attribute_set config_acc_init) fs \<longleftrightarrow> macro_input_ok fs"
    by (simp add: fields_ok_iff config_acc_init_def macro_input_ok_def)
  have "generate_settings (fold add_field fs config_acc_init) = generated_settings (index_config_spec struct_ident fs)"
    by (simp add: generate_settings_def fold_add_field config_acc_init_def index_config_spec_def spec_key_def
        settings_token_for_list_eq settings_token_for_string_def settings_new_def with_displayed_attributes_def
        with_sortable_attributes_def with_filterable_attributes_def with_searchable_attributes_def
        with_distinct_attribute_def)
  moreover have "primary_key_attribute (fold add_field fs config_acc_init) = spec_key ''primary_key'' fs"
    by (simp add: fold_add_field config_acc_init_def spec_key_def)
  ultimately show ?thesis
    by (auto simp: get_index_config_implementation_def bind_result_eq_Inr_iff fold_process_field ok
        index_config_spec_def)
qed

section \<open>Index name\<close>

lemma upper_not_lower: "is_upper c \<Longrightarrow> \<not> is_lower c"
  by (auto simp: is_upper_def is_lower_def ascii_upper_def ascii_lower_def)

lemma lower_not_digit: "is_lower c \<Longrightarrow> \<not> is_digit c"
  by (auto simp: is_lower_def is_digit_def ascii_lower_def)

lemma upper_not_digit: "is_upper c \<Longrightarrow> \<not> is_digit c"
  by (auto simp: is_upper_def is_digit_def ascii_upper_def)

lemma snake_aux_lower_run:
  "\<not> is_digit p \<Longrightarrow> list_all is_lower cs \<Longrightarrow>
   snake_aux (Some p) (cs @ rest) = map to_lower cs @ snake_aux (Some (last (p # cs))) rest"
  by (induction cs arbitrary: p) (auto simp: upper_not_lower lower_not_digit)

lemma snake_aux_words:
  "is_lower p \<Longrightarrow> list_all capitalized ws \<Longrightarrow>
   snake_aux (Some p) (concat ws) = concat (map (\<lambda>w. CHR ''_'' # map to_lower w) ws)"
proof (induction ws arbitrary: p)
  case Nil
  then show ?case by simp
next
  case (Cons w ws)
  then obtain c cs where w: "w = c # cs" and c: "is_upper c" and cs: "cs \<noteq> []" "list_all is_lower cs"
    by (auto simp: capitalized_def split: list.splits)
  have "is_lower (last (c # cs))" using cs by (simp add: list_all_iff)
  then show ?case
    using Cons w c cs by (simp add: snake_aux_lower_run upper_not_digit lower_not_digit)
qed

lemma to_snake_case_words:
  "list_all capitalized ws \<Longrightarrow> to_snake_case (concat ws) = tl (concat (map (\<lambda>w. CHR ''_'' # map to_lower w) ws))"
proof (cases ws)
  case Nil
  then show ?thesis by (simp add: to_snake_case_def)
next
  case (Cons w ws')
  assume all: "list_all capitalized ws"
  then obtain c cs where w: "w = c # cs" and c: "is_upper c" and cs: "cs \<noteq> []" "list_all is_lower cs"
    using Cons by (auto simp: capitalized_def split: list.splits)
  have "is_lower (last (c # cs))" using cs by (simp add: list_all_iff)
  then show ?thesis
    using Cons all w c cs
    by (simp add: to_snake_case_def snake_aux_lower_run snake_aux_words upper_not_digit)
qed

lemma to_lower_upper: "c \<in> set ascii_upper \<Longrightarrow> to_lower c \<in> set ascii_lower"
  by (auto simp: ascii_upper_def ascii_lower_def to_lower_def)

lemma to_lower_other: "c \<notin> set ascii_upper \<Longrightarrow> to_lower c = c"
proof -
  assume "c \<notin> set ascii_upper"
  then have "map_of (zip ascii_upper ascii_lower) c = None"
    by (simp add: map_of_eq_None_iff ascii_upper_def ascii_lower_def)
  then show ?thesis by (simp add: to_lower_def)
qed

lemma to_lower_uid_char: "c \<in> ident_chars \<Longrightarrow> to_lower c \<in> uid_chars"
  using to_lower_upper [of c] to_lower_other [of c]
  by (cases "c \<in> set ascii_upper") (auto simp: ident_chars_def uid_chars_def)

lemma snake_aux_uid_chars: "set s \<subseteq> ident_chars \<Longrightarrow> set (snake_aux p s) \<subseteq> uid_chars"
proof (induction s arbitrary: p)
  case Nil
  then show ?case by simp
next
  case (Cons c s)
  have "to_lower c \<in> uid_chars" using Cons.prems to_lower_uid_char by simp
  moreover have "CHR ''_'' \<in> uid_chars" by (simp add: uid_chars_def)
  ultimately show ?case using Cons by auto
qed

section \<open>Properties of the macro\<close>

lemma cfg_attribute_set_fold [simp]:
  "cfg_attribute_set (fold add_field fs acc) = cfg_attribute_set acc \<union> (\<Union>f\<in>set fs. set (annotations f))"
  by (induction fs arbitrary: acc) (auto simp: add_field_def)

lemma spec_list_Cons [simp]: "spec_list a (f # fs) = marked a f @ spec_list a fs"
  by (simp add: spec_list_def)

lemma spec_list_Nil [simp]: "spec_list a [] = []"
  by (simp add: spec_list_def)

lemma set_spec_list:
  "set (spec_list a fs) = (\<lambda>f. the (field_ident f)) ` {f \<in> set fs. a \<in> set (annotations f)}"
  by (induction fs) (auto simp: marked_def)

lemma distinct_spec_list:
  assumes "distinct (map field_ident fs)" and "list_all field_local_ok fs"
  shows "distinct (spec_list a fs)"
  using assms
proof (induction fs)
  case Nil
  then show ?case by simp
next
  case (Cons f fs)
  have new: "the (field_ident f) \<notin> set (spec_list a fs)" if "a \<in> set (annotations f)"
  proof
    assume "the (field_ident f) \<in> set (spec_list a fs)"
    then obtain g where g: "g \<in> set fs" "a \<in> set (annotations g)" "the (field_ident g) = the (field_ident f)"
      by (auto simp: set_spec_list)
    have "field_ident f \<noteq> None" "field_ident g \<noteq> None"
      using that g Cons.prems(2) by (auto simp: field_local_ok_def list_all_iff)
    then have "field_ident g = field_ident f" using g(3) by auto
    then show False using g(1) Cons.prems(1) by (auto simp: image_iff)
  qed
  then show ?case using Cons by (auto simp: marked_def)
qed

lemma index_config_attr_tokens:
  "group_tokens (attr_tokens (index_config_attr (n # ns))) =
     Ident n # concat (map (\<lambda>m. [Punct CHR '','' Alone, Ident m]) ns)"
  by (simp add: index_config_attr_def)

text \<open>C20: The macro's entry point refines its specification: it accepts exactly the
  well-formed structs, and on them it emits the implementation read off the annotations.\<close>

theorem generate_index_settings_refinement:
  "case_sum (\<lambda>_. None) Some (generate_index_settings ident d) =
     (case d of
        Data_struct fs \<Rightarrow> (if macro_input_ok fs then Some (index_config_spec ident fs) else None)
      | _ \<Rightarrow> None)"
proof (cases d)
  case (Data_struct fs)
  show ?thesis
  proof (cases "macro_input_ok fs")
    case True
    then have "get_index_config_implementation ident fs = Inr (index_config_spec ident fs)"
      by (simp add: get_index_config_implementation_Inr)
    then show ?thesis using Data_struct True by (simp add: generate_index_settings_def)
  next
    case False
    then have "\<forall>impl. get_index_config_implementation ident fs \<noteq> Inr impl"
      by (simp add: get_index_config_implementation_Inr)
    then show ?thesis using Data_struct False
      by (cases "get_index_config_implementation ident fs") (auto simp: generate_index_settings_def)
  qed
qed (simp_all add: generate_index_settings_def)

lemmas index_config_eval =
  get_index_config_implementation_def process_field_def extract_all_attr_values_def
  config_acc_init_def validate_punct_def valid_attribute_names_def unwrap_ident_def
  annotated_field_def index_config_attr_def

lemmas snake_eval =
  to_snake_case_def ascii_upper_def ascii_lower_def is_upper_def is_lower_def to_lower_def is_digit_def

text \<open>C21: An accepted struct has at most one primary-key field and at most one
  distinct field, and no field declares a property twice or an unknown one.\<close>

theorem index_config_unique_keys:
  assumes "get_index_config_implementation struct_ident fs = Inr impl"
  shows "uses ''primary_key'' fs \<le> 1 \<and> uses ''distinct'' fs \<le> 1 \<and>
         (\<forall>f\<in>set fs. distinct (annotations f) \<and> set (annotations f) \<subseteq> valid_attribute_names)"
  using assms by (auto simp: get_index_config_implementation_Inr macro_input_ok_def field_local_ok_def
      list_all_iff)

text \<open>C22: A property that is not one of the six is a compile error naming it.\<close>

theorem index_config_unknown_property:
  assumes "x \<notin> valid_attribute_names"
  shows "get_index_config_implementation struct_ident (annotated_field fid [x] # fs) =
           Inl (Compile_error (''Property `'' @ x @ ''` does not exist for type `index_config`''))"
proof -
  have "x \<noteq> ''primary_key''" "x \<noteq> ''distinct''" using assms by (auto simp: valid_attribute_names_def)
  then show ?thesis using assms by (simp add: index_config_eval)
qed

text \<open>C23: Once a field is the primary key, a later field whose attribute starts
  with \<open>primary_key\<close> is the compile error \<open>`primary_key` already exists\<close>.\<close>

theorem index_config_second_primary_key:
  assumes "macro_input_ok pre" and "uses ''primary_key'' pre = 1"
  shows "get_index_config_implementation struct_ident
           (pre @ annotated_field fid (''primary_key'' # ns) # post) =
         Inl (Compile_error ''`primary_key` already exists'')"
proof -
  have "fields_ok (cfg_attribute_set config_acc_init) pre"
    using assms(1) by (simp add: fields_ok_iff config_acc_init_def macro_input_ok_def)
  then have pre: "fold_result process_field config_acc_init pre = Inr (fold add_field pre config_acc_init)"
    by (simp add: fold_process_field)
  have "filter (\<lambda>f. ''primary_key'' \<in> set (annotations f)) pre \<noteq> []"
    using assms(2) by (auto simp: uses_def)
  then obtain f where "f \<in> set pre" "''primary_key'' \<in> set (annotations f)"
    by (auto simp: filter_empty_conv)
  then have "''primary_key'' \<in> cfg_attribute_set (fold add_field pre config_acc_init)" by auto
  then show ?thesis
    by (simp add: pre fold_result_append get_index_config_implementation_def process_field_def
        extract_all_attr_values_def annotated_field_def index_config_attr_def)
qed

text \<open>C24: A field without a name (a tuple struct) that carries a property makes
  the macro panic on \<open>unwrap\<close> instead of reporting a compile error.\<close>

theorem index_config_unnamed_field_panics:
  assumes "n \<in> valid_attribute_names"
  shows "get_index_config_implementation struct_ident (annotated_field None [n] # fs) =
           Inl (Panic ''called `Option::unwrap()` on a `None` value'')"
  using assms by (auto simp: index_config_eval)

lemmas annotation_eval =
  annotations_def attr_annotations_def idents_def group_tokens_def annotated_field_def index_config_attr_def
  attr_well_formed_def field_local_ok_def valid_attribute_names_def

text \<open>C25: The index name of an UpperCamel struct name is its words in lower case
  joined by underscores.\<close>

theorem index_config_index_name:
  assumes "list_all capitalized ws"
    and "get_index_config_implementation (concat ws) fs = Inr impl"
  shows "index_str impl = tl (concat (map (\<lambda>w. CHR ''_'' # map to_lower w) ws))"
  using assms by (simp add: get_index_config_implementation_Inr index_config_spec_def to_snake_case_words)

text \<open>C26: While the macro walks the fields, the global attribute set is exactly
  the set of properties the walked fields declare, and when the field names are
  distinct no settings list names a field twice.\<close>

theorem process_fields_invariant:
  assumes "fold_result process_field config_acc_init fs = Inr acc"
    and "distinct (map field_ident fs)"
  shows "cfg_attribute_set acc = (\<Union>f\<in>set fs. set (annotations f)) \<and>
         distinct (cfg_displayed acc) \<and> distinct (cfg_searchable acc) \<and>
         distinct (cfg_filterable acc) \<and> distinct (cfg_sortable acc)"
proof -
  have ok: "list_all field_local_ok fs" and acc: "acc = fold add_field fs config_acc_init"
    using assms(1) by (auto simp: fold_process_field fields_ok_iff)
  show ?thesis
    using distinct_spec_list [OF assms(2) ok]
    by (simp add: acc fold_add_field config_acc_init_def)
qed

theorem index_config_unique_keys_witness:
  "get_index_config_implementation ''Item'' [annotated_field (Some ''id'') [''primary_key'', ''displayed'']] =
     Inr (index_config_spec ''Item'' [annotated_field (Some ''id'') [''primary_key'', ''displayed'']]) \<and>
   uses ''primary_key'' [annotated_field (Some ''id'') [''primary_key'', ''displayed'']] \<le> 1"
proof -
  have h: "get_index_config_implementation ''Item'' [annotated_field (Some ''id'') [''primary_key'', ''displayed'']] =
     Inr (index_config_spec ''Item'' [annotated_field (Some ''id'') [''primary_key'', ''displayed'']])"
    by (simp add: get_index_config_implementation_Inr macro_input_ok_def uses_def annotation_eval)
  show ?thesis using index_config_unique_keys [OF h] h by simp
qed

theorem index_config_unknown_property_witness:
  "''colour'' \<notin> valid_attribute_names \<and>
   get_index_config_implementation ''Paint'' [annotated_field (Some ''hue'') [''colour'']] =
     Inl (Compile_error ''Property `colour` does not exist for type `index_config`'')"
  using index_config_unknown_property [of "''colour''" "''Paint''" "Some ''hue''" "[]"]
  by (simp add: valid_attribute_names_def)

theorem index_config_second_primary_key_witness:
  "macro_input_ok [annotated_field (Some ''id'') [''primary_key'']] \<and>
   uses ''primary_key'' [annotated_field (Some ''id'') [''primary_key'']] = 1 \<and>
   get_index_config_implementation ''Item''
     [annotated_field (Some ''id'') [''primary_key''], annotated_field (Some ''key'') [''primary_key'']] =
   Inl (Compile_error ''`primary_key` already exists'')"
proof -
  have h1: "macro_input_ok [annotated_field (Some ''id'') [''primary_key'']]"
    and h2: "uses ''primary_key'' [annotated_field (Some ''id'') [''primary_key'']] = 1"
    by (simp_all add: macro_input_ok_def uses_def annotation_eval)
  show ?thesis
    using index_config_second_primary_key [OF h1 h2, of "''Item''" "Some ''key''" "[]" "[]"] h1 h2 by simp
qed

theorem index_config_unnamed_field_panics_witness:
  "''displayed'' \<in> valid_attribute_names \<and>
   get_index_config_implementation ''Pair'' [annotated_field None [''displayed'']] =
     Inl (Panic ''called `Option::unwrap()` on a `None` value'')"
  using index_config_unnamed_field_panics [of "''displayed''" "''Pair''" "[]"]
  by (simp add: valid_attribute_names_def)

theorem index_config_index_name_witness:
  "list_all capitalized [''Movie'', ''Clips''] \<and>
   get_index_config_implementation (concat [''Movie'', ''Clips'']) video_clips =
     Inr (index_config_spec ''MovieClips'' video_clips) \<and>
   index_str (index_config_spec ''MovieClips'' video_clips) = ''movie_clips''"
proof -
  have h1: "list_all capitalized [''Movie'', ''Clips'']"
    by (simp add: capitalized_def is_upper_def is_lower_def ascii_upper_def ascii_lower_def)
  have h2: "get_index_config_implementation (concat [''Movie'', ''Clips'']) video_clips =
     Inr (index_config_spec ''MovieClips'' video_clips)"
    by (simp add: get_index_config_implementation_Inr macro_input_ok_def uses_def video_clips_def
        annotation_eval)
  show ?thesis
    using index_config_index_name [OF h1 h2] h1 h2 by (simp add: to_lower_def ascii_upper_def ascii_lower_def)
qed

theorem process_fields_invariant_witness:
  "fold_result process_field config_acc_init movie_clips = Inr (fold add_field movie_clips config_acc_init) \<and>
   distinct (map field_ident movie_clips) \<and>
   distinct (cfg_displayed (fold add_field movie_clips config_acc_init))"
proof -
  have "fields_ok (cfg_attribute_set config_acc_init) movie_clips"
    by (simp add: fields_ok_iff config_acc_init_def uses_def movie_clips_def annotation_eval)
  then have h1: "fold_result process_field config_acc_init movie_clips =
                   Inr (fold add_field movie_clips config_acc_init)"
    using fold_process_field by blast
  have h2: "distinct (map field_ident movie_clips)"
    by (simp add: movie_clips_def annotated_field_def)
  show ?thesis using process_fields_invariant [OF h1 h2] h1 h2 by simp
qed

theorem generate_index_settings_refinement_witness:
  "macro_input_ok [annotated_field (Some ''id'') [''primary_key'']] \<and>
   case_sum (\<lambda>_. None) Some
     (generate_index_settings ''Item'' (Data_struct [annotated_field (Some ''id'') [''primary_key'']])) =
   Some (index_config_spec ''Item'' [annotated_field (Some ''id'') [''primary_key'']]) \<and>
   case_sum (\<lambda>_. None) Some (generate_index_settings ''Item'' Data_enum) = None"
proof -
  have h: "macro_input_ok [annotated_field (Some ''id'') [''primary_key'']]"
    by (simp add: macro_input_ok_def uses_def annotation_eval)
  show ?thesis
    using generate_index_settings_refinement [of "''Item''" "Data_struct [annotated_field (Some ''id'') [''primary_key'']]"]
      generate_index_settings_refinement [of "''Item''" Data_enum] h
    by simp
qed

text \<open>C31: For a struct whose name is an ASCII identifier, the index name the macro
  derives is a well-formed index uid: only lower-case letters, digits and
  underscores; and no separator is put before the first word, so the name starts
  with the struct name's first character in lower case.\<close>

theorem index_config_index_uid_valid:
  assumes "set struct_ident \<subseteq> ident_chars"
    and "get_index_config_implementation struct_ident fs = Inr impl"
  shows "set (index_str impl) \<subseteq> uid_chars \<and>
         (struct_ident \<noteq> [] \<longrightarrow> hd (index_str impl) = to_lower (hd struct_ident))"
  using assms snake_aux_uid_chars [OF assms(1)]
  by (cases struct_ident)
     (simp_all add: get_index_config_implementation_Inr index_config_spec_def to_snake_case_def
        to_lower_uid_char)

theorem index_config_index_uid_valid_witness:
  "set ''Movie2Clips'' \<subseteq> ident_chars \<and>
   get_index_config_implementation ''Movie2Clips'' video_clips = Inr (index_config_spec ''Movie2Clips'' video_clips) \<and>
   set (index_str (index_config_spec ''Movie2Clips'' video_clips)) \<subseteq> uid_chars \<and>
   hd (index_str (index_config_spec ''Movie2Clips'' video_clips)) = CHR ''m''"
proof -
  have h1: "set ''Movie2Clips'' \<subseteq> ident_chars"
    by (simp add: ident_chars_def ascii_upper_def ascii_lower_def)
  have h2: "get_index_config_implementation ''Movie2Clips'' video_clips =
              Inr (index_config_spec ''Movie2Clips'' video_clips)"
    by (simp add: get_index_config_implementation_Inr macro_input_ok_def uses_def video_clips_def
        annotation_eval)
  show ?thesis using index_config_index_uid_valid [OF h1 h2] h1 h2
    by (simp add: to_lower_def ascii_upper_def ascii_lower_def)
qed

end
