(* ===== verification/Documents.thy ===== *)
theory Documents
  imports IndexConfig
begin

text \<open>
  \<open>src/src/documents.rs\<close>: the three document query builders, the key-value
  pairs their derived \<open>Serialize\<close> emits (the index handle is
  \<open>skip_serializing\<close>; an absent option is \<open>skip_serializing_if = "Option::is_none"\<close>),
  and the trait \<open>IndexConfig\<close> that the derive macro implements: \<open>index\<close>, and
  the emitted \<open>generate_index\<close>, which creates the index, waits for the creation
  task with the default interval and timeout, and turns it into a live handle.
  A Rust \<open>usize\<close> is a \<open>64 word\<close> (the crate's 64-bit targets), a \<open>u32\<close> a
  \<open>32 word\<close>. The \<open>execute\<close> methods call \<open>Index\<close> methods whose source is not
  staged; they are not modelled.
\<close>

section \<open>Query records and builders\<close>

type_synonym usize = "64 word"

record 'a documents_results =
  results :: "'a list"
  limit :: "32 word"
  offset :: "32 word"
  total :: "32 word"

record document_query =
  dq_index :: index
  dq_fields :: "string list option"

definition document_query_new :: "index \<Rightarrow> document_query" where
  "document_query_new idx = \<lparr>dq_index = idx, dq_fields = None\<rparr>"

definition document_query_with_fields :: "document_query \<Rightarrow> string list \<Rightarrow> document_query" where
  "document_query_with_fields q fs = q\<lparr>dq_fields := Some fs\<rparr>"

record documents_query =
  dsq_index :: index
  dsq_offset :: "usize option"
  dsq_limit :: "usize option"
  dsq_fields :: "string list option"

definition documents_query_new :: "index \<Rightarrow> documents_query" where
  "documents_query_new idx = \<lparr>dsq_index = idx, dsq_offset = None, dsq_limit = None, dsq_fields = None\<rparr>"

definition documents_query_with_offset :: "documents_query \<Rightarrow> usize \<Rightarrow> documents_query" where
  "documents_query_with_offset q n = q\<lparr>dsq_offset := Some n\<rparr>"

definition documents_query_with_limit :: "documents_query \<Rightarrow> usize \<Rightarrow> documents_query" where
  "documents_query_with_limit q n = q\<lparr>dsq_limit := Some n\<rparr>"

definition documents_query_with_fields :: "documents_query \<Rightarrow> string list \<Rightarrow> documents_query" where
  "documents_query_with_fields q fs = q\<lparr>dsq_fields := Some fs\<rparr>"

record document_deletion_query =
  ddq_index :: index
  ddq_filter :: string

definition document_deletion_query_new :: "index \<Rightarrow> document_deletion_query" where
  "document_deletion_query_new idx = \<lparr>ddq_index = idx, ddq_filter = []\<rparr>"

definition document_deletion_query_with_filter ::
  "document_deletion_query \<Rightarrow> string \<Rightarrow> document_deletion_query" where
  "document_deletion_query_with_filter q f = q\<lparr>ddq_filter := f\<rparr>"

section \<open>Derived serialization\<close>

datatype query_value = Q_uint nat | Q_str string | Q_strs "string list"

definition opt_pair :: "string \<Rightarrow> ('a \<Rightarrow> query_value) \<Rightarrow> 'a option \<Rightarrow> (string \<times> query_value) list" where
  "opt_pair k f x = (case x of None \<Rightarrow> [] | Some v \<Rightarrow> [(k, f v)])"

definition document_query_pairs :: "document_query \<Rightarrow> (string \<times> query_value) list" where
  "document_query_pairs q = opt_pair ''fields'' Q_strs (dq_fields q)"

definition documents_query_pairs :: "documents_query \<Rightarrow> (string \<times> query_value) list" where
  "documents_query_pairs q =
     opt_pair ''offset'' (\<lambda>n. Q_uint (unat n)) (dsq_offset q) @
     opt_pair ''limit'' (\<lambda>n. Q_uint (unat n)) (dsq_limit q) @
     opt_pair ''fields'' Q_strs (dsq_fields q)"

definition document_deletion_query_pairs :: "document_deletion_query \<Rightarrow> (string \<times> query_value) list" where
  "document_deletion_query_pairs q = [(''filter'', Q_str (ddq_filter q))]"

text \<open>A chain of builder calls on a \<open>DocumentsQuery\<close>, in call order.\<close>

datatype documents_query_call = Call_offset usize | Call_limit usize | Call_fields "string list"

fun documents_query_apply :: "documents_query \<Rightarrow> documents_query_call \<Rightarrow> documents_query" where
  "documents_query_apply q (Call_offset n) = documents_query_with_offset q n"
| "documents_query_apply q (Call_limit n) = documents_query_with_limit q n"
| "documents_query_apply q (Call_fields fs) = documents_query_with_fields q fs"

text \<open>The last value a chain sets for one key.\<close>

definition last_set :: "('c \<Rightarrow> 'a option) \<Rightarrow> 'c list \<Rightarrow> 'a option" where
  "last_set sel cs = (case filter (\<lambda>x. x \<noteq> None) (map sel cs) of [] \<Rightarrow> None | xs \<Rightarrow> last xs)"

fun call_offset :: "documents_query_call \<Rightarrow> usize option" where
  "call_offset (Call_offset n) = Some n" | "call_offset _ = None"

fun call_limit :: "documents_query_call \<Rightarrow> usize option" where
  "call_limit (Call_limit n) = Some n" | "call_limit _ = None"

fun call_fields :: "documents_query_call \<Rightarrow> string list option" where
  "call_fields (Call_fields fs) = Some fs" | "call_fields _ = None"

section \<open>The trait \<open>IndexConfig\<close>\<close>

definition index_config_index :: "client \<Rightarrow> index_config_impl \<Rightarrow> index" where
  "index_config_index cl impl = client_index cl (index_str impl)"

text \<open>\<open>TaskInfo\<close>, the answer to a mutating call (its source is not staged): the
  task's uid and initial status.\<close>

record task_info =
  task_info_uid :: nat
  task_info_status :: task_status

text \<open>The emitted \<open>generate_index\<close>. \<open>Client::create_index\<close> (not staged) is the
  parameter \<open>create_index\<close>, a mutating call answering a \<open>TaskInfo\<close>. Each
  \<open>unwrap\<close> on an \<open>Err e\<close> panics; the panic is \<open>Inl e\<close>. Otherwise the result is
  the \<open>Result<Index, Task>\<close> of \<open>try_make_index\<close>. \<open>None\<close> is a poller that does
  not return.\<close>

definition generate_index ::
  "(string \<Rightarrow> string option \<Rightarrow> 'w \<Rightarrow> (error + task_info) \<times> 'w) \<Rightarrow>
   ('c, unit, unit, 'req, 'resp, 'w) request_client \<Rightarrow> (unit, task) crate_env \<Rightarrow> client \<Rightarrow>
   index_config_impl \<Rightarrow> 'w \<Rightarrow> ((error + (task + index)) \<times> 'w) option" where
  "generate_index create_index rc env cl impl w =
     (case create_index (index_str impl) (primary_key_token impl) w of
        (Inl e, w1) \<Rightarrow> Some (Inl e, w1)
      | (Inr ti, w1) \<Rightarrow>
          (case wait_for_completion rc env cl (task_info_uid ti) None None w1 of
             None \<Rightarrow> None
           | Some (Inl e, _, w2) \<Rightarrow> Some (Inl e, w2)
           | Some (Inr t, _, w2) \<Rightarrow> Some (Inr (try_make_index cl t), w2)))"

section \<open>Properties\<close>

lemma last_set_snoc [simp]:
  "last_set sel (cs @ [c]) = (case sel c of None \<Rightarrow> last_set sel cs | Some v \<Rightarrow> Some v)"
  by (cases "sel c") (simp_all add: last_set_def list.case_eq_if)

lemma last_set_Nil [simp]: "last_set sel [] = None"
  by (simp add: last_set_def)

lemma documents_query_calls_fields:
  "dsq_offset (foldl documents_query_apply q cs) =
     (case last_set call_offset cs of None \<Rightarrow> dsq_offset q | Some n \<Rightarrow> Some n)"
  "dsq_limit (foldl documents_query_apply q cs) =
     (case last_set call_limit cs of None \<Rightarrow> dsq_limit q | Some n \<Rightarrow> Some n)"
  "dsq_fields (foldl documents_query_apply q cs) =
     (case last_set call_fields cs of None \<Rightarrow> dsq_fields q | Some fs \<Rightarrow> Some fs)"
  "dsq_index (foldl documents_query_apply q cs) = dsq_index q"
proof (induction cs rule: rev_induct)
  case Nil
  show "dsq_offset (foldl documents_query_apply q []) = (case last_set call_offset [] of None \<Rightarrow> dsq_offset q | Some n \<Rightarrow> Some n)"
    "dsq_limit (foldl documents_query_apply q []) = (case last_set call_limit [] of None \<Rightarrow> dsq_limit q | Some n \<Rightarrow> Some n)"
    "dsq_fields (foldl documents_query_apply q []) = (case last_set call_fields [] of None \<Rightarrow> dsq_fields q | Some fs \<Rightarrow> Some fs)"
    "dsq_index (foldl documents_query_apply q []) = dsq_index q" by simp_all
next
  case (snoc c cs)
  case 1 show ?case using snoc.IH(1) by (cases c) (simp_all add: documents_query_with_offset_def
      documents_query_with_limit_def documents_query_with_fields_def)
  case 2 show ?case using snoc.IH(2) by (cases c) (simp_all add: documents_query_with_offset_def
      documents_query_with_limit_def documents_query_with_fields_def)
  case 3 show ?case using snoc.IH(3) by (cases c) (simp_all add: documents_query_with_offset_def
      documents_query_with_limit_def documents_query_with_fields_def)
  case 4 show ?case using snoc.IH(4) by (cases c) (simp_all add: documents_query_with_offset_def
      documents_query_with_limit_def documents_query_with_fields_def)
qed

text \<open>C27: Whatever chain of builder calls made a \<open>DocumentsQuery\<close>, its serialized
  pairs are \<open>offset\<close>, \<open>limit\<close>, \<open>fields\<close> in declaration order, each present
  exactly when some call set it, with the value of the last such call.\<close>

theorem documents_query_serialized_calls:
  "documents_query_pairs (foldl documents_query_apply (documents_query_new idx) cs) =
     opt_pair ''offset'' (\<lambda>n. Q_uint (unat n)) (last_set call_offset cs) @
     opt_pair ''limit'' (\<lambda>n. Q_uint (unat n)) (last_set call_limit cs) @
     opt_pair ''fields'' Q_strs (last_set call_fields cs)"
  by (simp add: documents_query_pairs_def documents_query_calls_fields documents_query_new_def
      split: option.split)

lemma generate_index_wait:
  "generate_index cr rc env cl impl w =
     (case cr (index_str impl) (primary_key_token impl) w of
        (Inl e, w1) \<Rightarrow> Some (Inl e, w1)
      | (Inr ti, w1) \<Rightarrow>
          map_option (\<lambda>(r, _, w2). (case r of Inl e \<Rightarrow> Inl e | Inr t \<Rightarrow> Inr (try_make_index cl t), w2))
            (wait_loop (get_task rc env cl (task_info_uid ti)) DEFAULT_INTERVAL DEFAULT_TIMEOUT 0 w1))"
  by (auto simp: generate_index_def wait_for_completion_def wait_for_task_def
      split: prod.split sum.split option.split)

text \<open>C28: When \<open>generate_index\<close> returns without panicking, the creation call
  answered a \<open>TaskInfo\<close>, and the result is \<open>try_make_index\<close> of a terminal task
  that \<open>GET /tasks/{uid}\<close> of that task answered: a live handle exactly when that
  task succeeded naming an index, the task itself otherwise.\<close>

theorem generate_index_sound:
  assumes "generate_index cr rc env cl impl w = Some (Inr r, w')"
  shows "\<exists>ti t w0. fst (cr (index_str impl) (primary_key_token impl) w) = Inr ti \<and>
           fst (get_task rc env cl (task_info_uid ti) w0) = Inr t \<and> is_terminal (task_status t) \<and>
           r = try_make_index cl t"
proof -
  obtain c w1 where c: "cr (index_str impl) (primary_key_token impl) w = (c, w1)" by fastforce
  then obtain ti where ti: "c = Inr ti"
    using assms unfolding generate_index_wait by (cases c) auto
  have pos: "0 < DEFAULT_INTERVAL" by (simp add: DEFAULT_INTERVAL_def)
  obtain res where res: "wait_loop (get_task rc env cl (task_info_uid ti)) DEFAULT_INTERVAL DEFAULT_TIMEOUT 0 w1
                           = Some res"
    using wait_loop_terminates [OF pos, of "get_task rc env cl (task_info_uid ti)" DEFAULT_TIMEOUT 0 w1]
    by blast
  obtain rr e' w2 where run: "wait_loop (get_task rc env cl (task_info_uid ti)) DEFAULT_INTERVAL DEFAULT_TIMEOUT 0 w1
                                = Some (rr, e', w2)"
    using res by (cases res) auto
  then obtain t where t: "rr = Inr t" and r: "r = try_make_index cl t"
    using assms unfolding generate_index_wait c ti by (cases rr) (simp_all add: run)
  show ?thesis
    using wait_loop_sound [OF run] c ti r t by auto
qed

text \<open>C32: The error paths of \<open>generate_index\<close>: when \<open>create_index\<close> fails, the
  first \<open>unwrap\<close> panics with its error and nothing is polled; when the result is
  \<open>Err(task)\<close>, that task is terminal and is not a succeeded creation naming an
  index (a failed or canceled task, or a success without an index uid).\<close>

theorem generate_index_error_paths:
  "(fst (cr (index_str impl) (primary_key_token impl) w) = Inl e \<longrightarrow>
      generate_index cr rc env cl impl w = Some (Inl e, snd (cr (index_str impl) (primary_key_token impl) w))) \<and>
   (generate_index cr rc env cl impl w = Some (Inr (Inl t), w') \<longrightarrow>
      is_terminal (task_status t) \<and> (task_status t = Succeeded \<longrightarrow> task_index_uid t = None))"
proof (rule conjI; rule impI)
  assume "fst (cr (index_str impl) (primary_key_token impl) w) = Inl e"
  then show "generate_index cr rc env cl impl w = Some (Inl e, snd (cr (index_str impl) (primary_key_token impl) w))"
    by (cases "cr (index_str impl) (primary_key_token impl) w") (simp add: generate_index_wait)
next
  assume res: "generate_index cr rc env cl impl w = Some (Inr (Inl t), w')"
  obtain c w1 where c: "cr (index_str impl) (primary_key_token impl) w = (c, w1)" by fastforce
  then obtain ti where ti: "c = Inr ti"
    using res unfolding generate_index_wait by (cases c) auto
  have pos: "0 < DEFAULT_INTERVAL" by (simp add: DEFAULT_INTERVAL_def)
  obtain rr e' w2 where run: "wait_loop (get_task rc env cl (task_info_uid ti)) DEFAULT_INTERVAL DEFAULT_TIMEOUT 0 w1
                                = Some (rr, e', w2)"
    using wait_loop_terminates [OF pos, of "get_task rc env cl (task_info_uid ti)" DEFAULT_TIMEOUT 0 w1]
    by (metis prod_cases3)
  then obtain t0 where t0: "rr = Inr t0" and tm: "try_make_index cl t0 = Inl t"
    using res unfolding generate_index_wait c ti by (cases rr) (simp_all add: run)
  have "t = t0" using try_make_index_Inl [OF tm] by simp
  moreover have "is_terminal (task_status t0)" using wait_loop_sound [OF run] t0 by simp
  moreover have "task_status t0 = Succeeded \<longrightarrow> task_index_uid t0 = None"
    using tm by (auto simp: try_make_index_def split: option.splits task_status.splits)
  ultimately show "is_terminal (task_status t) \<and> (task_status t = Succeeded \<longrightarrow> task_index_uid t = None)"
    by simp
qed

end
