(* ===== verification/SettingsService.thy ===== *)
theory SettingsService
  imports Documents
begin

text \<open>
  The test module of \<open>src/src/settings.rs\<close>, run end to end: the test
  \<open>test_set_faceting_settings\<close>, and the set, reset and get pattern of the
  other six tests for each of the ten per-route settings. Each scenario is a
  sequence of steps (\<open>sc_bind\<close>): a facade call through the dispatcher and the
  native client (the tests use \<open>Client<IsahcClient>\<close>), then
  \<open>wait_for_task(task_info, None, None)\<close>, then a read; every \<open>unwrap\<close> on an
  \<open>Err e\<close> is the panic \<open>Inl e\<close>, and \<open>None\<close> is a wait that does not return.
  The remote service is a reference model (its source is not part of the
  repository): it is a \<open>server\<close> of the native transport, so its state is the
  replay of the request log it has received. A mutation of a settings route is
  enqueued as a task (answer 202 with the task uid); a poll of \<open>/tasks/..\<close>
  processes every pending mutation and answers \<open>succeeded\<close>; a read answers the
  stored value or the service default (100 values per facet, 1000 total hits,
  as the tests expect; a route that has no default here is answered once set).
  The service implements the whole-settings route and all ten per-route ones. The JSON library is a codec parameter; the
  properties assume only that it round-trips the values the test sends.
\<close>

section \<open>Scenario steps and client-side decoders\<close>

type_synonym ('w, 'a) scenario = "'w \<Rightarrow> ((error + 'a) \<times> 'w) option"

definition sc_call :: "('w \<Rightarrow> (error + 'a) \<times> 'w) \<Rightarrow> ('w, 'a) scenario" where
  "sc_call f w = Some (f w)"

definition sc_bind :: "('w, 'a) scenario \<Rightarrow> ('a \<Rightarrow> ('w, 'b) scenario) \<Rightarrow> ('w, 'b) scenario" where
  "sc_bind m k w =
     (case m w of
        None \<Rightarrow> None
      | Some (Inl e, w') \<Rightarrow> Some (Inl e, w')
      | Some (Inr a, w') \<Rightarrow> k a w')"

record settings_codec =
  enc_body :: "settings_body \<Rightarrow> string"
  dec_body :: "string \<Rightarrow> settings_body option"

fun digit_value :: "char \<Rightarrow> nat" where
  "digit_value c = (case map_of (zip ''0123456789'' [0, 1, 2, 3, 4, 5, 6, 7, 8, 9]) c of None \<Rightarrow> 0 | Some d \<Rightarrow> d)"

definition decimal_value :: "string \<Rightarrow> nat" where
  "decimal_value s = foldl (\<lambda>acc c. 10 * acc + digit_value c) 0 s"

definition client_env :: "(string \<Rightarrow> json_error + 'o) \<Rightarrow> (unit, 'o) crate_env" where
  "client_env dec =
     \<lparr>cargo_pkg_version = None, yaup_to_string = (\<lambda>q. Inr []), from_str = dec,
      from_str_error = (\<lambda>b. Inl ''not an error payload'')\<rparr>"

definition task_info_env :: "(unit, task_info) crate_env" where
  "task_info_env = client_env (\<lambda>s. Inr \<lparr>task_info_uid = decimal_value s, task_info_status = Enqueued\<rparr>)"

definition succeeded_env :: "(unit, task) crate_env" where
  "succeeded_env =
     client_env (\<lambda>s. if s = ''succeeded''
                     then Inr \<lparr>task_uid = 0, task_status = Succeeded, task_index_uid = None, task_error = None\<rparr>
                     else Inl ''unknown variant'')"

definition faceting_env :: "settings_codec \<Rightarrow> (unit, faceting_settings) crate_env" where
  "faceting_env cd =
     client_env (\<lambda>s. case dec_body cd s of Some (Faceting_body f) \<Rightarrow> Inr f | _ \<Rightarrow> Inl ''invalid type'')"

definition pagination_env :: "settings_codec \<Rightarrow> (unit, pagination_setting) crate_env" where
  "pagination_env cd =
     client_env (\<lambda>s. case dec_body cd s of Some (Pagination_body p) \<Rightarrow> Inr p | _ \<Rightarrow> Inl ''invalid type'')"

definition call_step ::
  "settings_codec \<Rightarrow> server \<Rightarrow> (unit, 'o) crate_env \<Rightarrow> settings_call \<Rightarrow> (http_request list, 'o) scenario" where
  "call_step cd srv env c =
     sc_call (perform Native (native_client (enc_body cd) srv) (native_client (enc_body cd) srv) env c)"

definition wait_step :: "server \<Rightarrow> client \<Rightarrow> task_info \<Rightarrow> (http_request list, task) scenario" where
  "wait_step srv cl ti w =
     map_option (\<lambda>(r, _, w'). (r, w'))
       (wait_for_completion (native_client (\<lambda>b::unit. []) srv) succeeded_env cl (task_info_uid ti) None None w)"

section \<open>A reference settings service\<close>

definition strip_prefix :: "string \<Rightarrow> string \<Rightarrow> string option" where
  "strip_prefix pre s = (if take (length pre) s = pre then Some (drop (length pre) s) else None)"

definition settings_route :: "index \<Rightarrow> string \<Rightarrow> string option" where
  "settings_route idx u = strip_prefix (settings_url idx []) u"

definition is_mutation :: "index \<Rightarrow> http_request \<Rightarrow> bool" where
  "is_mutation idx r \<longleftrightarrow> req_method r \<noteq> GET \<and> settings_route idx (req_url r) \<noteq> None"

definition is_task_poll :: "index \<Rightarrow> http_request \<Rightarrow> bool" where
  "is_task_poll idx r \<longleftrightarrow>
     req_method r = GET \<and> strip_prefix (host (index_client idx) @ ''/tasks/'') (req_url r) \<noteq> None"

definition DEFAULT_FACETING :: faceting_settings where
  "DEFAULT_FACETING = \<lparr>max_values_per_facet = 100\<rparr>"

definition DEFAULT_PAGINATION :: pagination_setting where
  "DEFAULT_PAGINATION = \<lparr>max_total_hits = 1000\<rparr>"

definition merge_opt :: "'a option \<Rightarrow> 'a option \<Rightarrow> 'a option" where
  "merge_opt x y = (case y of None \<Rightarrow> x | Some v \<Rightarrow> Some v)"

definition merge_settings :: "settings \<Rightarrow> settings \<Rightarrow> settings" where
  "merge_settings st s =
     \<lparr>synonyms = merge_opt (synonyms st) (synonyms s), stop_words = merge_opt (stop_words st) (stop_words s),
      ranking_rules = merge_opt (ranking_rules st) (ranking_rules s),
      filterable_attributes = merge_opt (filterable_attributes st) (filterable_attributes s),
      sortable_attributes = merge_opt (sortable_attributes st) (sortable_attributes s),
      distinct_attribute = merge_opt (distinct_attribute st) (distinct_attribute s),
      searchable_attributes = merge_opt (searchable_attributes st) (searchable_attributes s),
      displayed_attributes = merge_opt (displayed_attributes st) (displayed_attributes s),
      pagination = merge_opt (pagination st) (pagination s), faceting = merge_opt (faceting st) (faceting s)\<rparr>"

definition update_route :: "string \<Rightarrow> settings_body \<Rightarrow> settings \<Rightarrow> settings" where
  "update_route p b st =
     (case b of
        Settings_body s \<Rightarrow> if p = [] then merge_settings st s else st
      | Synonyms_body m \<Rightarrow> if p = ''/synonyms'' then st\<lparr>synonyms := Some m\<rparr> else st
      | Strings_body ws \<Rightarrow>
          if p = ''/stop-words'' then st\<lparr>stop_words := Some ws\<rparr>
          else if p = ''/ranking-rules'' then st\<lparr>ranking_rules := Some ws\<rparr>
          else if p = ''/filterable-attributes'' then st\<lparr>filterable_attributes := Some ws\<rparr>
          else if p = ''/sortable-attributes'' then st\<lparr>sortable_attributes := Some ws\<rparr>
          else if p = ''/searchable-attributes'' then st\<lparr>searchable_attributes := Some ws\<rparr>
          else if p = ''/displayed-attributes'' then st\<lparr>displayed_attributes := Some ws\<rparr>
          else st
      | String_body a \<Rightarrow> if p = ''/distinct-attribute'' then st\<lparr>distinct_attribute := Some a\<rparr> else st
      | Faceting_body f \<Rightarrow> if p = ''/faceting'' then st\<lparr>faceting := Some f\<rparr> else st
      | Pagination_body pg \<Rightarrow> if p = ''/pagination'' then st\<lparr>pagination := Some pg\<rparr> else st)"

definition reset_route :: "string \<Rightarrow> settings \<Rightarrow> settings" where
  "reset_route p st =
     (if p = [] then settings_new
      else if p = ''/synonyms'' then st\<lparr>synonyms := None\<rparr>
      else if p = ''/stop-words'' then st\<lparr>stop_words := None\<rparr>
      else if p = ''/ranking-rules'' then st\<lparr>ranking_rules := None\<rparr>
      else if p = ''/filterable-attributes'' then st\<lparr>filterable_attributes := None\<rparr>
      else if p = ''/sortable-attributes'' then st\<lparr>sortable_attributes := None\<rparr>
      else if p = ''/distinct-attribute'' then st\<lparr>distinct_attribute := None\<rparr>
      else if p = ''/searchable-attributes'' then st\<lparr>searchable_attributes := None\<rparr>
      else if p = ''/displayed-attributes'' then st\<lparr>displayed_attributes := None\<rparr>
      else if p = ''/faceting'' then st\<lparr>faceting := None\<rparr>
      else if p = ''/pagination'' then st\<lparr>pagination := None\<rparr>
      else st)"

definition apply_mutation :: "settings_codec \<Rightarrow> index \<Rightarrow> settings \<Rightarrow> http_request \<Rightarrow> settings" where
  "apply_mutation cd idx st r =
     (case settings_route idx (req_url r) of
        None \<Rightarrow> st
      | Some p \<Rightarrow>
          if req_method r = DELETE then reset_route p st
          else (case req_body r of
                  None \<Rightarrow> st
                | Some s \<Rightarrow> (case dec_body cd s of None \<Rightarrow> st | Some b \<Rightarrow> update_route p b st)))"

record svc_state =
  svc_store :: settings
  svc_pending :: "http_request list"
  svc_tasks :: nat

definition svc_init :: svc_state where
  "svc_init = \<lparr>svc_store = settings_new, svc_pending = [], svc_tasks = 0\<rparr>"

definition replay_step :: "settings_codec \<Rightarrow> index \<Rightarrow> svc_state \<Rightarrow> http_request \<Rightarrow> svc_state" where
  "replay_step cd idx st r =
     (if is_mutation idx r then st\<lparr>svc_pending := svc_pending st @ [r], svc_tasks := Suc (svc_tasks st)\<rparr>
      else if is_task_poll idx r then
        st\<lparr>svc_store := foldl (apply_mutation cd idx) (svc_store st) (svc_pending st), svc_pending := []\<rparr>
      else st)"

definition replay :: "settings_codec \<Rightarrow> index \<Rightarrow> http_request list \<Rightarrow> svc_state" where
  "replay cd idx log = foldl (replay_step cd idx) svc_init log"

text \<open>What a read of a route answers. Faceting and pagination fall back to the
  defaults the tests fix; the other routes are answered once they were set.\<close>

definition route_body :: "string \<Rightarrow> settings \<Rightarrow> settings_body option" where
  "route_body p st =
     (if p = ''/faceting'' then
        Some (Faceting_body (case faceting st of None \<Rightarrow> DEFAULT_FACETING | Some f \<Rightarrow> f))
      else if p = ''/pagination'' then
        Some (Pagination_body (case pagination st of None \<Rightarrow> DEFAULT_PAGINATION | Some pg \<Rightarrow> pg))
      else if p = ''/synonyms'' then map_option Synonyms_body (synonyms st)
      else if p = ''/stop-words'' then map_option Strings_body (stop_words st)
      else if p = ''/ranking-rules'' then map_option Strings_body (ranking_rules st)
      else if p = ''/filterable-attributes'' then map_option Strings_body (filterable_attributes st)
      else if p = ''/sortable-attributes'' then map_option Strings_body (sortable_attributes st)
      else if p = ''/distinct-attribute'' then map_option String_body (distinct_attribute st)
      else if p = ''/searchable-attributes'' then map_option Strings_body (searchable_attributes st)
      else if p = ''/displayed-attributes'' then map_option Strings_body (displayed_attributes st)
      else None)"

definition read_route :: "settings_codec \<Rightarrow> string \<Rightarrow> settings \<Rightarrow> string option" where
  "read_route cd p st = map_option (enc_body cd) (route_body p st)"

definition settings_service :: "settings_codec \<Rightarrow> index \<Rightarrow> server" where
  "settings_service cd idx r log =
     (let st = replay cd idx log in
      if is_mutation idx r then Inr (202, nat_to_string (svc_tasks st))
      else if is_task_poll idx r then Inr (200, ''succeeded'')
      else (case settings_route idx (req_url r) of
              None \<Rightarrow> Inr (404, [])
            | Some p \<Rightarrow> (case read_route cd p (svc_store st) of
                           None \<Rightarrow> Inr (404, [])
                         | Some b \<Rightarrow> Inr (200, b))))"

section \<open>The tests of \<open>settings.rs\<close>\<close>

definition test_set_faceting_settings ::
  "settings_codec \<Rightarrow> server \<Rightarrow> index \<Rightarrow> faceting_settings \<Rightarrow> (http_request list, faceting_settings) scenario" where
  "test_set_faceting_settings cd srv idx f =
     sc_bind (call_step cd srv task_info_env (set_settings idx (with_faceting settings_new f))) (\<lambda>ti.
     sc_bind (wait_step srv (index_client idx) ti) (\<lambda>_.
     call_step cd srv (faceting_env cd) (get_faceting idx)))"

section \<open>Requests as the client builds them, and a codec for the examples\<close>

definition codec_roundtrip :: "settings_codec \<Rightarrow> settings_body \<Rightarrow> bool" where
  "codec_roundtrip cd b \<longleftrightarrow> enc_body cd b \<noteq> [] \<and> dec_body cd (enc_body cd b) = Some b"

definition settings_request :: "settings_codec \<Rightarrow> index \<Rightarrow> string \<Rightarrow> (unit, settings_body) Method \<Rightarrow> http_request" where
  "settings_request cd idx p m =
     built_request (enc_body cd) None (settings_url idx p) (api_key (index_client idx)) m CONTENT_TYPE"

definition poll_request :: "client \<Rightarrow> nat \<Rightarrow> http_request" where
  "poll_request cl tid =
     built_request (\<lambda>b::unit. []) None (host cl @ ''/tasks/'' @ nat_to_string tid) (api_key cl) (Get ()) CONTENT_TYPE"

fun unary_enc :: "settings_body \<Rightarrow> string" where
  "unary_enc (Faceting_body f) = CHR ''F'' # replicate (max_values_per_facet f) CHR ''1''"
| "unary_enc (Pagination_body p) = CHR ''P'' # replicate (max_total_hits p) CHR ''1''"
| "unary_enc (Settings_body s) =
     CHR ''S'' # (case faceting s of None \<Rightarrow> [] | Some f \<Rightarrow> CHR ''F'' # replicate (max_values_per_facet f) CHR ''1'')"
| "unary_enc (String_body d) = CHR ''D'' # d"
| "unary_enc _ = ''?''"

definition unary_dec :: "string \<Rightarrow> settings_body option" where
  "unary_dec s =
     (case s of
        [] \<Rightarrow> None
      | c # r \<Rightarrow>
          if c = CHR ''F'' \<and> set r \<subseteq> {CHR ''1''} then Some (Faceting_body \<lparr>max_values_per_facet = length r\<rparr>)
          else if c = CHR ''P'' \<and> set r \<subseteq> {CHR ''1''} then Some (Pagination_body \<lparr>max_total_hits = length r\<rparr>)
          else if c = CHR ''D'' then Some (String_body r)
          else if c = CHR ''S'' \<and> r = [] then Some (Settings_body settings_new)
          else if c = CHR ''S'' \<and> hd r = CHR ''F'' \<and> set (tl r) \<subseteq> {CHR ''1''} then
            Some (Settings_body (with_faceting settings_new \<lparr>max_values_per_facet = length (tl r)\<rparr>))
          else None)"

definition unary_codec :: settings_codec where
  "unary_codec = \<lparr>enc_body = unary_enc, dec_body = unary_dec\<rparr>"

definition movies_index :: index where
  "movies_index = \<lparr>index_client = \<lparr>host = ''http://localhost:7700'', api_key = Some ''masterKey''\<rparr>, uid = ''movies''\<rparr>"

section \<open>Every per-route setter and its getter\<close>

text \<open>A value one of the per-route setters sends, and the setter and getter that
  carry it.\<close>

datatype setting_value =
    V_synonyms "string \<rightharpoonup> string list"
  | V_stop_words "string list"
  | V_ranking_rules "string list"
  | V_filterable "string list"
  | V_sortable "string list"
  | V_distinct string
  | V_searchable "string list"
  | V_displayed "string list"
  | V_pagination pagination_setting
  | V_faceting faceting_settings

fun set_call :: "index \<Rightarrow> setting_value \<Rightarrow> settings_call" where
  "set_call idx (V_synonyms m) = set_synonyms idx m"
| "set_call idx (V_stop_words ws) = set_stop_words idx ws"
| "set_call idx (V_ranking_rules rs) = set_ranking_rules idx rs"
| "set_call idx (V_filterable xs) = set_filterable_attributes idx xs"
| "set_call idx (V_sortable xs) = set_sortable_attributes idx xs"
| "set_call idx (V_distinct d) = set_distinct_attribute idx d"
| "set_call idx (V_searchable xs) = set_searchable_attributes idx xs"
| "set_call idx (V_displayed xs) = set_displayed_attributes idx xs"
| "set_call idx (V_pagination p) = set_pagination idx p"
| "set_call idx (V_faceting f) = set_faceting idx f"

fun get_call :: "index \<Rightarrow> setting_value \<Rightarrow> settings_call" where
  "get_call idx (V_synonyms _) = get_synonyms idx"
| "get_call idx (V_stop_words _) = get_stop_words idx"
| "get_call idx (V_ranking_rules _) = get_ranking_rules idx"
| "get_call idx (V_filterable _) = get_filterable_attributes idx"
| "get_call idx (V_sortable _) = get_sortable_attributes idx"
| "get_call idx (V_distinct _) = get_distinct_attribute idx"
| "get_call idx (V_searchable _) = get_searchable_attributes idx"
| "get_call idx (V_displayed _) = get_displayed_attributes idx"
| "get_call idx (V_pagination _) = get_pagination idx"
| "get_call idx (V_faceting _) = get_faceting idx"


fun value_body :: "setting_value \<Rightarrow> settings_body" where
  "value_body (V_synonyms m) = Synonyms_body m"
| "value_body (V_stop_words ws) = Strings_body ws"
| "value_body (V_ranking_rules rs) = Strings_body rs"
| "value_body (V_filterable xs) = Strings_body xs"
| "value_body (V_sortable xs) = Strings_body xs"
| "value_body (V_distinct d) = String_body d"
| "value_body (V_searchable xs) = Strings_body xs"
| "value_body (V_displayed xs) = Strings_body xs"
| "value_body (V_pagination p) = Pagination_body p"
| "value_body (V_faceting f) = Faceting_body f"

definition body_env :: "settings_codec \<Rightarrow> (unit, settings_body) crate_env" where
  "body_env cd = client_env (\<lambda>s. case dec_body cd s of Some b \<Rightarrow> Inr b | None \<Rightarrow> Inl ''invalid type'')"

definition set_wait_get ::
  "settings_codec \<Rightarrow> server \<Rightarrow> index \<Rightarrow> setting_value \<Rightarrow> (http_request list, settings_body) scenario" where
  "set_wait_get cd srv idx v =
     sc_bind (call_step cd srv task_info_env (set_call idx v)) (\<lambda>ti.
     sc_bind (wait_step srv (index_client idx) ti) (\<lambda>_.
     call_step cd srv (body_env cd) (get_call idx v)))"



section \<open>The service answers each kind of request\<close>

lemma strip_prefix_simps [simp]:
  "strip_prefix [] s = Some s"
  "strip_prefix (c # a) [] = None"
  "strip_prefix (c # a) (d # b) = (if c = d then strip_prefix a b else None)"
  by (auto simp: strip_prefix_def)

lemma strip_prefix_append_same [simp]: "strip_prefix (h @ a) (h @ b) = strip_prefix a b"
  by (induction h) auto

lemma settings_url_split: "settings_url idx p = settings_url idx [] @ p"
  by (simp add: settings_url_def)

lemma settings_route_url [simp]: "settings_route idx (settings_url idx p) = Some p"
  by (simp add: settings_route_def settings_url_def)

lemma settings_route_poll [simp]:
  "settings_route idx (host (index_client idx) @ ''/tasks/'' @ n) = None"
  by (simp add: settings_route_def settings_url_def)

lemma task_prefix_settings_url [simp]:
  "strip_prefix (host (index_client idx) @ ''/tasks/'') (settings_url idx p) = None"
  by (simp add: settings_url_def)

lemma request_kinds [simp]:
  "is_mutation idx (settings_request cd idx p m) \<longleftrightarrow> http_method m \<noteq> GET"
  "is_task_poll idx (settings_request cd idx p m) = False"
  "is_mutation idx (poll_request (index_client idx) tid) = False"
  "is_task_poll idx (poll_request (index_client idx) tid)"
  by (simp_all add: is_mutation_def is_task_poll_def settings_request_def poll_request_def built_request_def)

lemma replay_snoc: "replay cd idx (log @ [r]) = replay_step cd idx (replay cd idx log) r"
  by (simp add: replay_def)

lemma replay_Nil [simp]: "replay cd idx [] = svc_init"
  by (simp add: replay_def)

lemma call_step_native:
  "call_step cd srv env (settings_call_of idx p m st) w =
     Some ((case srv (settings_request cd idx p m) w of
              Inl e \<Rightarrow> Inl e
            | Inr (s, t) \<Rightarrow> parse_response (from_str env) (from_str_error env) s st t (settings_url idx p)),
           w @ [settings_request cd idx p m])"
  if "yaup_to_string env () = Inr []" and "cargo_pkg_version env = None"
proof -
  have q: "yaup_to_string env (query m) = Inr []" using that by (cases m) simp_all
  show ?thesis
    using rc_request_native [OF q, where enc = "enc_body cd" and srv = srv and u = "settings_url idx p"
        and k = "api_key (index_client idx)" and ct = CONTENT_TYPE and x = st and log = w] that(2)
    by (simp add: call_step_def sc_call_def perform_def request_def settings_call_of_def
        settings_request_def Let_def)
qed

lemma client_env_simps [simp]:
  "yaup_to_string (client_env dec) q = Inr []" "cargo_pkg_version (client_env dec) = None"
  "from_str (client_env dec) = dec"
  by (simp_all add: client_env_def)

lemma service_poll [simp]:
  "settings_service cd idx (poll_request (index_client idx) n) w = Inr (200, ''succeeded'')"
  by (simp add: settings_service_def Let_def)

lemma get_task_service:
  "get_task (native_client (\<lambda>b::unit. []) (settings_service cd idx)) succeeded_env (index_client idx)
                 tid w =
               (Inr \<lparr>task_uid = 0, task_status = Succeeded, task_index_uid = None, task_error = None\<rparr>,
                w @ [poll_request (index_client idx) tid])"
proof -
  have q: "yaup_to_string succeeded_env (query (Get ())) = Inr []" by (simp add: succeeded_env_def)
  have v: "cargo_pkg_version succeeded_env = None" by (simp add: succeeded_env_def)
  have d: "from_str succeeded_env ''succeeded'' =
             Inr \<lparr>task_uid = 0, task_status = Succeeded, task_index_uid = None, task_error = None\<rparr>"
    by (simp add: succeeded_env_def)
  have r: "built_request (\<lambda>b::unit. []) None (host (index_client idx) @ ''/tasks/'' @ nat_to_string tid)
             (api_key (index_client idx)) (Get ()) CONTENT_TYPE = poll_request (index_client idx) tid"
    by (simp only: poll_request_def)
  show ?thesis
    by (simp only: get_task_def rc_request_native [OF q] v Let_def simp_thms if_True r service_poll)
       (simp add: parse_response_def empty_as_null_def d del: nat_to_string.simps)
qed

lemma wait_step_service:
  "wait_step (settings_service cd idx) (index_client idx) ti w =
     Some (Inr \<lparr>task_uid = 0, task_status = Succeeded, task_index_uid = None, task_error = None\<rparr>,
           w @ [poll_request (index_client idx) (task_info_uid ti)])"
  unfolding wait_step_def wait_for_completion_def wait_for_task_def
  by (subst wait_loop.simps) (simp add: get_task_service del: nat_to_string.simps)

section \<open>Runs of the tests\<close>

lemma nat_to_string_digit: "n < 10 \<Longrightarrow> nat_to_string n = [digit_char n]"
  by simp

lemma settings_request_fields [simp]:
  "req_url (settings_request cd idx p m) = settings_url idx p"
  "req_method (settings_request cd idx p m) = http_method m"
  "req_body (settings_request cd idx p m) = map_option (enc_body cd) (method_body m)"
  by (simp_all add: settings_request_def built_request_def)

lemma service_mutation:
  "http_method m \<noteq> GET \<Longrightarrow>
   settings_service cd idx (settings_request cd idx p m) w = Inr (202, nat_to_string (svc_tasks (replay cd idx w)))"
  by (simp add: settings_service_def Let_def del: nat_to_string.simps)

lemma service_read:
  "settings_service cd idx (settings_request cd idx p (Get ())) w =
     (case read_route cd p (svc_store (replay cd idx w)) of None \<Rightarrow> Inr (404, []) | Some b \<Rightarrow> Inr (200, b))"
  by (simp add: settings_service_def Let_def)

lemma replay_step_kinds:
  "http_method m \<noteq> GET \<Longrightarrow> replay_step cd idx st (settings_request cd idx p m) =
     st\<lparr>svc_pending := svc_pending st @ [settings_request cd idx p m], svc_tasks := Suc (svc_tasks st)\<rparr>"
  "replay_step cd idx st (settings_request cd idx p (Get ())) = st"
  "replay_step cd idx st (poll_request (index_client idx) n) =
     st\<lparr>svc_store := foldl (apply_mutation cd idx) (svc_store st) (svc_pending st), svc_pending := []\<rparr>"
  by (simp_all add: replay_step_def)

lemma apply_mutation_request:
  "apply_mutation cd idx st (settings_request cd idx p (Patch () b)) =
     (if codec_roundtrip cd b then update_route p b st
      else (case dec_body cd (enc_body cd b) of None \<Rightarrow> st | Some b' \<Rightarrow> update_route p b' st))"
  "apply_mutation cd idx st (settings_request cd idx p (Put () b)) =
     (if codec_roundtrip cd b then update_route p b st
      else (case dec_body cd (enc_body cd b) of None \<Rightarrow> st | Some b' \<Rightarrow> update_route p b' st))"
  "apply_mutation cd idx st (settings_request cd idx p (Delete ())) = reset_route p st"
  by (auto simp: apply_mutation_def codec_roundtrip_def split: option.split)

lemmas service_simps =
  call_step_native wait_step_service service_mutation service_read replay_step_kinds apply_mutation_request

lemma task_info_zero: "from_str task_info_env (nat_to_string 0) = Inr \<lparr>task_info_uid = 0, task_info_status = Enqueued\<rparr>"
  by (simp add: task_info_env_def nat_to_string_digit decimal_value_def del: nat_to_string.simps)

lemmas run_simps =
  sc_bind_def service_simps task_info_env_def faceting_env_def pagination_env_def parse_response_def
  empty_as_null_def update_route_def reset_route_def read_route_def route_body_def codec_roundtrip_def task_info_zero svc_init_def
  replay_def nat_to_string_digit decimal_value_def

declare nat_to_string.simps [simp del]


lemma test_set_faceting_settings_run:
  assumes "codec_roundtrip cd (Settings_body (with_faceting settings_new f))"
    and "codec_roundtrip cd (Faceting_body f)"
  shows "test_set_faceting_settings cd (settings_service cd idx) idx f [] = Some (Inr f,
     [settings_request cd idx [] (Patch () (Settings_body (with_faceting settings_new f))),
      poll_request (index_client idx) 0, settings_request cd idx ''/faceting'' (Get ())])"
  using assms
  by (simp add: test_set_faceting_settings_def set_settings_def get_faceting_def run_simps merge_settings_def
      merge_opt_def with_faceting_def settings_new_def)

section \<open>Properties of the tests\<close>

lemma unary_codec_roundtrip:
  "codec_roundtrip unary_codec (Faceting_body f)"
  "codec_roundtrip unary_codec (Pagination_body p)"
  "codec_roundtrip unary_codec (Settings_body (with_faceting settings_new f))"
  by (simp_all add: codec_roundtrip_def unary_codec_def unary_dec_def with_faceting_def settings_new_def
      set_replicate_conv_if)

text \<open>C29: \<open>test_set_faceting_settings\<close>: a whole-settings \<open>PATCH\<close> built with
  \<open>Settings::new().with_faceting(f)\<close>, once its task is waited for, is read back
  through the faceting route as \<open>f\<close>.\<close>

theorem settings_test_whole_patch:
  assumes "codec_roundtrip cd (Settings_body (with_faceting settings_new f))"
    and "codec_roundtrip cd (Faceting_body f)"
  shows "map_option fst (test_set_faceting_settings cd (settings_service cd idx) idx f []) = Some (Inr f)"
  using test_set_faceting_settings_run [OF assms] by simp

theorem settings_test_whole_patch_witness:
  "codec_roundtrip unary_codec (Settings_body (with_faceting settings_new (\<lparr>max_values_per_facet = 5\<rparr>))) \<and>
   codec_roundtrip unary_codec (Faceting_body (\<lparr>max_values_per_facet = 5\<rparr>)) \<and>
   map_option fst (test_set_faceting_settings unary_codec (settings_service unary_codec movies_index) movies_index
     (\<lparr>max_values_per_facet = 5\<rparr>) []) = Some (Inr (\<lparr>max_values_per_facet = 5\<rparr>))"
  using settings_test_whole_patch [OF unary_codec_roundtrip(3,1), of movies_index] unary_codec_roundtrip(3,1)
  by blast

text \<open>C33: For each of the ten per-route setters (synonyms, stop words, ranking
  rules, filterable, sortable, distinct, searchable and displayed attributes,
  pagination, faceting), setting a value, waiting for its task and reading the
  route back with the matching getter answers the body sent, for any JSON codec
  that round-trips it: every setter and its getter address the same route.\<close>

theorem settings_roundtrip_all_routes:
  assumes "codec_roundtrip cd (value_body v)"
  shows "map_option fst (set_wait_get cd (settings_service cd idx) idx v []) = Some (Inr (value_body v))"
  using assms
  by (cases v) (simp_all add: set_wait_get_def settings_facade_defs run_simps body_env_def)

theorem settings_roundtrip_all_routes_witness:
  "codec_roundtrip unary_codec (value_body (V_distinct ''owner'')) \<and>
   map_option fst (set_wait_get unary_codec (settings_service unary_codec movies_index) movies_index
     (V_distinct ''owner'') []) = Some (Inr (String_body ''owner''))"
proof -
  have h: "codec_roundtrip unary_codec (value_body (V_distinct ''owner''))"
    by (simp add: codec_roundtrip_def unary_codec_def unary_dec_def)
  show ?thesis using settings_roundtrip_all_routes [OF h, of movies_index] h by simp
qed



declare nat_to_string.simps [simp]

end
