(* ===== verification/Spec2Isabelle.thy ===== *)
theory Spec2Isabelle
  imports SettingsService
begin

text \<open>
  \<^bold>\<open>A verification library for the Meilisearch Rust SDK (meilisearch_sdk).\<close>

  \<^bold>\<open>The program.\<close> The crate is a client for a search service that runs its
  mutating operations as background tasks. Its core is the request dispatcher
  of \<open>src/src/request.rs\<close>: a wire method (\<open>Method\<close>: verb, query, body), a
  transport capability (trait \<open>RequestClient\<close>, implemented by a native and a
  browser client selected by target architecture) and the provided methods
  \<open>RequestClient::request\<close> and \<open>parse_response\<close>, which turn a status code and
  a response text into a value or a classified error. The settings facade
  (\<open>src/src/settings.rs\<close>), the document queries (\<open>src/src/documents.rs\<close>)
  and the index-configuration derive macro
  (\<open>src/meilisearch-index-setting-macro/src/lib.rs\<close>) call the dispatcher with
  fixed routes, verbs and expected statuses. A mutating call returns an
  enqueued task; the task poller (\<open>wait_for_completion\<close>, whose source is not
  among the staged files) re-fetches the task through the dispatcher until it
  is terminal or a timeout elapses.

  \<^bold>\<open>Theories and what they show.\<close>
  \<^item> \<open>Prelude\<close>: \<open>u16\<close> status codes as \<open>16 word\<close>; \<open>bind_result\<close>, Rust's
    \<open>?\<close> on \<open>Result\<close>; \<open>fold_result\<close>, a loop returning at the first error;
    the \<open>result_simps\<close> collection.
  \<^item> \<open>Errors\<close> (modelled from the specification, \<open>errors.rs\<close> not staged): the
    error taxonomy and \<open>is_response_error\<close>, the errors that classify a
    delivered response.
  \<^item> \<open>Request\<close> (\<open>request.rs\<close>): \<open>Method\<close>, \<open>query\<close>, \<open>http_method\<close>,
    \<open>qualified_version\<close>, \<open>add_query_parameters\<close>, the trait as the record
    \<open>request_client\<close>, \<open>parse_response\<close>, \<open>prepare_request\<close> and
    \<open>rc_request\<close> (the trait's \<open>request\<close>, split at \<open>add_body\<close>), and
    \<open>request\<close>, choosing the transport by \<open>target_arch\<close>. The libraries the
    code calls (serde_json, yaup, the crate version) are the parameters
    \<open>crate_env\<close>; the network is a world passed through the two suspending
    operations, so the dispatcher's lemmas hold for every transport.
    C1--C6 classify every response (a value only on the expected status;
    parse, service and communication errors exactly on the code's branches; an
    empty body read as \<open>null\<close>); C7--C8 are the dispatcher's contract with any
    transport (nothing sent when the URL cannot be built; otherwise the parse
    of the delivered status and text); C9 that the query string splits back
    off the URL.
  \<^item> \<open>Transport\<close> (modelled from the specification, section 4.2): a reference
    native client whose world is the log of requests the server received, the
    server seeing that log. C10: one send per request, to the URL with its query
    string, with the verb of \<open>http_method\<close> for each tag (GET, POST, PATCH,
    PUT, DELETE) and the encoded body exactly for Post/Patch/Put; C11: the bearer header exactly when an
    API key is given, and the crate's user agent always.
  \<^item> \<open>Tasks\<close> (modelled from the specification, section 4.3): task statuses, the
    service's lifecycle \<open>task_step\<close> (a terminal status has no successor),
    \<open>get_task\<close> as \<open>GET /tasks/{uid}\<close> expecting 200, and the poller
    \<open>wait_loop\<close>, a \<open>partial_function (option)\<close>: fetch; a terminal task is
    returned as it is; past the timeout \<open>Timeout\<close>; otherwise sleep one
    interval. Its clock is the sum of the sleeps, in milliseconds; the defaults
    are 50 ms and 5000 ms. The lemmas give termination for a positive interval
    (a measure on timeout minus elapsed), partial correctness by
    \<open>raw_induct\<close>, exact runs for scripted sources, and divergence for a zero
    interval. \<open>try_make_index\<close> turns a succeeded index creation into a handle.
  \<^item> \<open>Settings\<close> (\<open>settings.rs\<close>): the \<open>Settings\<close> record, its ten builders, the
    keys of its derived serializer, and the 33 get/set/reset facades as
    dispatcher calls (\<open>perform\<close>). The source calls
    \<open>self.client.http_client.request\<close> through a trait \<open>HttpClient\<close> that the
    staged \<open>request.rs\<close> does not define; the model routes the facades through
    the staged trait \<open>RequestClient\<close> and its \<open>request\<close>, the one
    dispatcher the staged sources give, with the same arguments (URL, API key,
    method, expected status). C17: each get/set/reset triple shares one
    route with the right verbs and statuses; C18: the eleven routes are
    distinct; C19: the body names each present field once and is empty exactly
    for \<open>Settings::new()\<close>.
  \<^item> \<open>IndexConfig\<close> (the derive macro, \<open>meilisearch-index-setting-macro/src/lib.rs\<close>):
    the syntax it reads (fields with their \<open>syn\<close> attributes and token trees),
    \<open>extract_all_attr_values\<close> with its compile errors in source order,
    \<open>validate_punct\<close>, the field loop of \<open>get_index_config_implementation\<close>
    with its \<open>unwrap\<close> on the field name, the settings tokens and
    \<open>generate_index_settings\<close>. Every loop is a \<open>fold_result\<close>. An abstract
    view, the annotations of each field, is refined by each loop in turn
    (tokens, token trees, attributes, attribute list, fields). C20 the macro
    accepts exactly the well-formed structs and emits the implementation read off
    the annotations; C21 an accepted struct has one primary key and one distinct
    field at most; C22--C24 the unknown-property and second-primary-key
    compile errors and the panic on an annotated unnamed field; C25 the index name
    of an UpperCamel struct; C26 the loop invariant on the global attribute set and
    duplicate-free settings lists; C31 the derived index name of an identifier made
    of ASCII letters, digits and underscores is a well-formed index uid (lower-case
    letters, digits, underscores) beginning with the identifier's first character
    in lower case. The case conversion of the \<open>convert_case\<close> library
    (\<open>Case::Snake\<close>) is modelled for ASCII: the word boundaries of its default
    set (LowerUpper, Acronym, LowerDigit, UpperDigit, DigitUpper, DigitLower),
    so \<open>Movie2Clips\<close> becomes \<open>movie_2_clips\<close> and \<open>HTTPServer\<close>
    \<open>http_server\<close>; an existing underscore is kept as it is.
  \<^item> \<open>Documents\<close> (\<open>documents.rs\<close>): the three document query records with their
    builders and the pairs their derived \<open>Serialize\<close> emits, \<open>DocumentsResults\<close>,
    the trait's \<open>index\<close>, and the macro's emitted \<open>generate_index\<close>: create the
    index (\<open>Client::create_index\<close>, not staged, is a parameter answering a
    \<open>TaskInfo\<close>), \<open>unwrap\<close>, wait with the default interval and timeout,
    \<open>unwrap\<close>, \<open>try_make_index\<close>; a panic of an \<open>unwrap\<close> is \<open>Inl\<close>. C27 any
    chain of \<open>DocumentsQuery\<close> builder calls serializes to the keys in declaration
    order with the last value set; C28 the result of \<open>generate_index\<close> is
    \<open>try_make_index\<close> of a terminal task fetched for the created task.
    C32 its error paths: a failed creation call panics with its error, and an
    \<open>Err(task)\<close> result is a terminal task that did not name a created index.
  \<^item> \<open>SettingsService\<close> (the test module of \<open>settings.rs\<close>): the test
    \<open>test_set_faceting_settings\<close> and the set/reset/get pattern of the other
    tests, generalised to the ten per-route settings, as step sequences (\<open>sc_bind\<close>: call, \<open>unwrap\<close>, \<open>wait_for_task\<close>, read) over the
    native client, the dispatcher and the poller, run against a reference service:
    a \<open>server\<close> whose state is the replay of its request log, which enqueues each
    settings mutation as a task and applies it when the task is polled. The JSON
    library is a codec parameter, assumed only to round-trip the values sent.
    C29 a whole-settings \<open>PATCH\<close> built with \<open>with_faceting\<close>, waited for, is
    read back through the faceting route; C30 for each of the ten routes, set,
    wait, reset with the matching \<open>reset_*\<close> facade, wait and get answers what
    the get answers on a fresh index; C33 every one of the ten per-route setters,
    waited for, is read back by its getter as the body sent.
  \<^item> This theory: the poller over the dispatcher. C12 termination of
    \<open>wait_for_completion\<close> for a positive interval; C13 a returned task is
    terminal and is what \<open>GET /tasks/{uid}\<close> answered; C14 the specification's
    scenario (enqueued, processing, succeeded: three requests, two sleeps) through
    the reference native client; C15 a job that never ends times out at the first
    multiple of the interval past the timeout, at most one interval late; C16 a
    zero interval polls forever. Fixtures: \<open>scripted_server\<close> and \<open>task_env\<close>;
    \<open>service_create\<close>, \<open>creation_server\<close> and \<open>creation_env\<close> run the macro's
    implementation for the \<open>MovieClips\<close> struct of \<open>documents.rs\<close> in the
    witnesses of C28 and C32.

  \<^bold>\<open>Extent.\<close> The staged code that is not modelled is documentation, imports
  and module declarations, the six settings tests whose pattern C30 and C33
  generalise, and the \<open>#[meilisearch_test]\<close> functions of
  \<open>documents.rs\<close>, which exercise \<open>Index\<close> methods whose source is not staged.

  \<^bold>\<open>Not modelled.\<close> JSON (de)serialization and URL encoding are library
  code: they enter as parameters. The browser transport is covered only through
  the transport interface. \<open>src/src/lib.rs\<close> holds documentation and module
  declarations, \<open>src/src/document.rs\<close> a trait without behaviour. The
  \<open>execute\<close> methods of the document queries call \<open>Index\<close> methods whose source
  is not staged and whose routes the specification does not give.
\<close>

section \<open>The poller over the dispatcher\<close>

text \<open>Test fixtures of the specification's scenarios: task 7 of index
  \<open>movies\<close>, a decoder for the three status bodies the fixture server sends,
  and a server that answers its \<open>n\<close>-th request with the \<open>n\<close>-th body of a
  script (the last one from then on).\<close>

definition demo_task :: "task_status \<Rightarrow> task" where
  "demo_task st = \<lparr>task_uid = 7, task_status = st, task_index_uid = Some ''movies'', task_error = None\<rparr>"

definition task_env :: "(unit, task) crate_env" where
  "task_env =
     \<lparr>cargo_pkg_version = None, yaup_to_string = (\<lambda>q. Inr []),
      from_str = (\<lambda>b. if b = ''enqueued'' then Inr (demo_task Enqueued)
                      else if b = ''processing'' then Inr (demo_task Processing)
                      else if b = ''succeeded'' then Inr (demo_task Succeeded)
                      else Inl ''unknown variant''),
      from_str_error = (\<lambda>b. Inl ''not an error payload'')\<rparr>"

definition scripted_server :: "string list \<Rightarrow> server" where
  "scripted_server bodies r log = Inr (200, bodies ! min (length log) (length bodies - 1))"

definition task_request :: "client \<Rightarrow> nat \<Rightarrow> http_request" where
  "task_request cl tid =
     built_request (\<lambda>b::unit. []) None (host cl @ ''/tasks/'' @ nat_to_string tid) (api_key cl) (Get ())
       CONTENT_TYPE"

text \<open>Fixtures of the \<open>generate_index\<close> test: a service whose \<open>create_index\<close>
  enqueues task 7 and records the name and primary key it was given, and whose
  task route answers \<open>enqueued\<close> once, then \<open>succeeded\<close> with the recorded name.\<close>

definition creation_task :: "task_status \<Rightarrow> string option \<Rightarrow> task" where
  "creation_task st u = \<lparr>task_uid = 7, task_status = st, task_index_uid = u, task_error = None\<rparr>"

definition creation_env :: "(unit, task) crate_env" where
  "creation_env =
     \<lparr>cargo_pkg_version = None, yaup_to_string = (\<lambda>q. Inr []),
      from_str = (\<lambda>b. if b = ''enqueued'' then Inr (creation_task Enqueued None)
                      else if take 10 b = ''succeeded:'' then Inr (creation_task Succeeded (Some (drop 10 b)))
                      else if b = ''failed'' then Inr (creation_task Failed None)
                      else Inl ''unknown variant''),
      from_str_error = (\<lambda>b. Inl ''not an error payload'')\<rparr>"

definition creation_request :: "string \<Rightarrow> string option \<Rightarrow> http_request" where
  "creation_request u pk =
     \<lparr>req_url = ''/indexes'', req_method = POST,
      req_headers = (case pk of None \<Rightarrow> [] | Some k \<Rightarrow> [(''primaryKey'', k)]), req_body = Some u\<rparr>"

definition service_create :: "string \<Rightarrow> string option \<Rightarrow> http_request list \<Rightarrow> (error + task_info) \<times> http_request list" where
  "service_create u pk log =
     (Inr \<lparr>task_info_uid = 7, task_info_status = Enqueued\<rparr>, log @ [creation_request u pk])"

definition creation_server :: server where
  "creation_server r log =
     Inr (200, if length log \<le> 1 then ''enqueued'' else ''succeeded:'' @ the (req_body (hd log)))"

definition rejecting_create ::
  "string \<Rightarrow> string option \<Rightarrow> http_request list \<Rightarrow> (error + task_info) \<times> http_request list" where
  "rejecting_create u pk log = (Inl InvalidRequest, log)"

definition failing_server :: server where
  "failing_server r log = Inr (200, ''failed'')"

lemma get_task_scripted:
  "get_task (native_client (\<lambda>b::unit. []) (scripted_server bs)) task_env cl tid log =
     (parse_response (from_str task_env) (from_str_error task_env) 200 200
        (bs ! min (length log) (length bs - 1)) (host cl @ ''/tasks/'' @ nat_to_string tid),
      log @ [task_request cl tid])"
proof -
  have q: "yaup_to_string task_env (query (Get ())) = Inr []" by (simp add: task_env_def)
  show ?thesis
    using rc_request_native [OF q, where enc = "\<lambda>b::unit. []" and srv = "scripted_server bs"
        and u = "host cl @ ''/tasks/'' @ nat_to_string tid" and k = "api_key cl" and ct = CONTENT_TYPE
        and x = 200 and log = log]
    by (simp add: get_task_def task_request_def scripted_server_def task_env_def Let_def)
qed

lemma get_task_fetch_eq:
  "get_task rc env cl tid =
     (\<lambda>w. rc_request rc env (host cl @ ''/tasks/'' @ nat_to_string tid) (api_key cl) (Get ()) CONTENT_TYPE 200 w)"
  by (simp add: get_task_def fun_eq_iff)

text \<open>C12: waiting for a task with a positive interval always returns, whatever
  the transport and the service answer.\<close>

theorem wait_for_completion_terminates:
  assumes "0 < i"
  shows "\<exists>r. wait_for_completion rc env cl tid (Some i) tmo w = Some r"
  using wait_loop_terminates [OF assms] by (simp add: wait_for_completion_def wait_for_task_def)

text \<open>C13: a task the poller returns is terminal and is exactly the value a
  \<open>GET /tasks/{tid}\<close> expecting 200 returned; \<open>Timeout\<close> comes only after the
  deadline, and any other error is one that request returned.\<close>

theorem wait_for_completion_sound:
  assumes "wait_for_completion rc env cl tid iv tmo w = Some (r, e', w')"
  shows "(\<forall>t. r = Inr t \<longrightarrow> is_terminal (task_status t) \<and>
            (\<exists>w0. fst (rc_request rc env (host cl @ ''/tasks/'' @ nat_to_string tid) (api_key cl) (Get ())
                          CONTENT_TYPE 200 w0) = Inr t)) \<and>
         (\<forall>err. r = Inl err \<longrightarrow>
            (err = Timeout \<and> (case tmo of None \<Rightarrow> DEFAULT_TIMEOUT | Some T \<Rightarrow> T) < e') \<or>
            (\<exists>w0. fst (rc_request rc env (host cl @ ''/tasks/'' @ nat_to_string tid) (api_key cl) (Get ())
                          CONTENT_TYPE 200 w0) = Inl err))"
  using wait_loop_sound [OF assms [unfolded wait_for_completion_def wait_for_task_def get_task_fetch_eq]]
  by simp

text \<open>C14: the specification's scenario. The service answers the first poll
  \<open>enqueued\<close>, the second \<open>processing\<close>, the third \<open>succeeded\<close>: the
  poller returns the succeeded task unchanged after exactly three
  \<open>GET /tasks/7\<close> requests and two sleeps, provided the timeout is not
  shorter than one interval.\<close>

theorem wait_for_completion_three_polls:
  assumes "i \<le> T"
  shows "wait_for_completion (native_client (\<lambda>b::unit. [])
            (scripted_server [''enqueued'', ''processing'', ''succeeded''])) task_env cl 7 (Some i) (Some T) [] =
           Some (Inr (demo_task Succeeded), 2 * i, replicate 3 (task_request cl 7))"
proof -
  let ?fetch = "get_task (native_client (\<lambda>b::unit. [])
                  (scripted_server [''enqueued'', ''processing'', ''succeeded''])) task_env cl 7"
  have f0: "?fetch [] = (Inr (demo_task Enqueued), [task_request cl 7])"
    by (simp only: get_task_scripted) (simp add: task_env_def parse_response_def empty_as_null_def)
  have f1: "?fetch [task_request cl 7] = (Inr (demo_task Processing), replicate 2 (task_request cl 7))"
    by (simp only: get_task_scripted) (simp add: task_env_def parse_response_def empty_as_null_def numeral_2_eq_2)
  have f2: "?fetch (replicate 2 (task_request cl 7)) = (Inr (demo_task Succeeded), replicate (Suc 2) (task_request cl 7))"
    by (simp only: get_task_scripted) (simp add: task_env_def parse_response_def empty_as_null_def numeral_2_eq_2)
  have "wait_loop ?fetch i T 0 (replicate 0 (task_request cl 7)) =
          Some (Inr (demo_task Succeeded), 2 * i, replicate (Suc 2) (task_request cl 7))"
  proof (rule wait_loop_run [where ts = "\<lambda>j. demo_task (if j = 0 then Enqueued else Processing)"])
    show "\<forall>j<2. ?fetch (replicate j (task_request cl 7)) =
            (Inr (demo_task (if j = 0 then Enqueued else Processing)), replicate (Suc j) (task_request cl 7)) \<and>
            \<not> is_terminal (task_status (demo_task (if j = 0 then Enqueued else Processing))) \<and> j * i \<le> T"
      using assms f0 f1 by (auto simp: less_Suc_eq numeral_2_eq_2 demo_task_def)
    show "?fetch (replicate 2 (task_request cl 7)) = (Inr (demo_task Succeeded), replicate (Suc 2) (task_request cl 7))"
      by (rule f2)
    show "is_terminal (task_status (demo_task Succeeded))" by (simp add: demo_task_def)
  qed
  then show ?thesis by (simp add: wait_for_completion_def wait_for_task_def numeral_3_eq_3)
qed

text \<open>C15: when every \<open>GET /tasks/{tid}\<close> answers a task that is not
  terminal, the poller returns \<open>Timeout\<close> at the first multiple of the interval
  past the timeout: not earlier, and at most one interval later.\<close>

theorem wait_for_completion_timeout_exact:
  assumes "\<forall>w. \<exists>t w'. rc_request rc env (host cl @ ''/tasks/'' @ nat_to_string tid) (api_key cl) (Get ())
                        CONTENT_TYPE 200 w = (Inr t, w') \<and> \<not> is_terminal (task_status t)"
    and "0 < i"
  shows "\<exists>w'. wait_for_completion rc env cl tid (Some i) (Some T) w = Some (Inl Timeout, (T div i + 1) * i, w') \<and>
              T < (T div i + 1) * i \<and> (T div i + 1) * i \<le> T + i"
proof -
  have "\<forall>w. \<exists>t w'. get_task rc env cl tid w = (Inr t, w') \<and> \<not> is_terminal (task_status t)"
    using assms(1) by (simp add: get_task_fetch_eq)
  from wait_loop_never_done [OF this assms(2), of 0 T w]
  obtain w' where "wait_loop (get_task rc env cl tid) i T 0 w = Some (Inl Timeout, (T div i + 1) * i, w')"
    by auto
  moreover have "T < (T div i + 1) * i" using assms(2) by (rule div_overshoot)
  moreover have "(T div i + 1) * i \<le> T + i" using div_times_less_eq_dividend [of T i] by simp
  ultimately show ?thesis by (auto simp: wait_for_completion_def wait_for_task_def)
qed

text \<open>C16: with an explicit zero interval the poller's clock never advances,
  so a task that never ends is polled forever: the result is \<open>None\<close>.\<close>

theorem wait_for_completion_zero_interval_diverges:
  assumes "\<forall>w. \<exists>t w'. rc_request rc env (host cl @ ''/tasks/'' @ nat_to_string tid) (api_key cl) (Get ())
                        CONTENT_TYPE 200 w = (Inr t, w') \<and> \<not> is_terminal (task_status t)"
  shows "wait_for_completion rc env cl tid (Some 0) tmo w = None"
proof -
  have "\<forall>w. \<exists>t w'. get_task rc env cl tid w = (Inr t, w') \<and> \<not> is_terminal (task_status t)"
    using assms by (simp add: get_task_fetch_eq)
  from wait_loop_zero_interval_diverges [OF this, of 0] show ?thesis
    by (simp add: wait_for_completion_def wait_for_task_def)
qed

section \<open>Witnesses\<close>

theorem wait_for_completion_terminates_witness:
  "\<exists>r. wait_for_completion (native_client (\<lambda>b::unit. []) (scripted_server [''enqueued'']))
         task_env \<lparr>host = ''http://localhost:7700'', api_key = None\<rparr> 7 (Some 10) None [] = Some r"
  by (rule wait_for_completion_terminates) simp

lemma enqueued_forever:
  "\<forall>w. \<exists>t w'. rc_request (native_client (\<lambda>b::unit. []) (scripted_server [''enqueued''])) task_env
          (host (cl::client) @ ''/tasks/'' @ nat_to_string tid) (api_key cl) (Get ()) CONTENT_TYPE 200 w = (Inr t, w') \<and>
        \<not> is_terminal (task_status t)"
proof
  fix w
  have "get_task (native_client (\<lambda>b::unit. []) (scripted_server [''enqueued''])) task_env cl tid w =
          (Inr (demo_task Enqueued), w @ [task_request cl tid])"
    by (simp only: get_task_scripted) (simp add: task_env_def parse_response_def empty_as_null_def)
  then show "\<exists>t w'. rc_request (native_client (\<lambda>b::unit. []) (scripted_server [''enqueued''])) task_env
          (host cl @ ''/tasks/'' @ nat_to_string tid) (api_key cl) (Get ()) CONTENT_TYPE 200 w = (Inr t, w') \<and>
        \<not> is_terminal (task_status t)"
    by (simp add: get_task_def demo_task_def)
qed

theorem wait_for_completion_sound_witness:
  "wait_for_completion (native_client (\<lambda>b::unit. []) (scripted_server [''succeeded''])) task_env
     \<lparr>host = ''http://localhost:7700'', api_key = Some ''masterKey''\<rparr> 7 None None [] =
     Some (Inr (demo_task Succeeded), 0, [task_request \<lparr>host = ''http://localhost:7700'', api_key = Some ''masterKey''\<rparr> 7]) \<and>
   is_terminal (task_status (demo_task Succeeded)) \<and>
   (\<exists>w0. fst (rc_request (native_client (\<lambda>b::unit. []) (scripted_server [''succeeded''])) task_env
            (''http://localhost:7700'' @ ''/tasks/'' @ nat_to_string 7) (Some ''masterKey'') (Get ())
            CONTENT_TYPE 200 w0) = Inr (demo_task Succeeded))"
proof -
  let ?cl = "\<lparr>host = ''http://localhost:7700'', api_key = Some ''masterKey''\<rparr>"
  have f: "get_task (native_client (\<lambda>b::unit. []) (scripted_server [''succeeded''])) task_env ?cl 7 [] =
             (Inr (demo_task Succeeded), [task_request ?cl 7])"
    by (simp only: get_task_scripted) (simp add: task_env_def parse_response_def empty_as_null_def)
  have run: "wait_for_completion (native_client (\<lambda>b::unit. []) (scripted_server [''succeeded''])) task_env ?cl 7
          None None [] = Some (Inr (demo_task Succeeded), 0, [task_request ?cl 7])"
    by (subst wait_for_completion_def, subst wait_for_task_def, subst wait_loop.simps)
       (simp add: f demo_task_def)
  show ?thesis using wait_for_completion_sound [OF run] run by simp
qed

theorem wait_for_completion_three_polls_witness:
  "wait_for_completion (native_client (\<lambda>b::unit. [])
      (scripted_server [''enqueued'', ''processing'', ''succeeded''])) task_env
      \<lparr>host = ''http://localhost:7700'', api_key = Some ''masterKey''\<rparr> 7 (Some 10) (Some 50) [] =
   Some (Inr (demo_task Succeeded), 20,
         replicate 3 (task_request \<lparr>host = ''http://localhost:7700'', api_key = Some ''masterKey''\<rparr> 7))"
  using wait_for_completion_three_polls [of 10 50] by simp

theorem wait_for_completion_timeout_exact_witness:
  "\<exists>w'. wait_for_completion (native_client (\<lambda>b::unit. []) (scripted_server [''enqueued''])) task_env
          \<lparr>host = ''http://localhost:7700'', api_key = None\<rparr> 7 (Some 10) (Some 50) [] = Some (Inl Timeout, 60, w')"
  using wait_for_completion_timeout_exact [OF enqueued_forever, where i = 10 and T = 50] by simp

theorem wait_for_completion_zero_interval_diverges_witness:
  "wait_for_completion (native_client (\<lambda>b::unit. []) (scripted_server [''enqueued''])) task_env
      \<lparr>host = ''http://localhost:7700'', api_key = None\<rparr> 7 (Some 0) None [] = None"
  by (rule wait_for_completion_zero_interval_diverges [OF enqueued_forever])

lemma get_task_native:
  assumes "yaup_to_string env () = Inr []" and "cargo_pkg_version env = None"
    and "srv (task_request cl tid) log = Inr (200, body)"
  shows "get_task (native_client (\<lambda>b::unit. []) srv) env cl tid log =
           (parse_response (from_str env) (from_str_error env) 200 200 body (host cl @ ''/tasks/'' @ nat_to_string tid),
            log @ [task_request cl tid])"
proof -
  have q: "yaup_to_string env (query (Get ())) = Inr []" using assms(1) by simp
  show ?thesis
    using rc_request_native [OF q, where enc = "\<lambda>b::unit. []" and srv = srv
        and u = "host cl @ ''/tasks/'' @ nat_to_string tid" and k = "api_key cl" and ct = CONTENT_TYPE
        and x = 200 and log = log] assms(2,3)
    by (simp add: get_task_def task_request_def Let_def)
qed

lemma generate_index_creation_run:
  "generate_index service_create (native_client (\<lambda>b::unit. []) creation_server) creation_env cl impl [] =
     Some (Inr (Inr (client_index cl (index_str impl))),
           [creation_request (index_str impl) (primary_key_token impl), task_request cl 7, task_request cl 7])"
proof -
  let ?c = "creation_request (index_str impl) (primary_key_token impl)"
  let ?fetch = "get_task (native_client (\<lambda>b::unit. []) creation_server) creation_env cl 7"
  have env: "yaup_to_string creation_env () = Inr []" "cargo_pkg_version creation_env = None"
    by (simp_all add: creation_env_def)
  have s0: "creation_server (task_request cl 7) [?c] = Inr (200, ''enqueued'')"
    by (simp add: creation_server_def)
  have s1: "creation_server (task_request cl 7) [?c, task_request cl 7] =
              Inr (200, ''succeeded:'' @ index_str impl)"
    by (simp add: creation_server_def creation_request_def)
  have f0: "?fetch [?c] = (Inr (creation_task Enqueued None), [?c, task_request cl 7])"
    by (simp only: get_task_native [where srv = creation_server, OF env s0])
       (simp add: creation_env_def parse_response_def empty_as_null_def)
  have f1: "?fetch [?c, task_request cl 7] =
              (Inr (creation_task Succeeded (Some (index_str impl))), [?c, task_request cl 7, task_request cl 7])"
    by (simp only: get_task_native [where srv = creation_server, OF env s1])
       (simp add: creation_env_def parse_response_def empty_as_null_def)
  have "wait_loop ?fetch DEFAULT_INTERVAL DEFAULT_TIMEOUT 0 [?c] =
          Some (Inr (creation_task Succeeded (Some (index_str impl))), DEFAULT_INTERVAL,
                [?c, task_request cl 7, task_request cl 7])"
    using wait_loop_run [where k = 1 and ws = "\<lambda>j. if j = 0 then [?c] else if j = 1 then [?c, task_request cl 7]
                                                   else [?c, task_request cl 7, task_request cl 7]"
        and ts = "\<lambda>j. creation_task Enqueued None" and fetch = ?fetch and i = DEFAULT_INTERVAL
        and T = DEFAULT_TIMEOUT and t = "creation_task Succeeded (Some (index_str impl))"]
      f0 f1 by (simp add: creation_task_def DEFAULT_INTERVAL_def DEFAULT_TIMEOUT_def)
  then show ?thesis
    by (simp add: generate_index_wait service_create_def try_make_index_def creation_task_def)
qed

lemma movie_clips_spec:
  "index_str (index_config_spec ''MovieClips'' movie_clips) = ''movie_clips''"
  "primary_key_token (index_config_spec ''MovieClips'' movie_clips) = Some ''movie_id''"
  by (simp_all add: index_config_spec_def spec_key_def spec_list_def marked_def movie_clips_def annotation_eval
      snake_eval)

theorem generate_index_sound_witness:
  "generate_index service_create (native_client (\<lambda>b::unit. []) creation_server) creation_env
     \<lparr>host = ''http://localhost:7700'', api_key = None\<rparr> (index_config_spec ''MovieClips'' movie_clips) [] =
   Some (Inr (Inr (client_index \<lparr>host = ''http://localhost:7700'', api_key = None\<rparr> ''movie_clips'')),
         [creation_request ''movie_clips'' (Some ''movie_id''),
          task_request \<lparr>host = ''http://localhost:7700'', api_key = None\<rparr> 7,
          task_request \<lparr>host = ''http://localhost:7700'', api_key = None\<rparr> 7]) \<and>
   (\<exists>ti t w0. fst (service_create ''movie_clips'' (Some ''movie_id'') []) = Inr ti \<and>
      fst (get_task (native_client (\<lambda>b::unit. []) creation_server) creation_env
             \<lparr>host = ''http://localhost:7700'', api_key = None\<rparr> (task_info_uid ti) w0) = Inr t \<and>
      is_terminal (task_status t) \<and>
      Inr (client_index \<lparr>host = ''http://localhost:7700'', api_key = None\<rparr> ''movie_clips'') =
        try_make_index \<lparr>host = ''http://localhost:7700'', api_key = None\<rparr> t)"
proof -
  have run: "generate_index service_create (native_client (\<lambda>b::unit. []) creation_server) creation_env
     \<lparr>host = ''http://localhost:7700'', api_key = None\<rparr> (index_config_spec ''MovieClips'' movie_clips) [] =
   Some (Inr (Inr (client_index \<lparr>host = ''http://localhost:7700'', api_key = None\<rparr> ''movie_clips'')),
         [creation_request ''movie_clips'' (Some ''movie_id''),
          task_request \<lparr>host = ''http://localhost:7700'', api_key = None\<rparr> 7,
          task_request \<lparr>host = ''http://localhost:7700'', api_key = None\<rparr> 7])"
    by (simp add: generate_index_creation_run movie_clips_spec)
  show ?thesis using generate_index_sound [OF run] run by (simp add: movie_clips_spec)
qed

lemma generate_index_failing_run:
  "generate_index service_create (native_client (\<lambda>b::unit. []) failing_server) creation_env cl impl [] =
     Some (Inr (Inl (creation_task Failed None)),
           [creation_request (index_str impl) (primary_key_token impl), task_request cl 7])"
proof -
  let ?c = "creation_request (index_str impl) (primary_key_token impl)"
  let ?fetch = "get_task (native_client (\<lambda>b::unit. []) failing_server) creation_env cl 7"
  have env: "yaup_to_string creation_env () = Inr []" "cargo_pkg_version creation_env = None"
    by (simp_all add: creation_env_def)
  have s0: "failing_server (task_request cl 7) [?c] = Inr (200, ''failed'')"
    by (simp add: failing_server_def)
  have f0: "?fetch [?c] = (Inr (creation_task Failed None), [?c, task_request cl 7])"
    by (simp only: get_task_native [where srv = failing_server, OF env s0])
       (simp add: creation_env_def parse_response_def empty_as_null_def)
  have "wait_loop ?fetch DEFAULT_INTERVAL DEFAULT_TIMEOUT 0 [?c] =
          Some (Inr (creation_task Failed None), 0, [?c, task_request cl 7])"
    using wait_loop_run [where k = 0 and ws = "\<lambda>j. if j = 0 then [?c] else [?c, task_request cl 7]"
        and ts = "\<lambda>j. creation_task Failed None" and fetch = ?fetch and i = DEFAULT_INTERVAL
        and T = DEFAULT_TIMEOUT and t = "creation_task Failed None"]
      f0 by (simp add: creation_task_def)
  then show ?thesis
    by (simp add: generate_index_wait service_create_def try_make_index_def creation_task_def)
qed

theorem generate_index_error_paths_witness:
  "fst (rejecting_create (index_str (index_config_spec ''MovieClips'' movie_clips))
          (primary_key_token (index_config_spec ''MovieClips'' movie_clips)) []) = Inl InvalidRequest \<and>
   generate_index rejecting_create (native_client (\<lambda>b::unit. []) creation_server) creation_env
     \<lparr>host = ''http://localhost:7700'', api_key = None\<rparr> (index_config_spec ''MovieClips'' movie_clips) [] =
     Some (Inl InvalidRequest, []) \<and>
   generate_index service_create (native_client (\<lambda>b::unit. []) failing_server) creation_env
     \<lparr>host = ''http://localhost:7700'', api_key = None\<rparr> (index_config_spec ''MovieClips'' movie_clips) [] =
     Some (Inr (Inl (creation_task Failed None)),
           [creation_request ''movie_clips'' (Some ''movie_id''),
            task_request \<lparr>host = ''http://localhost:7700'', api_key = None\<rparr> 7]) \<and>
   is_terminal (task_status (creation_task Failed None))"
proof -
  have h1: "fst (rejecting_create (index_str (index_config_spec ''MovieClips'' movie_clips))
          (primary_key_token (index_config_spec ''MovieClips'' movie_clips)) []) = Inl InvalidRequest"
    by (simp add: rejecting_create_def)
  have h2: "generate_index service_create (native_client (\<lambda>b::unit. []) failing_server) creation_env
     \<lparr>host = ''http://localhost:7700'', api_key = None\<rparr> (index_config_spec ''MovieClips'' movie_clips) [] =
     Some (Inr (Inl (creation_task Failed None)),
           [creation_request ''movie_clips'' (Some ''movie_id''),
            task_request \<lparr>host = ''http://localhost:7700'', api_key = None\<rparr> 7])"
    by (simp add: generate_index_failing_run movie_clips_spec)
  show ?thesis
    using generate_index_error_paths [of rejecting_create "index_config_spec ''MovieClips'' movie_clips" "[]"
        InvalidRequest "native_client (\<lambda>b::unit. []) creation_server" creation_env
        "\<lparr>host = ''http://localhost:7700'', api_key = None\<rparr>"]
      generate_index_error_paths [of service_create "index_config_spec ''MovieClips'' movie_clips" "[]"
        _ "native_client (\<lambda>b::unit. []) failing_server" creation_env
        "\<lparr>host = ''http://localhost:7700'', api_key = None\<rparr>"]
      h1 h2
    by (simp add: rejecting_create_def)
qed

end
